(* ===== verification/Prelude.thy ===== *)
theory Prelude
  imports Complex_Main "HOL-Library.Sublist"
begin

text \<open>
  Shared vocabulary of the development: the collections of facts the component
  theories feed to the simplifier, the representation of time stamps, the error
  values of the script, and the facts about lists, options and sums that more
  than one component needs.

  \<^item> \<open>eval_defs\<close> collects the definitions that are unfolded together when a
    closed table is evaluated (the witnesses of the components use it);
  \<^item> \<open>frame_simps\<close> collects the characteristic equations of the table
    operations (what an operation does to \<open>set\<close>, \<open>length\<close>, \<open>distinct\<close>);
  \<^item> \<open>inv_intros\<close> collects the preservation lemmas of row invariants.
\<close>

named_theorems eval_defs
named_theorems frame_simps
named_theorems inv_intros

section \<open>Time stamps\<close>

text \<open>
  A pandas \<open>Timestamp\<close> is a count of nanoseconds since the epoch; the missing
  time stamp \<open>NaT\<close> is \<open>None\<close> of \<open>timestamp option\<close>. \<open>pd.Timedelta(days=1)\<close> is
  \<open>one_day\<close>.
\<close>

type_synonym timestamp = int

definition one_day :: int where
  "one_day = 86400000000000"

section \<open>Errors of the script\<close>

text \<open>
  The exceptions that the calls of the script can raise: the \<open>ValueError\<close> of
  scikit-learn (no sample, fewer samples than clusters, a \<open>NaN\<close> in the matrix)
  and of a cast to \<open>int\<close> that fails, the \<open>IndexError\<close> of \<open>iloc[0]\<close> on a
  selection without rows, the \<open>KeyError\<close> of an access to columns that the
  table does not have (it carries their names), and the \<open>TypeError\<close> of a
  comparison or a product with a cell of the wrong type. Functions that can
  raise return \<open>error + 'a\<close> with \<open>Inl\<close> the error.
\<close>

datatype error = ValueError | IndexError | KeyError "string list" | TypeError

type_synonym 'a result = "error + 'a"

definition bind_result :: "'a result \<Rightarrow> ('a \<Rightarrow> 'b result) \<Rightarrow> 'b result" where
  "bind_result m f = (case m of Inl e \<Rightarrow> Inl e | Inr x \<Rightarrow> f x)"

section \<open>Facts about the time unit\<close>

lemma one_day_pos [simp]: "0 < one_day"
  by (simp add: one_day_def)

lemma one_day_div_self [simp]: "one_day div one_day = 1"
  by (simp add: one_day_def)

lemma one_day_div_ge1: "0 \<le> d \<Longrightarrow> 1 \<le> (d + one_day) div one_day"
proof -
  assume "0 \<le> d"
  then have "one_day \<le> d + one_day" by simp
  then have "one_day div one_day \<le> (d + one_day) div one_day"
    by (rule zdiv_mono1) simp
  then show ?thesis by simp
qed

section \<open>Facts about the error monad\<close>

lemma bind_result_simps [simp]:
  "bind_result (Inl e) f = Inl e"
  "bind_result (Inr x) f = f x"
  by (simp_all add: bind_result_def)

lemma bind_result_Inr_iff:
  "bind_result m f = Inr y \<longleftrightarrow> (\<exists>x. m = Inr x \<and> f x = Inr y)"
  by (cases m) auto

lemma bind_result_Inl_iff:
  "bind_result m f = Inl e \<longleftrightarrow> m = Inl e \<or> (\<exists>x. m = Inr x \<and> f x = Inl e)"
  by (cases m) auto

lemma bind_result_assoc:
  "bind_result (bind_result m f) g = bind_result m (\<lambda>x. bind_result (f x) g)"
  by (cases m) simp_all

lemma bind_result_Inr [simp]: "bind_result m Inr = m"
  by (cases m) simp_all

section \<open>Facts about lists\<close>

lemma map_fst_zip_same:
  "length ys = length xs \<Longrightarrow> map (\<lambda>p. f (fst p)) (zip xs ys) = map f xs"
  by (induction ys xs rule: list_induct2) simp_all

lemma sum_list_pos:
  fixes xs :: "'a::linordered_semidom list"
  shows "xs \<noteq> [] \<Longrightarrow> (\<And>x. x \<in> set xs \<Longrightarrow> 0 < x) \<Longrightarrow> 0 < sum_list xs"
proof (induction xs)
  case Nil
  then show ?case by simp
next
  case (Cons x xs)
  have "0 \<le> sum_list xs"
    by (rule sum_list_nonneg) (use Cons.prems(2) in \<open>auto intro: less_imp_le\<close>)
  moreover have "0 < x" using Cons.prems(2) by simp
  ultimately show ?case by (simp add: add_pos_nonneg)
qed

lemma fold_max_ge_init:
  fixes x :: "'a::linorder"
  shows "x \<le> fold max xs x"
proof (induction xs arbitrary: x)
  case Nil
  show ?case by simp
next
  case (Cons y ys)
  have "x \<le> max y x" by simp
  also have "\<dots> \<le> fold max ys (max y x)" by (rule Cons.IH)
  finally show ?case by simp
qed

lemma fold_max_eq_Max:
  fixes x :: "'a::linorder"
  shows "fold max xs x = Max (set (x # xs))"
  by (rule Max.set_eq_fold [symmetric])

lemma fold_max_ge_member:
  fixes x :: "'a::linorder"
  shows "y \<in> set (x # xs) \<Longrightarrow> y \<le> fold max xs x"
  unfolding fold_max_eq_Max by (rule Max_ge) auto

lemma fold_max_member:
  fixes x :: "'a::linorder"
  shows "fold max xs x \<in> set (x # xs)"
  unfolding fold_max_eq_Max by (rule Max_in) auto

lemma filter_eq_self_iff: "filter P xs = xs \<longleftrightarrow> (\<forall>x\<in>set xs. P x)"
  by (induction xs) (auto dest: filter_eq_ConsD)

section \<open>Facts about \<open>List.map_filter\<close>\<close>

lemma set_map_filter: "set (List.map_filter f xs) = {y. \<exists>x\<in>set xs. f x = Some y}"
  by (induction xs) (auto split: option.splits)

lemma length_map_filter_le: "length (List.map_filter f xs) \<le> length xs"
  by (induction xs) (auto split: option.splits)

lemma map_filter_map: "List.map_filter f (map g xs) = List.map_filter (f \<circ> g) xs"
  by (induction xs) (auto split: option.splits)

lemma map2_map_map: "map2 f (map g xs) (map h xs) = map (\<lambda>x. f (g x) (h x)) xs"
  by (induction xs) simp_all

lemma filter_map_cong:
  assumes "\<And>x. x \<in> set xs \<Longrightarrow> P (f x) \<longleftrightarrow> Q x"
  shows "filter P (map f xs) = map f (filter Q xs)"
  using assms by (induction xs) simp_all

lemma map_filter_map_Some:
  assumes "\<And>x. x \<in> set xs \<Longrightarrow> f (g x) = Some (h x)"
  shows "List.map_filter f (map g xs) = map h xs"
  using assms by (induction xs) (simp_all add: List.map_filter_simps)

lemma map_filter_all_Some: "(\<And>x. x \<in> set xs \<Longrightarrow> f x = Some (g x)) \<Longrightarrow> List.map_filter f xs = map g xs"
  by (induction xs) auto

lemma distinct_map_filter_inj:
  "distinct xs \<Longrightarrow> (\<And>x y z. x \<in> set xs \<Longrightarrow> y \<in> set xs \<Longrightarrow> f x = Some z \<Longrightarrow> f y = Some z \<Longrightarrow> x = y)
    \<Longrightarrow> distinct (List.map_filter f xs)"
proof (induction xs)
  case Nil
  show ?case by simp
next
  case (Cons x xs)
  have IH: "distinct (List.map_filter f xs)"
    using Cons.prems by (intro Cons.IH) auto
  show ?case
  proof (cases "f x")
    case None
    with IH show ?thesis by simp
  next
    case (Some z)
    have "z \<notin> set (List.map_filter f xs)"
    proof
      assume "z \<in> set (List.map_filter f xs)"
      then obtain y where "y \<in> set xs" "f y = Some z" by (auto simp: set_map_filter)
      with Cons.prems(2) [of x y z] Some have "x = y" by simp
      with \<open>y \<in> set xs\<close> Cons.prems(1) show False by simp
    qed
    with IH Some show ?thesis by simp
  qed
qed

end
