(* ===== verification/Frame.thy ===== *)
theory Frame
  imports Prelude "HOL-Library.Multiset"
begin

text \<open>
  The table operations of pandas that \<open>src/customer_rfm.py\<close> calls, over a table
  as the list of its rows in index order: \<open>dropna\<close>, \<open>drop_duplicates\<close>,
  \<open>astype(int)\<close>, \<open>Series.max\<close>, \<open>Timedelta.days\<close>, \<open>nunique\<close> and \<open>groupby\<close>.
  Each definition gives the call the meaning it has at the options the script
  passes (\<open>keep='first'\<close>, \<open>skipna=True\<close>, \<open>sort=True\<close>), and the lemmas are the
  interface the component theories reason with: what the operation does to the
  set of rows, to their order, to their number.
\<close>

type_synonym 'r frame = "'r list"

section \<open>Operations\<close>

text \<open>\<open>df.dropna(subset=[col])\<close>: the rows whose cell in the column is present.\<close>

definition dropna_subset :: "('r \<Rightarrow> 'c option) \<Rightarrow> 'r frame \<Rightarrow> 'r frame" where
  "dropna_subset col df = filter (\<lambda>r. col r \<noteq> None) df"

text \<open>
  \<open>df.drop_duplicates()\<close>: of rows that agree on every column the first is kept,
  and the kept rows stay in their order.
\<close>

fun drop_duplicates :: "'r frame \<Rightarrow> 'r frame" where
  "drop_duplicates [] = []"
| "drop_duplicates (r # df) = r # drop_duplicates (filter (\<lambda>s. s \<noteq> r) df)"

text \<open>\<open>astype(int)\<close> on a float: the fractional part is cut off, towards zero.\<close>

definition astype_int :: "real \<Rightarrow> int" where
  "astype_int x = (if 0 \<le> x then \<lfloor>x\<rfloor> else \<lceil>x\<rceil>)"

text \<open>
  \<open>Series.max()\<close> skips missing cells; on a column with no present cell the
  result is missing.
\<close>

definition series_max :: "'a::linorder option list \<Rightarrow> 'a option" where
  "series_max xs =
     (case List.map_filter id xs of [] \<Rightarrow> None | y # ys \<Rightarrow> Some (fold max ys y))"

text \<open>\<open>Timedelta.days\<close>: whole days, rounded towards minus infinity.\<close>

definition timedelta_days :: "int \<Rightarrow> int" where
  "timedelta_days d = d div one_day"

text \<open>\<open>Series.nunique()\<close>: the number of distinct values.\<close>

definition nunique :: "'a list \<Rightarrow> nat" where
  "nunique xs = length (remdups xs)"

text \<open>
  \<open>df.groupby(key)\<close>: one group per distinct key, the keys ascending, each group
  the rows of that key in their order.
\<close>

definition group_keys :: "'k::linorder list \<Rightarrow> 'k list" where
  "group_keys ks = sort (remdups ks)"

definition groupby :: "('r \<Rightarrow> 'k::linorder) \<Rightarrow> 'r frame \<Rightarrow> ('k \<times> 'r frame) list" where
  "groupby key df = map (\<lambda>k. (k, filter (\<lambda>r. key r = k) df)) (group_keys (map key df))"

declare dropna_subset_def [eval_defs] astype_int_def [eval_defs] series_max_def [eval_defs]
  timedelta_days_def [eval_defs] nunique_def [eval_defs] group_keys_def [eval_defs]
  groupby_def [eval_defs] one_day_def [eval_defs]

section \<open>dropna\<close>

lemma set_dropna_subset [frame_simps]:
  "set (dropna_subset col df) = {r \<in> set df. col r \<noteq> None}"
  by (simp add: dropna_subset_def)

lemma dropna_subset_idem [frame_simps]:
  "dropna_subset col (dropna_subset col df) = dropna_subset col df"
  by (simp add: dropna_subset_def)

section \<open>drop\_duplicates\<close>

lemma set_drop_duplicates [simp, frame_simps]: "set (drop_duplicates df) = set df"
  by (induction df rule: drop_duplicates.induct) auto

lemma distinct_drop_duplicates [simp, frame_simps]: "distinct (drop_duplicates df)"
  by (induction df rule: drop_duplicates.induct) auto

lemma drop_duplicates_filter [frame_simps]:
  "drop_duplicates (filter P df) = filter P (drop_duplicates df)"
proof (induction df rule: drop_duplicates.induct)
  case 1
  show ?case by simp
next
  case (2 r df)
  have comm: "filter (\<lambda>s. s \<noteq> r) (filter P df) = filter P (filter (\<lambda>s. s \<noteq> r) df)"
    by (simp add: conj_commute)
  show ?case
  proof (cases "P r")
    case True
    with 2 comm show ?thesis by simp
  next
    case False
    then have "filter P df = filter P (filter (\<lambda>s. s \<noteq> r) df)"
      by (auto intro: filter_cong)
    with False 2 show ?thesis by simp
  qed
qed

lemma drop_duplicates_distinct [frame_simps]:
  "distinct df \<Longrightarrow> drop_duplicates df = df"
proof (induction df rule: drop_duplicates.induct)
  case 1
  show ?case by simp
next
  case (2 r df)
  from "2.prems" have "filter (\<lambda>s. s \<noteq> r) df = df"
    by (auto simp: filter_eq_self_iff)
  with 2 show ?case by simp
qed

lemma drop_duplicates_idem [frame_simps]:
  "drop_duplicates (drop_duplicates df) = drop_duplicates df"
  by (simp add: drop_duplicates_distinct)

lemma length_drop_duplicates [frame_simps]: "length (drop_duplicates df) \<le> length df"
proof (induction df rule: drop_duplicates.induct)
  case 1
  show ?case by simp
next
  case (2 r df)
  have "length (filter (\<lambda>s. s \<noteq> r) df) \<le> length df" by simp
  with 2 have "length (drop_duplicates (filter (\<lambda>s. s \<noteq> r) df)) \<le> length df"
    by (rule le_trans)
  then show ?case by simp
qed

lemma subseq_drop_duplicates [frame_simps]: "subseq (drop_duplicates df) df"
proof (induction df rule: drop_duplicates.induct)
  case 1
  show ?case by simp
next
  case (2 r df)
  have "subseq (filter (\<lambda>s. s \<noteq> r) df) df" by simp
  with 2 have "subseq (drop_duplicates (filter (\<lambda>s. s \<noteq> r) df)) df"
    by (rule subseq_order.trans)
  then show ?case by simp
qed

lemma drop_duplicates_map_inj [frame_simps]:
  "inj_on f (set df) \<Longrightarrow> drop_duplicates (map f df) = map f (drop_duplicates df)"
proof (induction df rule: drop_duplicates.induct)
  case 1
  show ?case by simp
next
  case (2 r df)
  from "2.prems" have inj: "inj_on f (set (filter (\<lambda>s. s \<noteq> r) df))"
    by (auto intro: inj_on_subset)
  from "2.prems" have "filter (\<lambda>s. s \<noteq> f r) (map f df) = map f (filter (\<lambda>s. s \<noteq> r) df)"
    by (auto simp: filter_map comp_def inj_on_def intro!: filter_cong arg_cong [where f = "map f"])
  with "2.IH" [OF inj] show ?case by simp
qed

text \<open>The first occurrences are the last occurrences of the reversed table.\<close>

lemma drop_duplicates_snoc:
  "drop_duplicates (df @ [r]) =
     (if r \<in> set df then drop_duplicates df else drop_duplicates df @ [r])"
  by (induction df rule: drop_duplicates.induct) auto

lemma drop_duplicates_remdups: "drop_duplicates df = rev (remdups (rev df))"
proof (induction df rule: rev_induct)
  case Nil
  show ?case by simp
next
  case (snoc r df)
  then show ?case by (simp add: drop_duplicates_snoc)
qed

section \<open>astype(int)\<close>

lemma astype_int_of_int [simp, frame_simps]: "astype_int (of_int i) = i"
  by (simp add: astype_int_def)

lemma astype_int_numeral [simp]:
  "astype_int (numeral n) = numeral n" "astype_int (- numeral n) = - numeral n"
  "astype_int 0 = 0" "astype_int 1 = 1" "astype_int (- 1) = - 1"
  using astype_int_of_int [of "numeral n"] astype_int_of_int [of "- numeral n"]
    astype_int_of_int [of 0] astype_int_of_int [of 1] astype_int_of_int [of "- 1"]
  by simp_all

lemma astype_int_nonneg [frame_simps]: "0 \<le> x \<Longrightarrow> 0 \<le> astype_int x"
  by (simp add: astype_int_def)

lemma astype_int_abs_le: "\<bar>of_int (astype_int x)\<bar> \<le> \<bar>x\<bar>"
proof (cases "0 \<le> x")
  case True
  then show ?thesis by (simp add: astype_int_def)
next
  case False
  then have "\<lceil>x\<rceil> \<le> 0" by (simp add: ceiling_le_iff)
  with False show ?thesis by (simp add: astype_int_def)
qed

section \<open>Series.max\<close>

lemma series_max_None_iff [frame_simps]:
  "series_max xs = None \<longleftrightarrow> (\<forall>x\<in>set xs. x = None)"
proof -
  have "List.map_filter id xs = [] \<longleftrightarrow> (\<forall>x\<in>set xs. x = None)"
    by (induction xs) (auto split: option.splits)
  then show ?thesis by (auto simp: series_max_def split: list.splits)
qed

lemma set_map_filter_id: "set (List.map_filter id xs) = {y. Some y \<in> set xs}"
  by (simp add: set_map_filter)

lemma series_max_Some_iff:
  "series_max xs = Some m \<longleftrightarrow> Some m \<in> set xs \<and> (\<forall>y. Some y \<in> set xs \<longrightarrow> y \<le> m)"
proof (cases "List.map_filter id xs")
  case Nil
  then have "{y. Some y \<in> set xs} = {}"
    using set_map_filter_id [of xs] by simp
  with Nil show ?thesis by (auto simp: series_max_def)
next
  case (Cons y ys)
  have S: "set (y # ys) = {y. Some y \<in> set xs}"
    using set_map_filter_id [of xs] Cons by simp
  have mem: "fold max ys y \<in> set (y # ys)" by (rule fold_max_member)
  have ge: "\<And>z. z \<in> set (y # ys) \<Longrightarrow> z \<le> fold max ys y" by (rule fold_max_ge_member)
  show ?thesis
  proof
    assume "series_max xs = Some m"
    with Cons have m: "m = fold max ys y" by (simp add: series_max_def)
    from mem ge show "Some m \<in> set xs \<and> (\<forall>y. Some y \<in> set xs \<longrightarrow> y \<le> m)"
      unfolding m S by blast
  next
    assume a: "Some m \<in> set xs \<and> (\<forall>y. Some y \<in> set xs \<longrightarrow> y \<le> m)"
    then have "m \<in> set (y # ys)" unfolding S by simp
    then have "m \<le> fold max ys y" by (rule ge)
    moreover from mem a have "fold max ys y \<le> m" unfolding S by blast
    ultimately show "series_max xs = Some m" using Cons by (simp add: series_max_def)
  qed
qed

lemma series_max_ge [frame_simps]:
  "series_max xs = Some m \<Longrightarrow> Some y \<in> set xs \<Longrightarrow> y \<le> m"
  by (simp add: series_max_Some_iff)

lemma series_max_member [frame_simps]: "series_max xs = Some m \<Longrightarrow> Some m \<in> set xs"
  by (simp add: series_max_Some_iff)

lemma series_max_exists [frame_simps]: "Some y \<in> set xs \<Longrightarrow> \<exists>m. series_max xs = Some m"
  using series_max_None_iff [of xs] by (cases "series_max xs") auto

lemma series_max_mono:
  assumes "set xs \<subseteq> set ys" and "series_max xs = Some a" and "series_max ys = Some b"
  shows "a \<le> b"
  using assms series_max_member [of xs a] series_max_ge [of ys b a] by blast

section \<open>nunique\<close>

lemma nunique_card [frame_simps]: "nunique xs = card (set xs)"
  by (simp add: nunique_def length_remdups_card_conv)

lemma nunique_pos [frame_simps]: "xs \<noteq> [] \<Longrightarrow> 1 \<le> nunique xs"
  by (cases xs) (auto simp: nunique_card card_insert_if Suc_le_eq card_gt_0_iff)

lemma nunique_le_length [frame_simps]: "nunique xs \<le> length xs"
  by (simp add: nunique_def)

section \<open>groupby\<close>

lemma set_group_keys [simp, frame_simps]: "set (group_keys ks) = set ks"
  by (simp add: group_keys_def)

lemma sorted_group_keys [simp, frame_simps]: "sorted (group_keys ks)"
  by (simp add: group_keys_def)

lemma distinct_group_keys [simp, frame_simps]: "distinct (group_keys ks)"
  by (simp add: group_keys_def)

lemma group_keys_eq_sorted_list_of_set: "group_keys ks = sorted_list_of_set (set ks)"
  by (simp add: group_keys_def sorted_list_of_set_sort_remdups)

lemma map_fst_groupby [simp, frame_simps]:
  "map fst (groupby key df) = group_keys (map key df)"
  by (simp add: groupby_def comp_def)

lemma groupby_Nil [simp]: "groupby key [] = []"
  by (simp add: groupby_def group_keys_def)

lemma groupby_member_iff:
  "(k, g) \<in> set (groupby key df) \<longleftrightarrow> k \<in> key ` set df \<and> g = filter (\<lambda>r. key r = k) df"
  by (auto simp: groupby_def)

lemma groupby_group_nonempty [frame_simps]: "(k, g) \<in> set (groupby key df) \<Longrightarrow> g \<noteq> []"
  by (auto simp: groupby_member_iff filter_empty_conv)

lemma groupby_group_key [frame_simps]:
  "(k, g) \<in> set (groupby key df) \<Longrightarrow> r \<in> set g \<Longrightarrow> key r = k \<and> r \<in> set df"
  by (auto simp: groupby_member_iff)

lemma groupby_covers [frame_simps]:
  "r \<in> set df \<Longrightarrow> (key r, filter (\<lambda>s. key s = key r) df) \<in> set (groupby key df)"
  by (auto simp: groupby_member_iff)

text \<open>
  The groups partition the table: summing a column group by group gives the sum
  of the column.
\<close>

lemma sum_list_delta_distinct:
  fixes c :: "'a::comm_monoid_add"
  shows "distinct ks \<Longrightarrow> (\<Sum>k\<leftarrow>ks. if a = k then c else 0) = (if a \<in> set ks then c else 0)"
  by (induction ks) auto

lemma sum_list_by_keys:
  fixes f :: "'r \<Rightarrow> 'a::comm_monoid_add"
  assumes "distinct ks" and "key ` set df \<subseteq> set ks"
  shows "(\<Sum>k\<leftarrow>ks. \<Sum>r\<leftarrow>filter (\<lambda>r. key r = k) df. f r) = (\<Sum>r\<leftarrow>df. f r)"
  using assms(2)
proof (induction df)
  case Nil
  show ?case by simp
next
  case (Cons r df)
  have "(\<Sum>k\<leftarrow>ks. \<Sum>s\<leftarrow>filter (\<lambda>s. key s = k) (r # df). f s) =
        (\<Sum>k\<leftarrow>ks. (if key r = k then f r else 0) + (\<Sum>s\<leftarrow>filter (\<lambda>s. key s = k) df. f s))"
    by (intro arg_cong [where f = sum_list] map_cong) auto
  also have "\<dots> = (\<Sum>k\<leftarrow>ks. if key r = k then f r else 0) +
        (\<Sum>k\<leftarrow>ks. \<Sum>s\<leftarrow>filter (\<lambda>s. key s = k) df. f s)"
    by (simp add: sum_list_addf)
  also have "(\<Sum>k\<leftarrow>ks. if key r = k then f r else 0) = f r"
    using assms(1) Cons.prems by (simp add: sum_list_delta_distinct)
  also have "(\<Sum>k\<leftarrow>ks. \<Sum>s\<leftarrow>filter (\<lambda>s. key s = k) df. f s) = (\<Sum>s\<leftarrow>df. f s)"
    using Cons by simp
  finally show ?case by simp
qed

lemma groupby_sum [frame_simps]:
  fixes f :: "'r \<Rightarrow> 'a::comm_monoid_add"
  shows "(\<Sum>(k, g)\<leftarrow>groupby key df. \<Sum>r\<leftarrow>g. f r) = (\<Sum>r\<leftarrow>df. f r)"
proof -
  have "(\<Sum>(k, g)\<leftarrow>groupby key df. \<Sum>r\<leftarrow>g. f r) =
        (\<Sum>k\<leftarrow>group_keys (map key df). \<Sum>r\<leftarrow>filter (\<lambda>r. key r = k) df. f r)"
    by (simp add: groupby_def comp_def)
  also have "\<dots> = (\<Sum>r\<leftarrow>df. f r)"
    by (rule sum_list_by_keys) simp_all
  finally show ?thesis .
qed

lemma groupby_length [frame_simps]:
  "(\<Sum>(k, g)\<leftarrow>groupby key df. length g) = length df"
  using groupby_sum [of "\<lambda>_. 1::nat" key df] by (simp add: sum_list_triv)

end
