(* ===== verification/Wrangle.thy ===== *)
theory Wrangle
  imports Frame
begin

text \<open>
  The record normalizer: \<open>wrangle_data\<close> of \<open>src/customer_rfm.py\<close> (lines 17-26).

  A transaction row is a record of the seven columns the script reads; the
  columns it never reads (\<open>Country\<close> in the retail data set) are the \<open>more\<close>
  part of the record scheme, so that \<open>drop_duplicates\<close> compares them too. The
  types of two columns change while the table is cleaned, and the record is
  polymorphic in them: \<open>InvoiceDate\<close> is whatever the file held (type \<open>'d\<close>)
  until line 19 turns it into a \<open>timestamp option\<close> (\<open>None\<close> is \<open>NaT\<close>), and
  \<open>CustomerID\<close> is a float with missing cells (\<open>real option\<close>) until line 24
  casts it to \<open>int\<close>. \<open>pd.to_datetime(_, errors='coerce')\<close> is a parameter
  \<open>to_datetime :: 'd \<Rightarrow> timestamp option\<close> of the model.

  The theory defines one operation per statement of \<open>wrangle_data\<close>, composes
  them as the function body does, states the normalizer's contract as a
  one-pass specification \<open>wrangle_rows\<close>, and proves that the code implements
  it without raising, that every row it returns is canonical, how the result
  is related to the input, that the cleaning steps commute, and when cleaning
  a cleaned table changes nothing.
\<close>

section \<open>Rows\<close>

record ('d, 'c) txn =
  InvoiceNo :: string
  StockCode :: string
  Description :: "string option"
  Quantity :: int
  InvoiceDate :: 'd
  UnitPrice :: real
  CustomerID :: 'c

record ('d, 'c) priced_txn = "('d, 'c) txn" +
  TotalPrice :: real

type_synonym ('d, 'z) raw_row = "('d, real option, 'z) txn_scheme"
type_synonym 'z dated_row = "(timestamp option, real option, 'z) txn_scheme"
type_synonym 'z priced_row = "(timestamp option, real option, 'z) priced_txn_scheme"
type_synonym 'z clean_row = "(timestamp option, int, 'z) priced_txn_scheme"

text \<open>
  Column assignment \<open>df[col] = values\<close>, row by row. Assigning to \<open>InvoiceDate\<close>
  or \<open>CustomerID\<close> may change the column's type; assigning to \<open>TotalPrice\<close> adds
  the column.
\<close>

definition assign_InvoiceDate :: "('d, 'c, 'z) txn_scheme \<Rightarrow> 'e \<Rightarrow> ('e, 'c, 'z) txn_scheme" where
  "assign_InvoiceDate r d =
     \<lparr>InvoiceNo = InvoiceNo r, StockCode = StockCode r, Description = Description r,
      Quantity = Quantity r, InvoiceDate = d, UnitPrice = UnitPrice r,
      CustomerID = CustomerID r, \<dots> = txn.more r\<rparr>"

definition assign_CustomerID :: "('d, 'c, 'z) txn_scheme \<Rightarrow> 'e \<Rightarrow> ('d, 'e, 'z) txn_scheme" where
  "assign_CustomerID r c =
     \<lparr>InvoiceNo = InvoiceNo r, StockCode = StockCode r, Description = Description r,
      Quantity = Quantity r, InvoiceDate = InvoiceDate r, UnitPrice = UnitPrice r,
      CustomerID = c, \<dots> = txn.more r\<rparr>"

definition assign_TotalPrice :: "('d, 'c, 'z) txn_scheme \<Rightarrow> real \<Rightarrow> ('d, 'c, 'z) priced_txn_scheme" where
  "assign_TotalPrice r t =
     \<lparr>InvoiceNo = InvoiceNo r, StockCode = StockCode r, Description = Description r,
      Quantity = Quantity r, InvoiceDate = InvoiceDate r, UnitPrice = UnitPrice r,
      CustomerID = CustomerID r, TotalPrice = t, \<dots> = txn.more r\<rparr>"

section \<open>The statements of \<open>wrangle_data\<close>\<close>

text \<open>Line 19: \<open>df_clean['InvoiceDate'] = pd.to_datetime(_, errors='coerce')\<close>.\<close>

definition parse_dates ::
  "('d \<Rightarrow> timestamp option) \<Rightarrow> ('d, 'z) raw_row frame \<Rightarrow> 'z dated_row frame" where
  "parse_dates to_datetime df = map (\<lambda>r. assign_InvoiceDate r (to_datetime (InvoiceDate r))) df"

text \<open>Line 21: the rows with \<open>Quantity > 0\<close> and \<open>UnitPrice > 0\<close>.\<close>

definition positive_rows :: "('d, 'c, 'z) txn_scheme frame \<Rightarrow> ('d, 'c, 'z) txn_scheme frame" where
  "positive_rows df = filter (\<lambda>r. 0 < Quantity r \<and> 0 < UnitPrice r) df"

text \<open>Line 23: \<open>df_clean['TotalPrice'] = df_clean['Quantity'] * df_clean['UnitPrice']\<close>.\<close>

definition line_total :: "('d, 'c, 'z) txn_scheme \<Rightarrow> real" where
  "line_total r = of_int (Quantity r) * UnitPrice r"

definition add_total_price ::
  "('d, 'c, 'z) txn_scheme frame \<Rightarrow> ('d, 'c, 'z) priced_txn_scheme frame" where
  "add_total_price df = map (\<lambda>r. assign_TotalPrice r (line_total r)) df"

text \<open>
  Line 24: \<open>df_clean['CustomerID'] = df_clean['CustomerID'].astype(int)\<close>. The
  cast of a column that holds a missing cell raises.
\<close>

fun customer_id_astype_int :: "'z priced_row frame \<Rightarrow> 'z clean_row frame result" where
  "customer_id_astype_int [] = Inr []"
| "customer_id_astype_int (r # df) =
     (case CustomerID r of
        None \<Rightarrow> Inl ValueError
      | Some c \<Rightarrow> bind_result (customer_id_astype_int df)
                   (\<lambda>out. Inr (assign_CustomerID r (astype_int c) # out)))"

text \<open>
  Lines 17-26, the function. \<open>df.copy()\<close> (line 18) and the \<open>inplace\<close> updates
  act on a private copy, which the functional model has for free;
  \<open>reset_index(drop=True)\<close> (line 25) renumbers the index, which is the position
  in the list.
\<close>

definition wrangle_data ::
  "('d \<Rightarrow> timestamp option) \<Rightarrow> ('d, 'z) raw_row frame \<Rightarrow> 'z clean_row frame result" where
  "wrangle_data to_datetime df =
     (let df_clean = parse_dates to_datetime df;
          df_clean = dropna_subset CustomerID df_clean;
          df_clean = positive_rows df_clean;
          df_clean = drop_duplicates df_clean
      in customer_id_astype_int (add_total_price df_clean))"

section \<open>The contract of the normalizer\<close>

text \<open>
  A canonical row has a positive quantity and unit price, and its line total is
  their product.
\<close>

definition canonical_row :: "('d, 'c, 'z) priced_txn_scheme \<Rightarrow> bool" where
  "canonical_row r \<longleftrightarrow> 0 < Quantity r \<and> 0 < UnitPrice r \<and> TotalPrice r = line_total r"

text \<open>The rows that lines 20 and 21 let through.\<close>

definition keep_row :: "('d, 'c option, 'z) txn_scheme \<Rightarrow> bool" where
  "keep_row r \<longleftrightarrow> CustomerID r \<noteq> None \<and> 0 < Quantity r \<and> 0 < UnitPrice r"

text \<open>
  The specification treats one row at a time: a dated row is rejected, or it is
  turned into its clean form. The clean table is what is left of the dated
  table, each distinct row once.
\<close>

definition clean_row :: "'z dated_row \<Rightarrow> 'z clean_row option" where
  "clean_row r =
     (case CustomerID r of
        None \<Rightarrow> None
      | Some c \<Rightarrow>
          if 0 < Quantity r \<and> 0 < UnitPrice r
          then Some (assign_CustomerID (assign_TotalPrice r (line_total r)) (astype_int c))
          else None)"

definition wrangle_rows ::
  "('d \<Rightarrow> timestamp option) \<Rightarrow> ('d, 'z) raw_row frame \<Rightarrow> 'z clean_row frame" where
  "wrangle_rows to_datetime df =
     List.map_filter clean_row (drop_duplicates (parse_dates to_datetime df))"

text \<open>
  A clean table read back as an input table: the dates are time stamps already
  (parsing them again is the identity), the identifiers are floats again, and the
  line total is recomputed by the second run.
\<close>

definition reinput :: "'z clean_row \<Rightarrow> (timestamp option, 'z) raw_row" where
  "reinput r =
     \<lparr>InvoiceNo = InvoiceNo r, StockCode = StockCode r, Description = Description r,
      Quantity = Quantity r, InvoiceDate = InvoiceDate r, UnitPrice = UnitPrice r,
      CustomerID = Some (of_int (CustomerID r)), \<dots> = priced_txn.more r\<rparr>"

text \<open>
  The identifiers of the retail data are whole numbers stored as floats. A table
  has integral identifiers when the cast of line 24 loses nothing.
\<close>

definition integral_ids :: "('d, real option, 'z) txn_scheme frame \<Rightarrow> bool" where
  "integral_ids df \<longleftrightarrow> (\<forall>r\<in>set df. case CustomerID r of None \<Rightarrow> True | Some c \<Rightarrow> of_int (astype_int c) = c)"

section \<open>A sample table\<close>

text \<open>
  Eight rows in the shape of the retail data set: a purchase and its exact
  duplicate, a second invoice of the same customer, a return, a free item, a row
  without customer, a row whose date does not parse, and a purchase of a third
  customer. Dates are parsed by a table of the strings that occur.
\<close>

definition sample_to_datetime :: "string \<Rightarrow> timestamp option" where
  "sample_to_datetime s =
     (if s = ''2010-12-01'' then Some (14944 * one_day)
      else if s = ''2010-12-02'' then Some (14945 * one_day)
      else if s = ''2010-12-03'' then Some (14946 * one_day)
      else None)"

definition sample_row ::
  "string \<Rightarrow> int \<Rightarrow> string \<Rightarrow> real \<Rightarrow> real option \<Rightarrow> (string, unit) raw_row" where
  "sample_row no q d p c =
     \<lparr>InvoiceNo = no, StockCode = ''85123A'', Description = Some ''HEART'',
      Quantity = q, InvoiceDate = d, UnitPrice = p, CustomerID = c\<rparr>"

definition sample_raw :: "(string, unit) raw_row frame" where
  "sample_raw =
     [sample_row ''536365'' 6 ''2010-12-01'' (5 / 2) (Some 17850),
      sample_row ''536365'' 6 ''2010-12-01'' (5 / 2) (Some 17850),
      sample_row ''536366'' 2 ''2010-12-02'' 2 (Some 17850),
      sample_row ''C536379'' (- 1) ''2010-12-01'' 27 (Some 14527),
      sample_row ''536380'' 3 ''2010-12-02'' 0 (Some 13047),
      sample_row ''536381'' 1 ''2010-12-02'' 4 None,
      sample_row ''536382'' 4 ''12/32/2010'' 1 (Some 13047),
      sample_row ''536383'' 1 ''2010-12-03'' 10 (Some 12583)]"

definition sample_clean_row ::
  "string \<Rightarrow> int \<Rightarrow> timestamp option \<Rightarrow> real \<Rightarrow> int \<Rightarrow> real \<Rightarrow> unit clean_row" where
  "sample_clean_row no q d p c t =
     \<lparr>InvoiceNo = no, StockCode = ''85123A'', Description = Some ''HEART'',
      Quantity = q, InvoiceDate = d, UnitPrice = p, CustomerID = c, TotalPrice = t\<rparr>"

definition sample_clean :: "unit clean_row frame" where
  "sample_clean =
     [sample_clean_row ''536365'' 6 (Some (14944 * one_day)) (5 / 2) 17850 15,
      sample_clean_row ''536366'' 2 (Some (14945 * one_day)) 2 17850 4,
      sample_clean_row ''536382'' 4 None 1 13047 4,
      sample_clean_row ''536383'' 1 (Some (14946 * one_day)) 10 12583 10]"

text \<open>
  Two rows that differ only in the fractional part of the customer identifier.
\<close>

definition fractional_raw :: "(string, unit) raw_row frame" where
  "fractional_raw =
     [sample_row ''536365'' 6 ''2010-12-01'' (5 / 2) (Some (6 / 5)),
      sample_row ''536365'' 6 ''2010-12-01'' (5 / 2) (Some (3 / 2))]"

declare assign_InvoiceDate_def [eval_defs] assign_CustomerID_def [eval_defs]
  assign_TotalPrice_def [eval_defs] parse_dates_def [eval_defs] positive_rows_def [eval_defs]
  line_total_def [eval_defs] add_total_price_def [eval_defs] wrangle_data_def [eval_defs]
  sample_to_datetime_def [eval_defs] sample_row_def [eval_defs] sample_raw_def [eval_defs]
  sample_clean_row_def [eval_defs] sample_clean_def [eval_defs] fractional_raw_def [eval_defs]
  clean_row_def [eval_defs] wrangle_rows_def [eval_defs] reinput_def [eval_defs]

section \<open>Column assignment\<close>

lemma assign_InvoiceDate_sel [simp]:
  "InvoiceNo (assign_InvoiceDate r d) = InvoiceNo r"
  "StockCode (assign_InvoiceDate r d) = StockCode r"
  "Description (assign_InvoiceDate r d) = Description r"
  "Quantity (assign_InvoiceDate r d) = Quantity r"
  "InvoiceDate (assign_InvoiceDate r d) = d"
  "UnitPrice (assign_InvoiceDate r d) = UnitPrice r"
  "CustomerID (assign_InvoiceDate r d) = CustomerID r"
  "txn.more (assign_InvoiceDate r d) = txn.more r"
  by (simp_all add: assign_InvoiceDate_def)

lemma assign_CustomerID_sel [simp]:
  "InvoiceNo (assign_CustomerID r c) = InvoiceNo r"
  "StockCode (assign_CustomerID r c) = StockCode r"
  "Description (assign_CustomerID r c) = Description r"
  "Quantity (assign_CustomerID r c) = Quantity r"
  "InvoiceDate (assign_CustomerID r c) = InvoiceDate r"
  "UnitPrice (assign_CustomerID r c) = UnitPrice r"
  "CustomerID (assign_CustomerID r c) = c"
  "txn.more (assign_CustomerID r c) = txn.more r"
  by (simp_all add: assign_CustomerID_def)

lemma assign_CustomerID_priced_sel [simp]:
  "TotalPrice (assign_CustomerID r c) = TotalPrice r"
  "priced_txn.more (assign_CustomerID r c) = priced_txn.more r"
  by (cases r; simp add: assign_CustomerID_def)+

lemma assign_TotalPrice_sel [simp]:
  "InvoiceNo (assign_TotalPrice r t) = InvoiceNo r"
  "StockCode (assign_TotalPrice r t) = StockCode r"
  "Description (assign_TotalPrice r t) = Description r"
  "Quantity (assign_TotalPrice r t) = Quantity r"
  "InvoiceDate (assign_TotalPrice r t) = InvoiceDate r"
  "UnitPrice (assign_TotalPrice r t) = UnitPrice r"
  "CustomerID (assign_TotalPrice r t) = CustomerID r"
  "TotalPrice (assign_TotalPrice r t) = t"
  "priced_txn.more (assign_TotalPrice r t) = txn.more r"
  by (simp_all add: assign_TotalPrice_def)

lemma reinput_sel [simp]:
  "InvoiceNo (reinput r) = InvoiceNo r"
  "StockCode (reinput r) = StockCode r"
  "Description (reinput r) = Description r"
  "Quantity (reinput r) = Quantity r"
  "InvoiceDate (reinput r) = InvoiceDate r"
  "UnitPrice (reinput r) = UnitPrice r"
  "CustomerID (reinput r) = Some (of_int (CustomerID r))"
  "txn.more (reinput r) = priced_txn.more r"
  by (simp_all add: reinput_def)

lemma line_total_assign [simp]:
  "line_total (assign_InvoiceDate r d) = line_total r"
  "line_total (assign_CustomerID r c) = line_total r"
  "line_total (assign_TotalPrice r t) = line_total r"
  "line_total (reinput s) = line_total s"
  by (simp_all add: line_total_def)

lemma assign_InvoiceDate_same [simp]: "assign_InvoiceDate r (InvoiceDate r) = r"
  by (simp add: assign_InvoiceDate_def)

lemma txn_eqI:
  "InvoiceNo r = InvoiceNo s \<Longrightarrow> StockCode r = StockCode s \<Longrightarrow> Description r = Description s \<Longrightarrow>
   Quantity r = Quantity s \<Longrightarrow> InvoiceDate r = InvoiceDate s \<Longrightarrow> UnitPrice r = UnitPrice s \<Longrightarrow>
   CustomerID r = CustomerID s \<Longrightarrow> txn.more r = txn.more s \<Longrightarrow> r = s"
  by (rule txn.equality)

lemma priced_eqI:
  "InvoiceNo r = InvoiceNo s \<Longrightarrow> StockCode r = StockCode s \<Longrightarrow> Description r = Description s \<Longrightarrow>
   Quantity r = Quantity s \<Longrightarrow> InvoiceDate r = InvoiceDate s \<Longrightarrow> UnitPrice r = UnitPrice s \<Longrightarrow>
   CustomerID r = CustomerID s \<Longrightarrow> TotalPrice r = TotalPrice s \<Longrightarrow>
   priced_txn.more r = priced_txn.more s \<Longrightarrow> r = s"
  by (rule priced_txn.equality)

section \<open>The cast of the identifier column\<close>

lemma customer_id_astype_int_Inl_iff:
  "customer_id_astype_int df = Inl ValueError \<longleftrightarrow> (\<exists>r\<in>set df. CustomerID r = None)"
  by (induction df) (auto simp: bind_result_Inl_iff split: option.splits)

lemma astype_rows_filter:
  "customer_id_astype_int (add_total_price (filter keep_row df)) =
     Inr (List.map_filter clean_row df)"
proof (induction df)
  case Nil
  show ?case by (simp add: add_total_price_def)
next
  case (Cons r df)
  show ?case
  proof (cases "keep_row r")
    case True
    then obtain c where c: "CustomerID r = Some c" by (auto simp: keep_row_def)
    with True have "clean_row r =
        Some (assign_CustomerID (assign_TotalPrice r (line_total r)) (astype_int c))"
      by (simp add: clean_row_def keep_row_def)
    with True c Cons show ?thesis by (simp add: add_total_price_def)
  next
    case False
    then have "clean_row r = None" by (auto simp: clean_row_def keep_row_def split: option.splits)
    with False Cons show ?thesis by simp
  qed
qed

section \<open>The specification, row by row\<close>

lemma clean_row_SomeD:
  assumes "clean_row x = Some r"
  shows "keep_row x" and "canonical_row r" and "InvoiceNo r = InvoiceNo x"
    and "StockCode r = StockCode x" and "Description r = Description x"
    and "Quantity r = Quantity x" and "InvoiceDate r = InvoiceDate x"
    and "UnitPrice r = UnitPrice x"
    and "CustomerID x = Some c \<Longrightarrow> CustomerID r = astype_int c"
    and "TotalPrice r = line_total x" and "priced_txn.more r = txn.more x"
  using assms
  by (auto simp: clean_row_def keep_row_def canonical_row_def split: option.splits if_splits)

lemma clean_row_None_iff: "clean_row r = None \<longleftrightarrow> \<not> keep_row r"
  by (auto simp: clean_row_def keep_row_def split: option.splits)

lemma clean_row_keep: "keep_row x \<Longrightarrow> \<exists>r. clean_row x = Some r"
  by (auto simp: clean_row_def keep_row_def)

lemma clean_row_reinput: "canonical_row r \<Longrightarrow> clean_row (reinput r) = Some r"
  by (auto simp: clean_row_def canonical_row_def intro!: priced_eqI)

lemma reinput_inj_on: "(\<And>r. r \<in> A \<Longrightarrow> canonical_row r) \<Longrightarrow> inj_on reinput A"
proof (rule inj_onI)
  fix r s
  assume can: "\<And>r. r \<in> A \<Longrightarrow> canonical_row r" and rs: "r \<in> A" "s \<in> A"
    and eq: "reinput r = reinput s"
  from can rs have "clean_row (reinput r) = Some r" "clean_row (reinput s) = Some s"
    by (simp_all add: clean_row_reinput)
  with eq show "r = s" by (metis option.inject)
qed

lemma clean_row_inj:
  assumes "clean_row x = Some r" and "clean_row y = Some r"
    and "\<And>c. CustomerID x = Some c \<Longrightarrow> of_int (astype_int c) = c"
    and "\<And>c. CustomerID y = Some c \<Longrightarrow> of_int (astype_int c) = c"
  shows "x = y"
proof (rule txn_eqI)
  note x = clean_row_SomeD [OF assms(1)] and y = clean_row_SomeD [OF assms(2)]
  from x(1) y(1) obtain c d where cd: "CustomerID x = Some c" "CustomerID y = Some d"
    by (auto simp: keep_row_def)
  from x(9) [OF cd(1)] y(9) [OF cd(2)] have "astype_int c = astype_int d" by simp
  with assms(3) [OF cd(1)] assms(4) [OF cd(2)] have "c = d" by metis
  with cd show "CustomerID x = CustomerID y" by simp
  show "InvoiceNo x = InvoiceNo y" using x(3) y(3) by simp
  show "StockCode x = StockCode y" using x(4) y(4) by simp
  show "Description x = Description y" using x(5) y(5) by simp
  show "Quantity x = Quantity y" using x(6) y(6) by simp
  show "InvoiceDate x = InvoiceDate y" using x(7) y(7) by simp
  show "UnitPrice x = UnitPrice y" using x(8) y(8) by simp
  show "txn.more x = txn.more y" using x(11) y(11) by simp
qed

section \<open>The function and its specification\<close>

lemma keep_rows_eq: "positive_rows (dropna_subset CustomerID df) = filter keep_row df"
  by (auto simp: positive_rows_def dropna_subset_def keep_row_def intro: filter_cong)

lemma parse_dates_id [simp]: "parse_dates (\<lambda>d. d) df = df"
  by (simp add: parse_dates_def)

lemma length_parse_dates [simp]: "length (parse_dates to_datetime df) = length df"
  by (simp add: parse_dates_def)

lemma wrangle_data_Inr_iff:
  "wrangle_data to_datetime df = Inr out \<longleftrightarrow> out = wrangle_rows to_datetime df"
  by (auto simp: wrangle_data_def wrangle_rows_def keep_rows_eq drop_duplicates_filter
      astype_rows_filter)

lemma set_wrangle_rows:
  "set (wrangle_rows to_datetime df) =
     {r. \<exists>x\<in>set df. clean_row (assign_InvoiceDate x (to_datetime (InvoiceDate x))) = Some r}"
  by (auto simp: wrangle_rows_def set_map_filter parse_dates_def)

lemma wrangle_rows_canonical [inv_intros]:
  "r \<in> set (wrangle_rows to_datetime df) \<Longrightarrow> canonical_row r"
  by (auto simp: set_wrangle_rows dest: clean_row_SomeD(2))

lemma canonical_row_TotalPrice_pos: "canonical_row r \<Longrightarrow> 0 < TotalPrice r"
  by (simp add: canonical_row_def line_total_def)

lemma distinct_wrangle_rows:
  assumes "integral_ids df"
  shows "distinct (wrangle_rows to_datetime df)"
  unfolding wrangle_rows_def
proof (rule distinct_map_filter_inj)
  show "distinct (drop_duplicates (parse_dates to_datetime df))" by simp
next
  fix x y z
  assume x: "x \<in> set (drop_duplicates (parse_dates to_datetime df))"
    and y: "y \<in> set (drop_duplicates (parse_dates to_datetime df))"
    and z: "clean_row x = Some z" "clean_row y = Some z"
  from x y assms have "\<And>c. CustomerID x = Some c \<Longrightarrow> of_int (astype_int c) = c"
    "\<And>c. CustomerID y = Some c \<Longrightarrow> of_int (astype_int c) = c"
    by (auto simp: integral_ids_def parse_dates_def)
  with z show "x = y" by (rule clean_row_inj)
qed

lemma wrangle_rows_reinput:
  assumes "\<And>r. r \<in> set out \<Longrightarrow> canonical_row r"
  shows "wrangle_rows (\<lambda>d. d) (map reinput out) = drop_duplicates out"
proof -
  from assms have "inj_on reinput (set out)" by (rule reinput_inj_on)
  then have "drop_duplicates (map reinput out) = map reinput (drop_duplicates out)"
    by (rule drop_duplicates_map_inj)
  moreover have "List.map_filter clean_row (map reinput (drop_duplicates out)) =
      map (\<lambda>r. r) (drop_duplicates out)"
    unfolding map_filter_map by (rule map_filter_all_Some) (simp add: assms clean_row_reinput)
  ultimately show ?thesis by (simp add: wrangle_rows_def)
qed

section \<open>The sample table, cleaned\<close>

lemma sample_wrangle_rows: "wrangle_rows sample_to_datetime sample_raw = sample_clean"
  by (simp add: eval_defs)

lemma sample_integral_ids: "integral_ids sample_raw"
  by (simp add: integral_ids_def eval_defs)

lemma sample_clean_canonical: "\<forall>r\<in>set sample_clean. canonical_row r"
  by (simp add: canonical_row_def eval_defs)

section \<open>Properties of the normalizer\<close>

text \<open>
  Property C1 (refinement). On every input table and for every date parser,
  \<open>wrangle_data\<close> returns normally, and what it returns is the specification
  \<open>wrangle_rows\<close>: the distinct dated rows, each one cleaned or rejected on its
  own. In particular the cast of line 24 never meets a missing identifier.
\<close>

theorem wrangle_data_refines:
  "wrangle_data to_datetime df = Inr (wrangle_rows to_datetime df)"
  by (simp add: wrangle_data_Inr_iff)

theorem wrangle_data_refines_witness:
  "wrangle_data sample_to_datetime sample_raw = Inr sample_clean"
  using wrangle_data_refines [of sample_to_datetime sample_raw] sample_wrangle_rows by simp

text \<open>
  Property C3 (invariant). Every row that \<open>wrangle_data\<close> returns is canonical:
  its quantity and unit price are positive and its line total is their product,
  hence positive.
\<close>

theorem wrangle_data_canonical:
  assumes "wrangle_data to_datetime df = Inr out" and "r \<in> set out"
  shows "canonical_row r \<and> 0 < TotalPrice r"
proof -
  from assms have "canonical_row r"
    by (simp add: wrangle_data_Inr_iff wrangle_rows_canonical)
  then show ?thesis by (simp add: canonical_row_TotalPrice_pos)
qed

theorem wrangle_data_canonical_witness:
  "wrangle_data sample_to_datetime sample_raw = Inr sample_clean \<and>
   list_all (\<lambda>r. canonical_row r \<and> 0 < TotalPrice r) sample_clean"
  using wrangle_data_canonical [of sample_to_datetime sample_raw sample_clean]
  by (simp add: wrangle_data_Inr_iff sample_wrangle_rows list_all_iff)

text \<open>
  Property C26 (idempotence). When the identifiers of the input are whole numbers,
  cleaning the cleaned table again returns it unchanged.
\<close>

theorem wrangle_data_idempotent:
  assumes "wrangle_data to_datetime df = Inr out" and "integral_ids df"
  shows "wrangle_data (\<lambda>d. d) (map reinput out) = Inr out"
proof -
  from assms(1) have out: "out = wrangle_rows to_datetime df"
    by (simp add: wrangle_data_Inr_iff)
  then have "wrangle_rows (\<lambda>d. d) (map reinput out) = drop_duplicates out"
    by (intro wrangle_rows_reinput) (simp add: wrangle_rows_canonical)
  moreover have "distinct out" unfolding out using assms(2) by (rule distinct_wrangle_rows)
  ultimately show ?thesis by (simp add: wrangle_data_Inr_iff drop_duplicates_distinct)
qed

theorem wrangle_data_idempotent_witness:
  "integral_ids sample_raw \<and>
   wrangle_data sample_to_datetime sample_raw = Inr sample_clean \<and>
   wrangle_data (\<lambda>d. d) (map reinput sample_clean) = Inr sample_clean"
  using wrangle_data_idempotent [of sample_to_datetime sample_raw sample_clean]
  by (simp add: wrangle_data_Inr_iff sample_wrangle_rows sample_integral_ids)

text \<open>
  Cleaning any table of canonical rows, read back as
  input, removes the duplicate rows of the table and nothing else.
\<close>

theorem wrangle_data_second_run:
  assumes "\<forall>r\<in>set out. canonical_row r"
  shows "wrangle_data (\<lambda>d. d) (map reinput out) = Inr (drop_duplicates out)"
  using assms by (simp add: wrangle_data_Inr_iff wrangle_rows_reinput)

theorem wrangle_data_second_run_witness:
  "list_all canonical_row (sample_clean @ sample_clean) \<and>
   wrangle_data (\<lambda>d. d) (map reinput (sample_clean @ sample_clean)) = Inr sample_clean"
proof -
  have can: "\<forall>r\<in>set (sample_clean @ sample_clean). canonical_row r"
    using sample_clean_canonical by simp
  have "drop_duplicates (sample_clean @ sample_clean) = sample_clean"
    by (simp add: eval_defs)
  with can wrangle_data_second_run [OF can] show ?thesis by (simp add: list_all_iff)
qed



text \<open>
  The cast of the identifier column raises
  exactly when a cell of the column is missing; line 20 is what keeps line 24
  from raising.
\<close>

theorem customer_id_astype_int_raises_iff:
  "customer_id_astype_int df = Inl ValueError \<longleftrightarrow> (\<exists>r\<in>set df. CustomerID r = None)"
  by (rule customer_id_astype_int_Inl_iff)

theorem customer_id_astype_int_raises_iff_witness:
  "customer_id_astype_int
     (add_total_price (parse_dates sample_to_datetime sample_raw)) = Inl ValueError"
proof -
  have "\<exists>r\<in>set (add_total_price (parse_dates sample_to_datetime sample_raw)). CustomerID r = None"
    by (simp add: eval_defs)
  then show ?thesis
    using customer_id_astype_int_raises_iff
      [of "add_total_price (parse_dates sample_to_datetime sample_raw)"] by simp
qed

text \<open>
  Property C38 (rows without a date are kept). A row whose date does not parse,
  and that has a customer and a positive quantity and price, is in the cleaned
  table with a missing date: \<open>wrangle_data\<close> never drops a row for its date.
\<close>

theorem wrangle_keeps_undated_rows:
  assumes "x \<in> set df" and "to_datetime (InvoiceDate x) = None"
    and "CustomerID x = Some c" and "0 < Quantity x" and "0 < UnitPrice x"
  shows "\<exists>out. wrangle_data to_datetime df = Inr out \<and>
     (\<exists>r\<in>set out. InvoiceDate r = None \<and> InvoiceNo r = InvoiceNo x \<and>
        CustomerID r = astype_int c)"
proof -
  let ?y = "assign_InvoiceDate x (to_datetime (InvoiceDate x))"
  from assms(3-5) have "keep_row ?y" by (simp add: keep_row_def)
  then obtain r where r: "clean_row ?y = Some r" by (auto dest: clean_row_keep)
  with assms(1) have "r \<in> set (wrangle_rows to_datetime df)"
    by (auto simp: set_wrangle_rows)
  moreover from clean_row_SomeD(3,7,9) [OF r] assms(2,3)
  have "InvoiceDate r = None \<and> InvoiceNo r = InvoiceNo x \<and> CustomerID r = astype_int c"
    by simp
  ultimately show ?thesis by (auto simp: wrangle_data_Inr_iff)
qed

theorem wrangle_keeps_undated_rows_witness:
  "\<exists>out. wrangle_data sample_to_datetime sample_raw = Inr out \<and>
     (\<exists>r\<in>set out. InvoiceDate r = None \<and> InvoiceNo r = ''536382'' \<and> CustomerID r = 13047)"
  using wrangle_keeps_undated_rows
    [of "sample_row ''536382'' 4 ''12/32/2010'' 1 (Some 13047)" sample_raw sample_to_datetime 13047]
  by (simp add: eval_defs)

text \<open>
  The cleaned table has at most as many rows as the input.
\<close>

theorem wrangle_data_length:
  assumes "wrangle_data to_datetime df = Inr out"
  shows "length out \<le> length df"
proof -
  have "length (wrangle_rows to_datetime df) \<le>
      length (drop_duplicates (parse_dates to_datetime df))"
    unfolding wrangle_rows_def by (rule length_map_filter_le)
  also have "\<dots> \<le> length (parse_dates to_datetime df)" by (rule length_drop_duplicates)
  finally show ?thesis using assms by (simp add: wrangle_data_Inr_iff)
qed

theorem wrangle_data_length_witness:
  "wrangle_data sample_to_datetime sample_raw = Inr sample_clean \<and>
   length sample_clean \<le> length sample_raw"
  using wrangle_data_length [of sample_to_datetime sample_raw sample_clean]
  by (simp add: wrangle_data_Inr_iff sample_wrangle_rows)


end
