(* ===== verification/Rfm.thy ===== *)
theory Rfm
  imports Wrangle
begin

text \<open>
  The RFM aggregator: lines 39-46 of \<open>src/customer_rfm.py\<close>, which reduce the
  cleaned transactions to one row per customer with the recency, the frequency
  and the monetary value of the customer.

  The reference date is one day after the latest invoice date of the whole
  table. \<open>Series.max\<close> skips missing dates, so the reference date is missing
  only when every date is, and the recency of a customer is missing (\<open>NaN\<close>,
  here \<open>None\<close>) exactly when all dates of the customer are. The theory proves the
  bounds the aggregation promises (recency at least one day, frequency at
  least one, monetary value positive on canonical rows), that the table has
  one row per customer in ascending order of the identifier, and that the
  aggregation neither loses nor invents money.
\<close>

section \<open>The RFM table\<close>

record rfm_row =
  CustomerID :: int
  Recency :: "int option"
  Frequency :: nat
  Monetary :: real

text \<open>Line 40: \<open>df_clean['InvoiceDate'].max() + pd.Timedelta(days=1)\<close>.\<close>

definition reference_date :: "'z clean_row frame \<Rightarrow> timestamp option" where
  "reference_date df_clean =
     map_option (\<lambda>t. t + one_day) (series_max (map InvoiceDate df_clean))"

text \<open>
  Line 42, the aggregation of the dates of one customer:
  \<open>lambda x: (reference_date - x.max()).days\<close>. A difference with a missing
  operand is missing, and so are its days.
\<close>

definition recency :: "timestamp option \<Rightarrow> timestamp option list \<Rightarrow> int option" where
  "recency ref x =
     (case ref of
        None \<Rightarrow> None
      | Some t \<Rightarrow>
          (case series_max x of None \<Rightarrow> None | Some m \<Rightarrow> Some (timedelta_days (t - m))))"

text \<open>
  Lines 42-44 and 46: the row of one group, with the days since the last
  invoice, the number of distinct invoices and the sum of the line totals.
\<close>

definition rfm_agg :: "timestamp option \<Rightarrow> int \<times> 'z clean_row frame \<Rightarrow> rfm_row" where
  "rfm_agg ref kg =
     \<lparr>CustomerID = fst kg,
      Recency = recency ref (map InvoiceDate (snd kg)),
      Frequency = nunique (map InvoiceNo (snd kg)),
      Monetary = sum_list (map TotalPrice (snd kg))\<rparr>"

text \<open>Lines 41-46: \<open>df_clean.groupby('CustomerID').agg(_).reset_index()\<close>.\<close>

definition rfm_table :: "'z clean_row frame \<Rightarrow> rfm_row frame" where
  "rfm_table df_clean =
     map (rfm_agg (reference_date df_clean)) (groupby txn.CustomerID df_clean)"

text \<open>The group of a customer: the rows of the customer, in their order.\<close>

definition customer_rows :: "int \<Rightarrow> 'z clean_row frame \<Rightarrow> 'z clean_row frame" where
  "customer_rows c df = filter (\<lambda>r. txn.CustomerID r = c) df"

section \<open>The RFM table of the sample\<close>

definition sample_rfm :: "rfm_row frame" where
  "sample_rfm =
     [\<lparr>CustomerID = 12583, Recency = Some 1, Frequency = 1, Monetary = 10\<rparr>,
      \<lparr>CustomerID = 13047, Recency = None, Frequency = 1, Monetary = 4\<rparr>,
      \<lparr>CustomerID = 17850, Recency = Some 2, Frequency = 2, Monetary = 19\<rparr>]"

declare reference_date_def [eval_defs] recency_def [eval_defs] rfm_agg_def [eval_defs]
  rfm_table_def [eval_defs] sample_rfm_def [eval_defs] customer_rows_def [eval_defs]

lemma sample_rfm_eq: "rfm_table sample_clean = sample_rfm"
  by (simp add: eval_defs)

section \<open>Rows of the table\<close>

lemma rfm_agg_sel [simp]:
  "CustomerID (rfm_agg ref kg) = fst kg"
  "Recency (rfm_agg ref kg) = recency ref (map InvoiceDate (snd kg))"
  "Frequency (rfm_agg ref kg) = nunique (map InvoiceNo (snd kg))"
  "Monetary (rfm_agg ref kg) = sum_list (map TotalPrice (snd kg))"
  by (simp_all add: rfm_agg_def)

lemma rfm_table_member_iff:
  "row \<in> set (rfm_table df) \<longleftrightarrow>
     (\<exists>c\<in>txn.CustomerID ` set df. row = rfm_agg (reference_date df) (c, customer_rows c df))"
  by (auto simp: rfm_table_def groupby_def customer_rows_def)

lemma rfm_table_memberE:
  assumes "row \<in> set (rfm_table df)"
  obtains "row = rfm_agg (reference_date df) (CustomerID row, customer_rows (CustomerID row) df)"
    and "customer_rows (CustomerID row) df \<noteq> []"
    and "set (customer_rows (CustomerID row) df) \<subseteq> set df"
proof -
  from assms obtain c where c: "c \<in> txn.CustomerID ` set df"
    and row: "row = rfm_agg (reference_date df) (c, customer_rows c df)"
    by (auto simp: rfm_table_member_iff)
  from c have "customer_rows c df \<noteq> []"
    by (auto simp: customer_rows_def filter_empty_conv)
  moreover have "set (customer_rows c df) \<subseteq> set df" by (auto simp: customer_rows_def)
  ultimately show thesis using row that by simp
qed

lemma rfm_row_recency:
  assumes "row \<in> set (rfm_table df)"
  shows "Recency row =
     recency (reference_date df) (map InvoiceDate (customer_rows (CustomerID row) df))"
  using assms by (rule rfm_table_memberE) (metis rfm_agg_sel(2) snd_conv)

lemma rfm_row_frequency:
  assumes "row \<in> set (rfm_table df)"
  shows "Frequency row = nunique (map InvoiceNo (customer_rows (CustomerID row) df))"
  using assms by (rule rfm_table_memberE) (metis rfm_agg_sel(3) snd_conv)

lemma rfm_row_monetary:
  assumes "row \<in> set (rfm_table df)"
  shows "Monetary row = sum_list (map TotalPrice (customer_rows (CustomerID row) df))"
  using assms by (rule rfm_table_memberE) (metis rfm_agg_sel(4) snd_conv)

lemma map_CustomerID_rfm_table [frame_simps]:
  "map CustomerID (rfm_table df) = group_keys (map txn.CustomerID df)"
  by (simp add: rfm_table_def groupby_def comp_def)

lemma length_rfm_table [frame_simps]:
  "length (rfm_table df) = card (txn.CustomerID ` set df)"
proof -
  have "length (rfm_table df) = length (group_keys (map txn.CustomerID df))"
    by (simp add: rfm_table_def groupby_def)
  also have "\<dots> = card (set (group_keys (map txn.CustomerID df)))"
    by (rule distinct_card [symmetric]) simp
  finally show ?thesis by simp
qed

section \<open>Reference date and recency\<close>

lemma recency_Some_iff:
  "recency ref x = Some d \<longleftrightarrow>
     (\<exists>t m. ref = Some t \<and> series_max x = Some m \<and> d = (t - m) div one_day)"
  by (auto simp: recency_def timedelta_days_def split: option.splits)

lemma recency_None_iff:
  "recency ref x = None \<longleftrightarrow> ref = None \<or> (\<forall>d\<in>set x. d = None)"
  using series_max_None_iff [of x] by (auto simp: recency_def split: option.splits)

lemma reference_date_Some_iff:
  "reference_date df = Some t \<longleftrightarrow>
     (\<exists>g. series_max (map InvoiceDate df) = Some g \<and> t = g + one_day)"
  by (auto simp: reference_date_def)

lemma reference_date_None_iff:
  "reference_date df = None \<longleftrightarrow> (\<forall>r\<in>set df. InvoiceDate r = None)"
  by (auto simp: reference_date_def series_max_None_iff)

lemma recency_bounds:
  assumes "set x \<subseteq> set (map InvoiceDate df)" and "recency (reference_date df) x = Some d"
  obtains g m where "series_max (map InvoiceDate df) = Some g" and "series_max x = Some m"
    and "m \<le> g" and "d = (g - m + one_day) div one_day" and "1 \<le> d"
proof -
  from assms(2) obtain g m where g: "series_max (map InvoiceDate df) = Some g"
    and m: "series_max x = Some m" and d: "d = (g + one_day - m) div one_day"
    by (auto simp: recency_Some_iff reference_date_Some_iff)
  from assms(1) m g have le: "m \<le> g" by (rule series_max_mono)
  have eq: "g + one_day - m = g - m + one_day" by simp
  from le have "1 \<le> (g - m + one_day) div one_day" by (intro one_day_div_ge1) simp
  with g m le d eq that show thesis by simp
qed

lemma rfm_row_recency_bounds:
  assumes "row \<in> set (rfm_table df)" and "Recency row = Some d"
  obtains g m where "series_max (map InvoiceDate df) = Some g"
    and "series_max (map InvoiceDate (customer_rows (CustomerID row) df)) = Some m"
    and "m \<le> g" and "d = (g - m + one_day) div one_day" and "1 \<le> d"
proof -
  from assms(1) obtain sub: "set (customer_rows (CustomerID row) df) \<subseteq> set df"
    by (rule rfm_table_memberE)
  let ?x = "map InvoiceDate (customer_rows (CustomerID row) df)"
  from sub have "set ?x \<subseteq> set (map InvoiceDate df)" by auto
  moreover from assms have "recency (reference_date df) ?x = Some d"
    by (simp add: rfm_row_recency)
  ultimately show thesis using that by (rule recency_bounds)
qed

lemma rfm_recency_missing:
  assumes "row \<in> set (rfm_table df)"
  shows "Recency row = None \<longleftrightarrow>
     (\<forall>r\<in>set df. txn.CustomerID r = CustomerID row \<longrightarrow> InvoiceDate r = None)"
proof -
  from assms obtain sub: "set (customer_rows (CustomerID row) df) \<subseteq> set df"
    by (rule rfm_table_memberE)
  let ?g = "customer_rows (CustomerID row) df"
  have all: "(\<forall>d\<in>set (map InvoiceDate ?g). d = None) \<longleftrightarrow>
      (\<forall>r\<in>set df. txn.CustomerID r = CustomerID row \<longrightarrow> InvoiceDate r = None)"
    by (auto simp: customer_rows_def)
  have "reference_date df = None \<Longrightarrow> \<forall>d\<in>set (map InvoiceDate ?g). d = None"
    using sub by (auto simp: reference_date_None_iff)
  then show ?thesis
    unfolding rfm_row_recency [OF assms] recency_None_iff all [symmetric] by blast
qed

section \<open>Frequency and monetary value\<close>

lemma rfm_monetary_pos:
  assumes "row \<in> set (rfm_table df)" and "\<And>r. r \<in> set df \<Longrightarrow> canonical_row r"
  shows "0 < Monetary row"
proof -
  from assms(1) obtain ne: "customer_rows (CustomerID row) df \<noteq> []"
    and sub: "set (customer_rows (CustomerID row) df) \<subseteq> set df"
    by (rule rfm_table_memberE)
  have "0 < sum_list (map TotalPrice (customer_rows (CustomerID row) df))"
  proof (rule sum_list_pos)
    show "map TotalPrice (customer_rows (CustomerID row) df) \<noteq> []" using ne by simp
  next
    fix t assume "t \<in> set (map TotalPrice (customer_rows (CustomerID row) df))"
    then obtain r where "r \<in> set df" "t = TotalPrice r" using sub by auto
    with assms(2) show "0 < t" by (auto simp: canonical_row_TotalPrice_pos)
  qed
  then show ?thesis by (simp add: rfm_row_monetary [OF assms(1)])
qed

lemma rfm_frequency_bounds:
  assumes "row \<in> set (rfm_table df)"
  shows "1 \<le> Frequency row" and "Frequency row \<le> length (customer_rows (CustomerID row) df)"
proof -
  from assms obtain ne: "customer_rows (CustomerID row) df \<noteq> []"
    by (rule rfm_table_memberE)
  then show "1 \<le> Frequency row"
    unfolding rfm_row_frequency [OF assms] by (intro nunique_pos) simp
  show "Frequency row \<le> length (customer_rows (CustomerID row) df)"
    unfolding rfm_row_frequency [OF assms]
    using nunique_le_length [of "map InvoiceNo (customer_rows (CustomerID row) df)"] by simp
qed

lemma sum_Monetary_rfm_table:
  "(\<Sum>row\<leftarrow>rfm_table df. Monetary row) = (\<Sum>r\<leftarrow>df. TotalPrice r)"
proof -
  have "(\<Sum>row\<leftarrow>rfm_table df. Monetary row) =
        (\<Sum>(k, g)\<leftarrow>groupby txn.CustomerID df. \<Sum>r\<leftarrow>g. TotalPrice r)"
    by (simp add: rfm_table_def comp_def case_prod_unfold)
  then show ?thesis by (simp add: groupby_sum)
qed

lemma latest_customer_max:
  assumes "series_max (map InvoiceDate df) = Some g" and "s \<in> set df"
    and "InvoiceDate s = Some g"
  shows "series_max (map InvoiceDate (customer_rows (txn.CustomerID s) df)) = Some g"
  unfolding series_max_Some_iff
proof (intro conjI allI impI)
  show "Some g \<in> set (map InvoiceDate (customer_rows (txn.CustomerID s) df))"
    using assms(2,3) by (force simp: customer_rows_def)
next
  fix y assume "Some y \<in> set (map InvoiceDate (customer_rows (txn.CustomerID s) df))"
  then have "Some y \<in> set (map InvoiceDate df)" by (auto simp: customer_rows_def)
  with assms(1) show "y \<le> g" by (rule series_max_ge)
qed

section \<open>Properties of the aggregation\<close>

text \<open>
  Property C5 (recency is at least one day). The recency of a customer, when it
  is present, is at least 1: the reference date is a full day after the latest
  invoice of the table, and no customer has a later one.
\<close>

theorem rfm_recency_ge_1:
  assumes "row \<in> set (rfm_table df)" and "Recency row = Some d"
  shows "1 \<le> d"
  using assms by (rule rfm_row_recency_bounds)

theorem rfm_recency_ge_1_witness:
  "\<lparr>CustomerID = 17850, Recency = Some 2, Frequency = 2, Monetary = 19\<rparr>
     \<in> set (rfm_table sample_clean) \<and> (1::int) \<le> 2"
  using rfm_recency_ge_1
    [of "\<lparr>CustomerID = 17850, Recency = Some 2, Frequency = 2, Monetary = 19\<rparr>" sample_clean 2]
  by (simp add: sample_rfm_eq sample_rfm_def)

text \<open>
  Property C11 (frequency and monetary value are positive). On a table of
  canonical rows every customer has a frequency of at least 1 and a positive
  monetary value.
\<close>

theorem rfm_monetary_frequency_pos:
  assumes "\<forall>r\<in>set df. canonical_row r" and "row \<in> set (rfm_table df)"
  shows "0 < Monetary row \<and> 1 \<le> Frequency row"
  using assms rfm_frequency_bounds(1) [of row df] by (simp add: rfm_monetary_pos)

theorem rfm_monetary_frequency_pos_witness:
  "list_all canonical_row sample_clean \<and>
   list_all (\<lambda>row. 0 < Monetary row \<and> 1 \<le> Frequency row) (rfm_table sample_clean)"
  using rfm_monetary_frequency_pos [of sample_clean] sample_clean_canonical
  by (simp add: list_all_iff)



text \<open>
  Property C25 (missing recency). The recency of a customer is missing exactly
  when no row of the customer has a date. Such customers exist as soon as a
  date fails to parse, since the normalizer keeps rows without a date.
\<close>

theorem rfm_recency_missing_iff:
  assumes "row \<in> set (rfm_table df)"
  shows "Recency row = None \<longleftrightarrow>
     (\<forall>r\<in>set df. txn.CustomerID r = CustomerID row \<longrightarrow> InvoiceDate r = None)"
  using assms by (rule rfm_recency_missing)

theorem rfm_recency_missing_iff_witness:
  "\<lparr>CustomerID = 13047, Recency = None, Frequency = 1, Monetary = 4\<rparr>
     \<in> set (rfm_table sample_clean) \<and>
   list_all (\<lambda>r. txn.CustomerID r \<noteq> 13047 \<or> InvoiceDate r = None) sample_clean"
  using rfm_recency_missing_iff
    [of "\<lparr>CustomerID = 13047, Recency = None, Frequency = 1, Monetary = 4\<rparr>" sample_clean]
  by (simp add: sample_rfm_eq sample_rfm_def list_all_iff)

text \<open>
  Property C37 (conservation). The monetary values of the RFM table add up to
  the line totals of the cleaned table.
\<close>

theorem rfm_monetary_total:
  "(\<Sum>row\<leftarrow>rfm_table df. Monetary row) = (\<Sum>r\<leftarrow>df. TotalPrice r)"
  by (rule sum_Monetary_rfm_table)

theorem rfm_monetary_total_witness:
  "(\<Sum>r\<leftarrow>sample_clean. TotalPrice r) = 33"
  using rfm_monetary_total [of sample_clean, symmetric]
  by (simp add: sample_rfm_eq sample_rfm_def)

text \<open>
  As soon as one row has a date, some
  customer has recency 1: the customer of the latest invoice.
\<close>

theorem rfm_latest_customer_recency:
  assumes "r \<in> set df" and "InvoiceDate r = Some t"
  shows "\<exists>row\<in>set (rfm_table df). Recency row = Some 1"
proof -
  from assms have "Some t \<in> set (map InvoiceDate df)" by force
  from series_max_exists [OF this] obtain g
    where g: "series_max (map InvoiceDate df) = Some g" by blast
  then have "Some g \<in> set (map InvoiceDate df)" by (rule series_max_member)
  then obtain s where s: "s \<in> set df" "InvoiceDate s = Some g" by auto
  let ?c = "txn.CustomerID s"
  let ?row = "rfm_agg (reference_date df) (?c, customer_rows ?c df)"
  from s have "?row \<in> set (rfm_table df)" by (auto simp: rfm_table_member_iff)
  moreover from g latest_customer_max [OF g s] have "Recency ?row = Some 1"
    by (simp add: recency_def reference_date_def timedelta_days_def)
  ultimately show ?thesis by blast
qed

theorem rfm_latest_customer_recency_witness:
  "\<exists>row\<in>set sample_rfm. Recency row = Some 1"
  using rfm_latest_customer_recency
    [of "sample_clean_row ''536383'' 1 (Some (14946 * one_day)) 10 12583 10" sample_clean]
  by (simp add: sample_rfm_eq) (simp add: eval_defs)

text \<open>
  A recency of \<open>d\<close> days says that the last
  invoice \<open>m\<close> of the customer lies at least \<open>d - 1\<close> and less than \<open>d\<close> days
  before the last invoice \<open>g\<close> of the table.
\<close>

theorem rfm_recency_window:
  assumes "row \<in> set (rfm_table df)" and "Recency row = Some d"
  shows "\<exists>g m. series_max (map InvoiceDate df) = Some g \<and>
     series_max (map InvoiceDate (customer_rows (CustomerID row) df)) = Some m \<and>
     (d - 1) * one_day \<le> g - m \<and> g - m < d * one_day"
proof -
  from assms obtain g m where g: "series_max (map InvoiceDate df) = Some g"
    and m: "series_max (map InvoiceDate (customer_rows (CustomerID row) df)) = Some m"
    and d: "d = (g - m + one_day) div one_day"
    by (rule rfm_row_recency_bounds)
  let ?a = "g - m + one_day"
  have "d * one_day + ?a mod one_day = ?a" unfolding d by (rule div_mult_mod_eq)
  moreover have "0 \<le> ?a mod one_day" "?a mod one_day < one_day" by simp_all
  moreover have "(d - 1) * one_day = d * one_day - one_day" by (simp add: algebra_simps)
  ultimately have "(d - 1) * one_day \<le> g - m" "g - m < d * one_day"
    by linarith+
  with g m show ?thesis by blast
qed

theorem rfm_recency_window_witness:
  "\<exists>g m. series_max (map InvoiceDate sample_clean) = Some g \<and>
     series_max (map InvoiceDate (customer_rows 17850 sample_clean)) = Some m \<and>
     (2 - 1) * one_day \<le> g - m \<and> g - m < 2 * one_day"
  using rfm_recency_window
    [of "\<lparr>CustomerID = 17850, Recency = Some 2, Frequency = 2, Monetary = 19\<rparr>" sample_clean 2]
  by (simp add: sample_rfm_eq sample_rfm_def)

end
