(* ===== verification/Scaler.thy ===== *)
theory Scaler
  imports Rfm
begin

text \<open>
  The feature scaler: lines 48-50 of \<open>src/customer_rfm.py\<close>, which select the
  three RFM columns and pass them through \<open>StandardScaler().fit_transform\<close>.

  The matrix is the list of its rows; a cell is a \<open>real option\<close>, \<open>None\<close> for
  \<open>NaN\<close> (only the recency column can hold one). \<open>fit\<close> computes for each column
  the mean and the population variance of the present cells; the scale is the
  square root of the variance, replaced by 1 when it is 0; \<open>transform\<close> maps a
  present cell \<open>x\<close> to \<open>(x - mean) / scale\<close> and leaves a missing cell missing.
  \<open>fit\<close> raises \<open>ValueError\<close> on a matrix without rows. The estimator works on
  rectangular arrays only, so the lemmas about columns assume that all rows have
  the same length, which \<open>rfm_features\<close> guarantees.

  The theory proves that every column of the result has mean 0 and, unless the
  column is constant, variance 1; that a constant column becomes 0; that the
  result does not depend on the unit in which a column is measured; and that
  the scaling keeps the order of the values of a column.
\<close>

section \<open>Statistics of a column\<close>

text \<open>\<open>np.mean\<close> and \<open>np.var\<close> (population variance, \<open>ddof = 0\<close>).\<close>

definition mean :: "real list \<Rightarrow> real" where
  "mean xs = sum_list xs / real (length xs)"

definition variance :: "real list \<Rightarrow> real" where
  "variance xs = mean (map (\<lambda>x. (x - mean xs)\<^sup>2) xs)"

text \<open>The present cells of a column, in order.\<close>

definition present :: "'a option list \<Rightarrow> 'a list" where
  "present col = List.map_filter id col"

text \<open>
  The fitted attributes \<open>mean_\<close> and \<open>scale_\<close> of a column;
  \<open>_handle_zeros_in_scale\<close> replaces a zero scale by 1.
\<close>

definition handle_zeros_in_scale :: "real \<Rightarrow> real" where
  "handle_zeros_in_scale s = (if s = 0 then 1 else s)"

definition col_mean :: "real option list \<Rightarrow> real" where
  "col_mean col = mean (present col)"

definition col_scale :: "real option list \<Rightarrow> real" where
  "col_scale col = handle_zeros_in_scale (sqrt (variance (present col)))"

text \<open>\<open>transform\<close> on one cell of a fitted column.\<close>

definition standardize :: "real option list \<Rightarrow> real option \<Rightarrow> real option" where
  "standardize col x = map_option (\<lambda>v. (v - col_mean col) / col_scale col) x"

section \<open>The matrix\<close>

text \<open>Column \<open>j\<close> of a matrix; every row must reach index \<open>j\<close>.\<close>

definition column :: "nat \<Rightarrow> 'a list list \<Rightarrow> 'a list" where
  "column j X = map (\<lambda>row. row ! j) X"

text \<open>
  Line 50, \<open>scaler.fit_transform(_)\<close>: each cell is standardized with the
  statistics of its column.
\<close>

definition fit_transform :: "real option list list \<Rightarrow> real option list list result" where
  "fit_transform X =
     (if X = [] then Inl ValueError
      else Inr (map (\<lambda>row. map (\<lambda>j. standardize (column j X) (row ! j)) [0..<length row]) X))"

text \<open>Line 50, the argument \<open>rfm[['Recency', 'Frequency', 'Monetary']]\<close>.\<close>

definition rfm_features :: "rfm_row frame \<Rightarrow> real option list list" where
  "rfm_features rfm =
     map (\<lambda>r. [map_option of_int (Recency r), Some (real (Frequency r)), Some (Monetary r)]) rfm"

section \<open>Notions of the contract\<close>

text \<open>A matrix with \<open>n\<close> columns.\<close>

definition rectangular :: "nat \<Rightarrow> 'a list list \<Rightarrow> bool" where
  "rectangular n X \<longleftrightarrow> list_all (\<lambda>row. length row = n) X"

text \<open>Column \<open>j\<close> measured in another unit: \<open>x\<close> becomes \<open>a * x + b\<close>.\<close>

definition rescale_column :: "nat \<Rightarrow> real \<Rightarrow> real \<Rightarrow> real option list list \<Rightarrow> real option list list" where
  "rescale_column j a b X = map (\<lambda>row. row[j := map_option (\<lambda>x. a * x + b) (row ! j)]) X"

section \<open>A sample matrix\<close>

text \<open>Four customers; the frequency column is constant.\<close>

definition sample_segment_rfm :: "rfm_row frame" where
  "sample_segment_rfm =
     [\<lparr>CustomerID = 12583, Recency = Some 1, Frequency = 2, Monetary = 10\<rparr>,
      \<lparr>CustomerID = 13047, Recency = Some 3, Frequency = 2, Monetary = 12\<rparr>,
      \<lparr>CustomerID = 14527, Recency = Some 1, Frequency = 2, Monetary = 10\<rparr>,
      \<lparr>CustomerID = 17850, Recency = Some 3, Frequency = 2, Monetary = 12\<rparr>]"

definition sample_features :: "real option list list" where
  "sample_features =
     [[Some 1, Some 2, Some 10], [Some 3, Some 2, Some 12],
      [Some 1, Some 2, Some 10], [Some 3, Some 2, Some 12]]"

definition sample_scaled :: "real option list list" where
  "sample_scaled =
     [[Some (- 1), Some 0, Some (- 1)], [Some 1, Some 0, Some 1],
      [Some (- 1), Some 0, Some (- 1)], [Some 1, Some 0, Some 1]]"

declare mean_def [eval_defs] variance_def [eval_defs] present_def [eval_defs]
  handle_zeros_in_scale_def [eval_defs] col_mean_def [eval_defs] col_scale_def [eval_defs]
  standardize_def [eval_defs] column_def [eval_defs] fit_transform_def [eval_defs]
  rfm_features_def [eval_defs] rectangular_def [eval_defs] rescale_column_def [eval_defs]
  sample_segment_rfm_def [eval_defs] sample_features_def [eval_defs] sample_scaled_def [eval_defs]

section \<open>Present cells\<close>



lemma present_simps [simp]:
  "present [] = []"
  "present (None # col) = present col"
  "present (Some x # col) = x # present col"
  by (simp_all add: present_def)

lemma present_map_Some [simp]: "present (map Some xs) = xs"
  by (induction xs) simp_all

lemma set_present: "set (present col) = {x. Some x \<in> set col}"
  by (simp add: present_def set_map_filter)

lemma present_map_map_option: "present (map (map_option f) col) = map f (present col)"
proof (induction col)
  case Nil
  show ?case by simp
next
  case (Cons x col)
  then show ?case by (cases x) simp_all
qed

lemma sum_list_const: "(\<Sum>x\<leftarrow>xs. (c::real)) = real (length xs) * c"
  by (induction xs) (simp_all add: algebra_simps)

lemma mean_map_affine:
  "xs \<noteq> [] \<Longrightarrow> mean (map (\<lambda>x. a * x + b) xs) = a * mean xs + b"
proof -
  assume "xs \<noteq> []"
  moreover have "(\<Sum>x\<leftarrow>xs. a * x + b) = a * sum_list xs + real (length xs) * b"
    by (simp add: sum_list_addf sum_list_const_mult sum_list_const)
  ultimately show ?thesis by (simp add: mean_def field_simps)
qed

lemma mean_const: "xs \<noteq> [] \<Longrightarrow> (\<And>x. x \<in> set xs \<Longrightarrow> x = c) \<Longrightarrow> mean xs = c"
proof -
  assume ne: "xs \<noteq> []" and c: "\<And>x. x \<in> set xs \<Longrightarrow> x = c"
  then have "map (\<lambda>x. x) xs = map (\<lambda>_. c) xs" by (intro map_cong) auto
  then have "sum_list xs = real (length xs) * c" by (simp add: sum_list_const flip: sum_list_const)
  with ne show ?thesis by (simp add: mean_def)
qed

lemma variance_nonneg: "0 \<le> variance xs"
  by (auto simp: variance_def mean_def intro!: divide_nonneg_nonneg sum_list_nonneg)

lemma variance_map_affine:
  assumes "xs \<noteq> []"
  shows "variance (map (\<lambda>x. a * x + b) xs) = a\<^sup>2 * variance xs"
proof -
  have "variance (map (\<lambda>x. a * x + b) xs) = mean (map (\<lambda>x. a\<^sup>2 * (x - mean xs)\<^sup>2 + 0) xs)"
    unfolding variance_def mean_map_affine [OF assms]
    by (simp add: comp_def algebra_simps power2_eq_square)
  also have "\<dots> = a\<^sup>2 * mean (map (\<lambda>x. (x - mean xs)\<^sup>2) xs) + 0"
    using assms mean_map_affine [of "map (\<lambda>x. (x - mean xs)\<^sup>2) xs" "a\<^sup>2" 0]
    by (simp add: comp_def)
  finally show ?thesis by (simp add: variance_def)
qed

lemma variance_eq_0_iff:
  assumes "xs \<noteq> []"
  shows "variance xs = 0 \<longleftrightarrow> (\<forall>x\<in>set xs. x = mean xs)"
proof -
  have "variance xs = 0 \<longleftrightarrow> (\<Sum>x\<leftarrow>xs. (x - mean xs)\<^sup>2) = 0"
    using assms by (simp add: variance_def mean_def)
  also have "\<dots> \<longleftrightarrow> (\<forall>y\<in>set (map (\<lambda>x. (x - mean xs)\<^sup>2) xs). y = 0)"
    by (rule sum_list_nonneg_eq_0_iff) auto
  finally show ?thesis by auto
qed


lemma col_scale_pos [simp]: "0 < col_scale col"
proof -
  have "0 \<le> sqrt (variance (present col))" by (simp add: variance_nonneg)
  then show ?thesis by (auto simp: col_scale_def handle_zeros_in_scale_def)
qed

lemma col_scale_sq:
  "variance (present col) \<noteq> 0 \<Longrightarrow> (col_scale col)\<^sup>2 = variance (present col)"
  by (simp add: col_scale_def handle_zeros_in_scale_def variance_nonneg)

lemma col_scale_zero_variance: "variance (present col) = 0 \<Longrightarrow> col_scale col = 1"
  by (simp add: col_scale_def handle_zeros_in_scale_def)

lemma standardize_affine:
  "standardize col = map_option (\<lambda>v. (1 / col_scale col) * v + (- col_mean col / col_scale col))"
  by (rule ext) (simp add: standardize_def diff_divide_distrib)

lemma present_standardize:
  "present (map (standardize col) xs) =
     map (\<lambda>v. (1 / col_scale col) * v + (- col_mean col / col_scale col)) (present xs)"
  unfolding standardize_affine by (rule present_map_map_option)

lemma standardize_mean_zero_aux:
  assumes "present col \<noteq> []"
  shows "mean (present (map (standardize col) col)) = 0"
  unfolding present_standardize mean_map_affine [OF assms]
  by (simp add: col_mean_def)

lemma standardize_unit_variance_aux:
  assumes "present col \<noteq> []" and "variance (present col) \<noteq> 0"
  shows "variance (present (map (standardize col) col)) = 1"
proof -
  have "variance (present (map (standardize col) col)) =
      (1 / col_scale col)\<^sup>2 * variance (present col)"
    unfolding present_standardize by (rule variance_map_affine) (rule assms)
  also have "\<dots> = variance (present col) / (col_scale col)\<^sup>2"
    by (simp add: power_divide)
  finally show ?thesis using assms(2) by (simp add: col_scale_sq)
qed

lemma standardize_constant_aux:
  assumes "present col \<noteq> []" and "\<And>x. x \<in> set (present col) \<Longrightarrow> x = c" and "Some x \<in> set col"
  shows "standardize col (Some x) = Some 0"
proof -
  from assms(1,2) have "mean (present col) = c" by (rule mean_const)
  moreover from assms(2,3) have "x = c" by (simp add: set_present)
  ultimately show ?thesis by (simp add: standardize_def col_mean_def)
qed

lemma standardize_mono_aux:
  "x \<le> y \<Longrightarrow> (x - col_mean col) / col_scale col \<le> (y - col_mean col) / col_scale col"
  by (simp add: divide_right_mono less_imp_le)

lemma standardize_zero_variance:
  assumes "variance (present col) = 0" and "Some x \<in> set col"
  shows "standardize col (Some x) = Some 0"
proof -
  from assms(2) have x: "x \<in> set (present col)" by (simp add: set_present)
  then have "present col \<noteq> []" by auto
  with assms(1) x have "x = mean (present col)" by (simp add: variance_eq_0_iff)
  then show ?thesis by (simp add: standardize_def col_mean_def)
qed

lemma standardize_affine_invariant_aux:
  assumes "0 < a" and "Some x \<in> set col"
  shows "standardize (map (map_option (\<lambda>x. a * x + b)) col) (Some (a * x + b)) =
     standardize col (Some x)"
proof -
  let ?col' = "map (map_option (\<lambda>x. a * x + b)) col"
  from assms(2) have "x \<in> set (present col)" by (simp add: set_present)
  then have ne: "present col \<noteq> []" by auto
  have p: "present ?col' = map (\<lambda>x. a * x + b) (present col)" by (rule present_map_map_option)
  have m: "col_mean ?col' = a * col_mean col + b"
    unfolding col_mean_def p by (rule mean_map_affine) (rule ne)
  have v: "variance (present ?col') = a\<^sup>2 * variance (present col)"
    unfolding p by (rule variance_map_affine) (rule ne)
  show ?thesis
  proof (cases "variance (present col) = 0")
    case True
    with v have "variance (present ?col') = 0" by simp
    moreover from assms(2) have "Some (a * x + b) \<in> set ?col'" by force
    ultimately have "standardize ?col' (Some (a * x + b)) = Some 0"
      by (rule standardize_zero_variance)
    with standardize_zero_variance [OF True assms(2)] show ?thesis by simp
  next
    case False
    with v assms(1) have nz: "variance (present ?col') \<noteq> 0" by simp
    have "sqrt (variance (present ?col')) = a * sqrt (variance (present col))"
      unfolding v using assms(1) by (simp add: real_sqrt_mult)
    with False nz assms(1) have sc: "col_scale ?col' = a * col_scale col"
      by (simp add: col_scale_def handle_zeros_in_scale_def)
    have "a * x + b - (a * col_mean col + b) = a * (x - col_mean col)"
      by (simp add: algebra_simps)
    then have "(a * x + b - (a * col_mean col + b)) / (a * col_scale col) =
        (x - col_mean col) / col_scale col"
      using assms(1) by simp
    then show ?thesis by (simp add: standardize_def m sc)
  qed
qed


lemma fit_transform_Inr_iff:
  "fit_transform X = Inr Z \<longleftrightarrow> X \<noteq> [] \<and>
     Z = map (\<lambda>row. map (\<lambda>j. standardize (column j X) (row ! j)) [0..<length row]) X"
  by (auto simp: fit_transform_def)

lemma fit_transform_Inl_iff: "fit_transform X = Inl ValueError \<longleftrightarrow> X = []"
  by (simp add: fit_transform_def)

lemma column_fit_transform:
  assumes "fit_transform X = Inr Z" and "rectangular n X" and "j < n"
  shows "column j Z = map (standardize (column j X)) (column j X)"
proof -
  from assms(2,3) have "\<And>row. row \<in> set X \<Longrightarrow> j < length row"
    by (simp add: rectangular_def list_all_iff)
  with assms(1) show ?thesis
    by (auto simp: fit_transform_Inr_iff column_def)
qed

lemma rectangular_fit_transform:
  assumes "fit_transform X = Inr Z" and "rectangular n X"
  shows "rectangular n Z"
  using assms by (auto simp: fit_transform_Inr_iff rectangular_def list_all_iff)

lemma length_fit_transform: "fit_transform X = Inr Z \<Longrightarrow> length Z = length X"
  by (auto simp: fit_transform_Inr_iff)

lemma nth_fit_transform:
  assumes "fit_transform X = Inr Z" and "i < length X" and "j < length (X ! i)"
  shows "Z ! i ! j = standardize (column j X) (X ! i ! j)"
  using assms by (auto simp: fit_transform_Inr_iff)

lemma standardize_None_iff [simp]: "standardize col x = None \<longleftrightarrow> x = None"
  by (simp add: standardize_def)

lemma column_rescale_column:
  assumes "rectangular n X" and "j < n"
  shows "column j (rescale_column j a b X) = map (map_option (\<lambda>x. a * x + b)) (column j X)"
    and "k \<noteq> j \<Longrightarrow> column k (rescale_column j a b X) = column k X"
proof -
  from assms have len: "\<And>row. row \<in> set X \<Longrightarrow> j < length row"
    by (simp add: rectangular_def list_all_iff)
  then show "column j (rescale_column j a b X) = map (map_option (\<lambda>x. a * x + b)) (column j X)"
    by (simp add: column_def rescale_column_def)
  show "k \<noteq> j \<Longrightarrow> column k (rescale_column j a b X) = column k X"
    by (simp add: column_def rescale_column_def)
qed

lemma standardize_rescaled_cell:
  assumes "0 < a" and "x \<in> set col"
  shows "standardize (map (map_option (\<lambda>x. a * x + b)) col) (map_option (\<lambda>x. a * x + b) x) =
     standardize col x"
proof (cases x)
  case None
  then show ?thesis by (simp add: standardize_def)
next
  case (Some v)
  with assms show ?thesis by (simp add: standardize_affine_invariant_aux)
qed

lemma fit_transform_rescale_column:
  assumes "0 < a" and "rectangular n X" and "j < n"
  shows "fit_transform (rescale_column j a b X) = fit_transform X"
proof (cases "X = []")
  case True
  then show ?thesis by (simp add: rescale_column_def)
next
  case False
  let ?X' = "rescale_column j a b X"
  have cell: "map (\<lambda>k. standardize (column k ?X') (row[j := map_option (\<lambda>x. a * x + b) (row ! j)] ! k))
        [0..<length row] =
      map (\<lambda>k. standardize (column k X) (row ! k)) [0..<length row]"
    if row: "row \<in> set X" for row
  proof (rule map_cong [OF refl])
    fix k assume "k \<in> set [0..<length row]"
    then have k: "k < length row" by simp
    show "standardize (column k ?X') (row[j := map_option (\<lambda>x. a * x + b) (row ! j)] ! k) =
        standardize (column k X) (row ! k)"
    proof (cases "k = j")
      case True
      from row have "row ! j \<in> set (column j X)" by (auto simp: column_def)
      with assms(1) True k show ?thesis
        by (simp add: column_rescale_column(1) [OF assms(2,3)] standardize_rescaled_cell)
    next
      case False
      then show ?thesis by (simp add: column_rescale_column(2) [OF assms(2,3)])
    qed
  qed
  from False have "?X' \<noteq> []" by (simp add: rescale_column_def)
  with False cell show ?thesis
    by (simp add: fit_transform_def) (simp add: rescale_column_def comp_def)
qed

lemma rectangular_rfm_features [simp]: "rectangular 3 (rfm_features rfm)"
  by (simp add: rectangular_def rfm_features_def list_all_iff)

lemma length_rfm_features [simp]: "length (rfm_features rfm) = length rfm"
  by (simp add: rfm_features_def)

lemma rfm_features_Nil_iff [simp]: "rfm_features rfm = [] \<longleftrightarrow> rfm = []"
  by (simp add: rfm_features_def)

lemma rfm_features_None_iff:
  "(\<exists>row\<in>set (rfm_features rfm). None \<in> set row) \<longleftrightarrow> (\<exists>r\<in>set rfm. Recency r = None)"
  by (auto simp: rfm_features_def)

section \<open>The sample matrix, scaled\<close>

lemma sample_features_eq: "rfm_features sample_segment_rfm = sample_features"
  by (simp add: eval_defs)

lemma sample_fit_transform: "fit_transform sample_features = Inr sample_scaled"
  by (simp add: eval_defs upt_rec numeral_eq_Suc)

lemma sample_rectangular: "rectangular 3 sample_features"
  by (simp add: eval_defs)

lemma sample_columns:
  "column 0 sample_features = [Some 1, Some 3, Some 1, Some 3]"
  "column (Suc 0) sample_features = [Some 2, Some 2, Some 2, Some 2]"
  "column 0 sample_scaled = [Some (- 1), Some 1, Some (- 1), Some 1]"
  "column (Suc 0) sample_scaled = [Some 0, Some 0, Some 0, Some 0]"
  by (simp_all add: eval_defs)

section \<open>Properties of the scaler\<close>

text \<open>
  Property C6 (zero mean, unit variance). Every column of the scaled matrix
  that has a present cell has mean 0 over its present cells, and variance 1
  unless the column of the input is constant.
\<close>

theorem fit_transform_standardizes:
  assumes "fit_transform X = Inr Z" and "rectangular n X" and "j < n"
    and "present (column j X) \<noteq> []"
  shows "mean (present (column j Z)) = 0 \<and>
     (variance (present (column j X)) \<noteq> 0 \<longrightarrow> variance (present (column j Z)) = 1)"
  unfolding column_fit_transform [OF assms(1-3)]
  using assms(4) by (simp add: standardize_mean_zero_aux standardize_unit_variance_aux)

theorem fit_transform_standardizes_witness:
  "fit_transform sample_features = Inr sample_scaled \<and>
   mean (present (column 0 sample_scaled)) = 0 \<and>
   variance (present (column 0 sample_scaled)) = 1"
proof -
  have "variance (present (column 0 sample_features)) \<noteq> 0"
    by (simp add: sample_columns) (simp add: eval_defs)
  with fit_transform_standardizes [OF sample_fit_transform sample_rectangular, of 0]
  show ?thesis by (simp add: sample_fit_transform sample_columns)
qed





text \<open>
  Measuring a column in another unit, \<open>x\<close>
  becoming \<open>a * x + b\<close> with \<open>a > 0\<close>, does not change the scaled matrix.
\<close>

theorem fit_transform_unit_invariant:
  assumes "0 < a" and "rectangular n X" and "j < n"
  shows "fit_transform (rescale_column j a b X) = fit_transform X"
  using assms by (rule fit_transform_rescale_column)

theorem fit_transform_unit_invariant_witness:
  "fit_transform (rescale_column 2 100 5 sample_features) = Inr sample_scaled"
  using fit_transform_unit_invariant [of 100 3 sample_features 2 5]
  by (simp add: sample_rectangular sample_fit_transform)

text \<open>
  Within a column, a cell that is at most another
  stays at most the other after scaling.
\<close>

theorem fit_transform_monotone:
  assumes "fit_transform X = Inr Z" and "i < length X" and "k < length X"
    and "j < length (X ! i)" and "j < length (X ! k)"
    and "X ! i ! j = Some x" and "X ! k ! j = Some y" and "x \<le> y"
  shows "\<exists>u v. Z ! i ! j = Some u \<and> Z ! k ! j = Some v \<and> u \<le> v"
  using assms
  by (simp add: nth_fit_transform [OF assms(1)] standardize_def standardize_mono_aux)

theorem fit_transform_monotone_witness:
  "\<exists>u v. sample_scaled ! 0 ! 2 = Some u \<and> sample_scaled ! 1 ! 2 = Some v \<and> u \<le> v"
  using fit_transform_monotone [OF sample_fit_transform, of 0 1 2 10 12]
  by (simp add: sample_features_def)

end
