(* ===== verification/Segment.thy ===== *)
theory Segment
  imports Scaler
begin

text \<open>
  The segmenter: lines 52-57 of \<open>src/customer_rfm.py\<close>, which cluster the scaled
  matrix with \<open>KMeans(n_clusters=3, random_state=42)\<close>, store the label of each
  customer in the column \<open>Cluster\<close> and translate the label into a name with
  the dictionary \<open>cluster_names\<close>.

  k-means itself is library code with a seeded random start. The model takes
  the fitted labelling as a parameter \<open>km\<close> (number of clusters and matrix to
  labels) and states what the script relies on as the contract
  \<open>valid_clusterer\<close>: one label per row, each below the number of clusters.
  What \<open>fit_predict\<close> checks before it clusters is modelled: it raises
  \<open>ValueError\<close> on a matrix without rows, on a missing cell, and on fewer rows
  than clusters. \<open>round_robin\<close> and \<open>reverse_round_robin\<close> are two labellings
  that meet the contract; they stand for two runs of the library that find the
  same clusters and number them differently.

  The theory proves when segmentation raises, that every customer gets one of
  the three names, and that the name of a cluster is decided by the number the
  library happens to give it.
\<close>

section \<open>Clustering\<close>

text \<open>The fitted labelling of the library: \<open>KMeans(n_clusters=k).fit_predict(X)\<close>.\<close>

type_synonym clusterer = "nat \<Rightarrow> real list list \<Rightarrow> nat list"

text \<open>
  Lines 53-54, \<open>kmeans.fit_predict(rfm_scaled)\<close>, with the checks of the input
  that precede the clustering.
\<close>

definition fit_predict :: "clusterer \<Rightarrow> nat \<Rightarrow> real option list list \<Rightarrow> nat list result" where
  "fit_predict km n_clusters X =
     (if X = [] \<or> list_ex (\<lambda>row. None \<in> set row) X then Inl ValueError
      else if length X < n_clusters then Inl ValueError
      else Inr (km n_clusters (map present X)))"

section \<open>The segmented table\<close>

text \<open>The RFM table with the columns that lines 54 and 57 add.\<close>

record clustered_row = rfm_row +
  Cluster :: nat

record segmented_row = clustered_row +
  ClusterName :: "string option"

text \<open>
  Line 54, \<open>rfm['Cluster'] = _\<close>: the assignment of an array to a column raises
  when the lengths differ.
\<close>

definition assign_Cluster :: "rfm_row frame \<Rightarrow> nat list \<Rightarrow> clustered_row frame result" where
  "assign_Cluster rfm labels =
     (if length labels \<noteq> length rfm then Inl ValueError
      else Inr (map2 (\<lambda>r l. \<lparr>CustomerID = CustomerID r, Recency = Recency r,
                  Frequency = Frequency r, Monetary = Monetary r, Cluster = l\<rparr>) rfm labels))"

text \<open>Line 56, the dictionary.\<close>

definition cluster_names :: "nat \<rightharpoonup> string" where
  "cluster_names = [2 \<mapsto> ''VIP Customers'', 0 \<mapsto> ''Loyal Customers'', 1 \<mapsto> ''Sleeping Customers'']"

text \<open>
  Line 57, \<open>rfm['ClusterName'] = rfm['Cluster'].map(cluster_names)\<close>: a label
  that is not a key of the dictionary gives a missing name.
\<close>

definition assign_ClusterName :: "clustered_row frame \<Rightarrow> segmented_row frame" where
  "assign_ClusterName rfm =
     map (\<lambda>r. \<lparr>CustomerID = CustomerID r, Recency = Recency r, Frequency = Frequency r,
              Monetary = Monetary r, Cluster = Cluster r,
              ClusterName = cluster_names (Cluster r)\<rparr>) rfm"

text \<open>Lines 48-57 in sequence: scale, cluster, label, name.\<close>

definition segment :: "clusterer \<Rightarrow> rfm_row frame \<Rightarrow> segmented_row frame result" where
  "segment km rfm =
     bind_result (fit_transform (rfm_features rfm)) (\<lambda>rfm_scaled.
     bind_result (fit_predict km 3 rfm_scaled) (\<lambda>labels.
     bind_result (assign_Cluster rfm labels) (\<lambda>rfm. Inr (assign_ClusterName rfm))))"

section \<open>The contract of the clusterer\<close>

text \<open>
  Asked for \<open>k\<close> clusters of at least \<open>k\<close> rows, the library returns one label
  per row, and every label is below \<open>k\<close>.
\<close>

definition valid_clusterer :: "clusterer \<Rightarrow> bool" where
  "valid_clusterer km \<longleftrightarrow>
     (\<forall>k X. 1 \<le> k \<and> k \<le> length X \<longrightarrow> length (km k X) = length X \<and> list_all (\<lambda>l. l < k) (km k X))"

text \<open>Two labellings that meet the contract.\<close>

definition round_robin :: clusterer where
  "round_robin k X = map (\<lambda>i. i mod k) [0..<length X]"

definition reverse_round_robin :: clusterer where
  "reverse_round_robin k X = map (\<lambda>i. k - 1 - i mod k) [0..<length X]"

section \<open>Sample tables\<close>

text \<open>
  Three customers: one with 3 purchases, the last 2 days ago, 5000 in total; one
  with 1 purchase 400 days ago, 20 in total; one with 10 purchases, the last 30
  days ago, 1200 in total.
\<close>

definition spec_example_rfm :: "rfm_row frame" where
  "spec_example_rfm =
     [\<lparr>CustomerID = 1, Recency = Some 2, Frequency = 3, Monetary = 5000\<rparr>,
      \<lparr>CustomerID = 2, Recency = Some 400, Frequency = 1, Monetary = 20\<rparr>,
      \<lparr>CustomerID = 3, Recency = Some 30, Frequency = 10, Monetary = 1200\<rparr>]"

text \<open>A row of the segmented table: an RFM row, its label and the name of the label.\<close>

definition segmented :: "rfm_row \<Rightarrow> nat \<Rightarrow> segmented_row" where
  "segmented r l = \<lparr>CustomerID = CustomerID r, Recency = Recency r, Frequency = Frequency r,
      Monetary = Monetary r, Cluster = l, ClusterName = cluster_names l\<rparr>"

declare fit_predict_def [eval_defs] assign_Cluster_def [eval_defs] cluster_names_def [eval_defs]
  assign_ClusterName_def [eval_defs] segment_def [eval_defs] round_robin_def [eval_defs]
  reverse_round_robin_def [eval_defs] spec_example_rfm_def [eval_defs] segmented_def [eval_defs]

section \<open>The dictionary of names\<close>

lemma cluster_names_simps [simp]:
  "cluster_names 0 = Some ''Loyal Customers''"
  "cluster_names (Suc 0) = Some ''Sleeping Customers''"
  "cluster_names 2 = Some ''VIP Customers''"
  "cluster_names (Suc (Suc 0)) = Some ''VIP Customers''"
  by (simp_all add: cluster_names_def numeral_2_eq_2)

lemma cluster_names_None_iff: "cluster_names l = None \<longleftrightarrow> 3 \<le> l"
  by (auto simp: cluster_names_def)

lemma dom_cluster_names: "dom cluster_names = {0, 1, 2}"
  by (auto simp: cluster_names_def)

section \<open>The two sample labellings\<close>

lemma valid_round_robin: "valid_clusterer round_robin"
  by (auto simp: valid_clusterer_def round_robin_def list_all_iff)

lemma valid_reverse_round_robin: "valid_clusterer reverse_round_robin"
  by (auto simp: valid_clusterer_def reverse_round_robin_def list_all_iff)

lemma upt_0_3: "[0..<3] = [0, 1, 2]" and upt_0_4: "[0..<4] = [0, 1, 2, 3]"
  by (simp_all add: upt_rec numeral_eq_Suc)

lemma round_robin_3 [simp]:
  "length X = 3 \<Longrightarrow> round_robin 3 X = [0, 1, 2]"
  "length X = 3 \<Longrightarrow> reverse_round_robin 3 X = [2, 1, 0]"
  "length X = 4 \<Longrightarrow> round_robin 3 X = [0, 1, 2, 0]"
  by (simp_all add: round_robin_def reverse_round_robin_def upt_0_3 upt_0_4)

section \<open>The steps of segmentation\<close>

lemma fit_predict_Inr_iff:
  "fit_predict km k X = Inr labels \<longleftrightarrow>
     X \<noteq> [] \<and> (\<forall>row\<in>set X. None \<notin> set row) \<and> k \<le> length X \<and> labels = km k (map present X)"
  by (auto simp: fit_predict_def list_ex_iff)


lemma fit_transform_has_None_iff:
  assumes "fit_transform X = Inr Z"
  shows "(\<exists>row\<in>set Z. None \<in> set row) \<longleftrightarrow> (\<exists>row\<in>set X. None \<in> set row)"
proof -
  have "None \<in> set (map (\<lambda>j. standardize (column j X) (row ! j)) [0..<length row]) \<longleftrightarrow>
      None \<in> set row" for row
    by (auto simp: in_set_conv_nth eq_commute [of None])
  with assms show ?thesis by (auto simp: fit_transform_Inr_iff)
qed

lemma assign_Cluster_Inr_iff:
  "assign_Cluster rfm labels = Inr out \<longleftrightarrow> length labels = length rfm \<and>
     out = map2 (\<lambda>r l. \<lparr>CustomerID = CustomerID r, Recency = Recency r,
                  Frequency = Frequency r, Monetary = Monetary r, Cluster = l\<rparr>) rfm labels"
  by (auto simp: assign_Cluster_def)

lemma assign_ClusterName_map2:
  "assign_ClusterName (map2 (\<lambda>r l. \<lparr>CustomerID = CustomerID r, Recency = Recency r,
      Frequency = Frequency r, Monetary = Monetary r, Cluster = l\<rparr>) rfm labels) =
   map2 segmented rfm labels"
  by (simp add: assign_ClusterName_def segmented_def case_prod_unfold)

lemma segment_Inr_iff:
  "segment km rfm = Inr out \<longleftrightarrow>
     3 \<le> length rfm \<and> (\<forall>r\<in>set rfm. Recency r \<noteq> None) \<and>
     (\<exists>Z. fit_transform (rfm_features rfm) = Inr Z \<and>
        length (km 3 (map present Z)) = length rfm \<and>
        out = map2 segmented rfm (km 3 (map present Z)))"
proof (cases "rfm = []")
  case True
  then show ?thesis by (simp add: segment_def fit_transform_def)
next
  case False
  then obtain Z where Z: "fit_transform (rfm_features rfm) = Inr Z"
    by (auto simp: fit_transform_def)
  then have len: "length Z = length rfm" by (simp add: length_fit_transform)
  have "(\<exists>row\<in>set Z. None \<in> set row) \<longleftrightarrow> (\<exists>r\<in>set rfm. Recency r = None)"
    by (simp only: fit_transform_has_None_iff [OF Z] rfm_features_None_iff)
  then have "(\<not> (\<exists>row\<in>set Z. None \<in> set row)) \<longleftrightarrow> (\<not> (\<exists>r\<in>set rfm. Recency r = None))"
    by (rule arg_cong)
  then have nan: "(\<forall>row\<in>set Z. None \<notin> set row) \<longleftrightarrow> (\<forall>r\<in>set rfm. Recency r \<noteq> None)"
    by (simp only: bex_simps(8) not_not)
  from False len have "Z \<noteq> []" by auto
  then have "segment km rfm = Inr out \<longleftrightarrow>
      (\<forall>row\<in>set Z. None \<notin> set row) \<and> 3 \<le> length rfm \<and>
      length (km 3 (map present Z)) = length rfm \<and>
      out = map2 segmented rfm (km 3 (map present Z))"
    by (auto simp: segment_def Z len fit_predict_Inr_iff bind_result_Inr_iff
        assign_Cluster_Inr_iff assign_ClusterName_map2)
  then show ?thesis unfolding nan by (auto simp: Z)
qed

lemma segment_cases: "(\<exists>out. segment km rfm = Inr out) \<or> segment km rfm = Inl ValueError"
  by (auto simp: segment_def fit_transform_def fit_predict_def assign_Cluster_def)

lemma segmented_sel [simp]:
  "CustomerID (segmented r l) = CustomerID r"
  "Recency (segmented r l) = Recency r"
  "Frequency (segmented r l) = Frequency r"
  "Monetary (segmented r l) = Monetary r"
  "Cluster (segmented r l) = l"
  "ClusterName (segmented r l) = cluster_names l"
  by (simp_all add: segmented_def)

lemma valid_clusterer_labels:
  assumes "valid_clusterer km" and "1 \<le> k" and "k \<le> length X"
  shows "length (km k X) = length X" and "l \<in> set (km k X) \<Longrightarrow> l < k"
  using assms by (auto simp: valid_clusterer_def list_all_iff)

lemma segment_valid_Inr_iff:
  assumes "valid_clusterer km"
  shows "segment km rfm = Inr out \<longleftrightarrow>
     3 \<le> length rfm \<and> (\<forall>r\<in>set rfm. Recency r \<noteq> None) \<and>
     (\<exists>Z. fit_transform (rfm_features rfm) = Inr Z \<and>
        out = map2 segmented rfm (km 3 (map present Z)))"
proof -
  have "length (km 3 (map present Z)) = length rfm"
    if "fit_transform (rfm_features rfm) = Inr Z" and "3 \<le> length rfm" for Z
  proof -
    from that have "3 \<le> length (map present Z)" by (simp add: length_fit_transform)
    with assms have "length (km 3 (map present Z)) = length (map present Z)"
      by (intro valid_clusterer_labels) simp_all
    with that(1) show ?thesis by (simp add: length_fit_transform)
  qed
  then show ?thesis unfolding segment_Inr_iff by blast
qed

lemma segment_labels:
  assumes "valid_clusterer km" and "segment km rfm = Inr out"
  obtains labels where "length labels = length rfm" and "\<And>l. l \<in> set labels \<Longrightarrow> l < 3"
    and "out = map2 segmented rfm labels"
proof -
  from assms(2) obtain Z where Z: "fit_transform (rfm_features rfm) = Inr Z"
    and len: "3 \<le> length rfm" "length (km 3 (map present Z)) = length rfm"
    and out: "out = map2 segmented rfm (km 3 (map present Z))"
    unfolding segment_Inr_iff by blast
  from Z len(1) have "3 \<le> length (map present Z)" by (simp add: length_fit_transform)
  with assms(1) have "\<And>l. l \<in> set (km 3 (map present Z)) \<Longrightarrow> l < 3"
    by (intro valid_clusterer_labels(2)) simp_all
  with len(2) out that show thesis by blast
qed

lemma segment_row_named:
  assumes "valid_clusterer km" and "segment km rfm = Inr out" and "s \<in> set out"
  shows "Cluster s < 3 \<and> ClusterName s = cluster_names (Cluster s) \<and> ClusterName s \<noteq> None"
proof -
  from assms(1,2) obtain labels where lt: "\<And>l. l \<in> set labels \<Longrightarrow> l < 3"
    and out: "out = map2 segmented rfm labels"
    by (rule segment_labels) blast
  from assms(3) out obtain r l where "l \<in> set labels" and s: "s = segmented r l"
    by (auto dest: set_zip_rightD)
  with lt have "l < 3" by simp
  with s show ?thesis using cluster_names_None_iff [of l] by simp
qed

lemma segment_keeps_rows:
  assumes "valid_clusterer km" and "segment km rfm = Inr out"
  shows "length out = length rfm" and "map CustomerID out = map CustomerID rfm"
    and "map Recency out = map Recency rfm" and "map Frequency out = map Frequency rfm"
    and "map Monetary out = map Monetary rfm"
proof -
  from assms obtain labels where len: "length labels = length rfm"
    and out: "out = map2 segmented rfm labels"
    by (rule segment_labels) blast
  note keep = map_fst_zip_same [OF len]
  from len show "length out = length rfm" by (simp add: out)
  show "map CustomerID out = map CustomerID rfm"
    using keep [of CustomerID] by (simp add: out case_prod_unfold comp_def)
  show "map Recency out = map Recency rfm"
    using keep [of Recency] by (simp add: out case_prod_unfold comp_def)
  show "map Frequency out = map Frequency rfm"
    using keep [of Frequency] by (simp add: out case_prod_unfold comp_def)
  show "map Monetary out = map Monetary rfm"
    using keep [of Monetary] by (simp add: out case_prod_unfold comp_def)
qed

lemma segment_Inl_iff:
  assumes "valid_clusterer km"
  shows "segment km rfm = Inl ValueError \<longleftrightarrow>
     length rfm < 3 \<or> (\<exists>r\<in>set rfm. Recency r = None)"
proof (cases "rfm = []")
  case True
  then show ?thesis by (simp add: segment_def fit_transform_def)
next
  case False
  then obtain Z where Z: "fit_transform (rfm_features rfm) = Inr Z"
    by (auto simp: fit_transform_def)
  have "(\<exists>out. segment km rfm = Inr out) \<longleftrightarrow>
      3 \<le> length rfm \<and> (\<forall>r\<in>set rfm. Recency r \<noteq> None)"
    unfolding segment_valid_Inr_iff [OF assms] using Z by blast
  moreover have "(\<exists>out. segment km rfm = Inr out) \<longleftrightarrow> segment km rfm \<noteq> Inl ValueError"
    using segment_cases [of km rfm] by auto
  ultimately show ?thesis by (auto simp: not_le)
qed

lemma spec_example_segment:
  "segment round_robin spec_example_rfm = Inr (map2 segmented spec_example_rfm [0, 1, 2])"
  "segment reverse_round_robin spec_example_rfm = Inr (map2 segmented spec_example_rfm [2, 1, 0])"
proof -
  obtain Z where Z: "fit_transform (rfm_features spec_example_rfm) = Inr Z"
    by (auto simp: fit_transform_def spec_example_rfm_def rfm_features_def)
  then have len: "length (map present Z) = 3"
    by (simp add: length_fit_transform spec_example_rfm_def)
  with Z show
    "segment round_robin spec_example_rfm = Inr (map2 segmented spec_example_rfm [0, 1, 2])"
    "segment reverse_round_robin spec_example_rfm =
       Inr (map2 segmented spec_example_rfm [2, 1, 0])"
    by (simp_all add: segment_valid_Inr_iff valid_round_robin valid_reverse_round_robin)
      (simp_all add: spec_example_rfm_def)
qed

section \<open>Properties of the segmenter\<close>

text \<open>
  Property C7 (every customer is named). With a clusterer that meets its
  contract, a segmentation that returns keeps the RFM rows in their order and
  gives each of them a label below 3 and the name the dictionary has for the
  label; no name is missing.
\<close>

theorem segment_names_total:
  assumes "valid_clusterer km" and "segment km rfm = Inr out"
  shows "\<exists>labels. length labels = length rfm \<and> out = map2 segmented rfm labels \<and>
     (\<forall>s\<in>set out. Cluster s < 3 \<and> ClusterName s = cluster_names (Cluster s) \<and>
        ClusterName s \<noteq> None)"
proof -
  from assms obtain labels where "length labels = length rfm" "out = map2 segmented rfm labels"
    by (rule segment_labels) blast
  with segment_row_named [OF assms] show ?thesis by blast
qed

theorem segment_names_total_witness:
  "valid_clusterer round_robin \<and>
   map ClusterName (projr (segment round_robin sample_segment_rfm)) =
     [Some ''Loyal Customers'', Some ''Sleeping Customers'', Some ''VIP Customers'',
      Some ''Loyal Customers'']"
proof -
  have "segment round_robin sample_segment_rfm =
      Inr (map2 segmented sample_segment_rfm [0, 1, 2, 0])"
    by (simp add: segment_valid_Inr_iff valid_round_robin sample_features_eq sample_fit_transform)
      (simp add: eval_defs)
  with segment_names_total [OF valid_round_robin this] valid_round_robin show ?thesis
    by (simp add: sample_segment_rfm_def)
qed

text \<open>
  Property C18 (when segmentation raises). With a clusterer that meets its
  contract, segmentation raises \<open>ValueError\<close> exactly when there are fewer than
  three customers or some customer has a missing recency. Three customers are
  enough.
\<close>

theorem segment_raises_iff:
  assumes "valid_clusterer km"
  shows "segment km rfm = Inl ValueError \<longleftrightarrow>
     length rfm < 3 \<or> (\<exists>r\<in>set rfm. Recency r = None)"
  using assms by (rule segment_Inl_iff)

theorem segment_raises_iff_witness:
  "valid_clusterer round_robin \<and>
   segment round_robin (take 2 spec_example_rfm) = Inl ValueError \<and>
   segment round_robin sample_rfm = Inl ValueError \<and>
   segment round_robin spec_example_rfm \<noteq> Inl ValueError"
  using segment_raises_iff [OF valid_round_robin, of "take 2 spec_example_rfm"]
    segment_raises_iff [OF valid_round_robin, of sample_rfm]
    segment_raises_iff [OF valid_round_robin, of spec_example_rfm]
  by (simp add: valid_round_robin spec_example_rfm_def sample_rfm_def)


end
