(* ===== verification/Naming.thy ===== *)
theory Naming
  imports Segment
begin

text \<open>
  The naming policy that the specification prescribes for the segmenter
  (\<open>spec.md\<close>, sections 4.4 and 9), as the contract against which the
  dictionary of line 56 of \<open>src/customer_rfm.py\<close> is measured. The policy ranks
  the three clusters by a composite score, the mean monetary value minus a
  weight times the mean recency, and names the best cluster VIP, the middle one
  Loyal and the worst one Sleeping. The script has no such step: it looks the
  name up by the index of the cluster.

  The definitions of the policy are not code of the script. The theory proves
  that the policy does not depend on how the clusters are numbered, and states
  exactly when the lookup of the script gives the names of the policy.
\<close>

section \<open>The policy\<close>

text \<open>The customers that a labelling puts in a cluster.\<close>

definition members :: "rfm_row frame \<Rightarrow> nat list \<Rightarrow> nat \<Rightarrow> rfm_row frame" where
  "members tbl labels c = map fst (filter (\<lambda>p. snd p = c) (zip tbl labels))"

text \<open>The composite score of a cluster: high spending and recent purchases rank first.\<close>

definition score :: "real \<Rightarrow> rfm_row frame \<Rightarrow> real" where
  "score weight g =
     mean (map Monetary g) - weight * mean (present (map (\<lambda>r. map_option of_int (Recency r)) g))"

text \<open>The rank of a cluster: the number of clusters with a higher score.\<close>

definition cluster_rank :: "real \<Rightarrow> rfm_row frame \<Rightarrow> nat list \<Rightarrow> nat \<Rightarrow> nat" where
  "cluster_rank weight tbl labels c =
     length (filter (\<lambda>d. score weight (members tbl labels c) < score weight (members tbl labels d))
       [0..<3])"

text \<open>The names by rank, and the names of the customers under the policy.\<close>

definition ranked_names :: "nat \<rightharpoonup> string" where
  "ranked_names = [0 \<mapsto> ''VIP Customers'', 1 \<mapsto> ''Loyal Customers'', 2 \<mapsto> ''Sleeping Customers'']"

definition name_clusters :: "real \<Rightarrow> rfm_row frame \<Rightarrow> nat list \<Rightarrow> string option list" where
  "name_clusters weight tbl labels =
     map (\<lambda>l. ranked_names (cluster_rank weight tbl labels l)) labels"

text \<open>
  The rank that the dictionary of the script gives a cluster index: 2 is VIP, 0
  is Loyal, 1 is Sleeping.
\<close>

definition index_rank :: "nat \<Rightarrow> nat" where
  "index_rank l = (if l = 2 then 0 else if l = 0 then 1 else if l = 1 then 2 else 3)"

lemmas naming_defs = members_def score_def cluster_rank_def ranked_names_def name_clusters_def
  index_rank_def

section \<open>Renumbering the clusters\<close>

lemma members_relabel:
  assumes "inj_on f (insert c (set labels))"
  shows "members tbl (map f labels) (f c) = members tbl labels c"
  using assms
proof (induction tbl arbitrary: labels)
  case Nil
  show ?case by (simp add: members_def)
next
  case (Cons r tbl)
  show ?case
  proof (cases labels)
    case Nil
    then show ?thesis by (simp add: members_def)
  next
    case (Cons l ls)
    with Cons.prems have inj: "inj_on f (insert c (set ls))" and eq: "f l = f c \<longleftrightarrow> l = c"
      by (auto simp: inj_on_def)
    from Cons.IH [OF inj] have "members tbl (map f ls) (f c) = members tbl ls c" .
    with Cons eq show ?thesis by (simp add: members_def)
  qed
qed

lemma length_filter_upt_card: "length (filter P [0..<n]) = card {d. d < n \<and> P d}"
proof -
  have "length (filter P [0..<n]) = card (set (filter P [0..<n]))"
    by (rule distinct_card [symmetric]) simp
  also have "set (filter P [0..<n]) = {d. d < n \<and> P d}" by auto
  finally show ?thesis .
qed

lemma cluster_rank_relabel:
  assumes bij: "bij_betw f {..<3} {..<3}" and lt: "\<And>l. l \<in> set labels \<Longrightarrow> l < 3" and c: "c < 3"
  shows "cluster_rank weight tbl (map f labels) (f c) = cluster_rank weight tbl labels c"
proof -
  from bij have inj: "inj_on f {..<3}" and img: "f ` {..<3} = {..<3}"
    by (auto simp: bij_betw_def)
  have mem: "members tbl (map f labels) (f d) = members tbl labels d" if "d < 3" for d
  proof (rule members_relabel)
    from that lt have "insert d (set labels) \<subseteq> {..<3}" by auto
    with inj show "inj_on f (insert d (set labels))" by (rule inj_on_subset)
  qed
  let ?s = "\<lambda>L d. score weight (members tbl L d)"
  have "{e. e < 3 \<and> ?s (map f labels) (f c) < ?s (map f labels) e} =
      f ` {d. d < 3 \<and> ?s labels c < ?s labels d}"
  proof (intro set_eqI iffI)
    fix e assume "e \<in> {e. e < 3 \<and> ?s (map f labels) (f c) < ?s (map f labels) e}"
    then have e: "e < 3" "?s (map f labels) (f c) < ?s (map f labels) e" by auto
    with img obtain d where d: "d < 3" "e = f d" by (metis imageE lessThan_iff)
    with e mem [OF c] mem [OF d(1)] show "e \<in> f ` {d. d < 3 \<and> ?s labels c < ?s labels d}"
      by auto
  next
    fix e assume "e \<in> f ` {d. d < 3 \<and> ?s labels c < ?s labels d}"
    then obtain d where d: "d < 3" "e = f d" "?s labels c < ?s labels d" by auto
    with img have "e < 3" by (metis imageI lessThan_iff)
    with d mem [OF c] mem [OF d(1)]
    show "e \<in> {e. e < 3 \<and> ?s (map f labels) (f c) < ?s (map f labels) e}" by simp
  qed
  moreover have "inj_on f {d. d < 3 \<and> ?s labels c < ?s labels d}"
    by (rule inj_on_subset [OF inj]) auto
  ultimately show ?thesis
    by (simp add: cluster_rank_def length_filter_upt_card card_image)
qed

lemma name_clusters_relabel:
  assumes "bij_betw f {..<3} {..<3}" and "\<And>l. l \<in> set labels \<Longrightarrow> l < 3"
  shows "name_clusters weight tbl (map f labels) = name_clusters weight tbl labels"
  using assms by (simp add: name_clusters_def comp_def cluster_rank_relabel)

lemma cluster_names_index_rank: "cluster_names l = ranked_names (index_rank l)"
  by (simp add: cluster_names_def ranked_names_def index_rank_def)

lemma ranked_names_inj:
  "a < 3 \<Longrightarrow> b < 3 \<Longrightarrow> ranked_names a = ranked_names b \<longleftrightarrow> a = b"
  by (auto simp: ranked_names_def split: if_splits)

lemma cluster_rank_le: "cluster_rank weight tbl labels c \<le> 3"
  using length_filter_le [of _ "[0..<3]"] by (simp add: cluster_rank_def)


lemma cluster_rank_less:
  assumes "c < 3"
  shows "cluster_rank weight tbl labels c < 3"
proof -
  let ?P = "\<lambda>d. score weight (members tbl labels c) < score weight (members tbl labels d)"
  have "{d. d < 3 \<and> ?P d} \<subseteq> {..<3} - {c}" by auto
  then have "card {d. d < 3 \<and> ?P d} \<le> card ({..<3::nat} - {c})"
    by (intro card_mono) simp_all
  also from assms have "\<dots> = 2" by simp
  finally show ?thesis by (simp add: cluster_rank_def length_filter_upt_card)
qed

lemma index_rank_less: "l < 3 \<Longrightarrow> index_rank l < 3"
  by (simp add: index_rank_def)

lemma segment_names_index_rank:
  assumes "valid_clusterer km" and "segment km tbl = Inr out"
  shows "map ClusterName out = map (\<lambda>l. ranked_names (index_rank l)) (map Cluster out)"
    and "\<And>l. l \<in> set (map Cluster out) \<Longrightarrow> l < 3"
  using segment_row_named [OF assms] by (auto simp: cluster_names_index_rank)

lemma spec_example_labels:
  "map Cluster (map2 segmented spec_example_rfm [0, 1, 2]) = [0, 1, 2]"
  "map Cluster (map2 segmented spec_example_rfm [2, 1, 0]) = [2, 1, 0]"
  by (simp_all add: spec_example_rfm_def)

lemma spec_example_names:
  "name_clusters 1 spec_example_rfm [0, 1, 2] =
     [Some ''VIP Customers'', Some ''Sleeping Customers'', Some ''Loyal Customers'']"
  by (simp add: naming_defs eval_defs upt_0_3)

lemma spec_example_index_ranks:
  "\<not> list_all (\<lambda>l. cluster_rank 1 spec_example_rfm [0, 1, 2] l = index_rank l) [0, 1, 2]"
  by (simp add: naming_defs eval_defs upt_0_3)

section \<open>Properties of the naming\<close>

text \<open>
  Property C22 (the policy does not depend on the numbering). When two
  clusterers that meet the contract put the customers in the same clusters and
  number them differently, the naming policy gives every customer the same name
  in both runs.
\<close>

theorem name_clusters_relabel_invariant:
  assumes "valid_clusterer km" and "segment km tbl = Inr out"
    and "segment km' tbl = Inr out'"
    and "bij_betw f {..<3} {..<3}" and "map Cluster out' = map f (map Cluster out)"
  shows "name_clusters weight tbl (map Cluster out') = name_clusters weight tbl (map Cluster out)"
  unfolding assms(5)
  using assms(4) segment_names_index_rank(2) [OF assms(1,2)] by (rule name_clusters_relabel)

theorem name_clusters_relabel_invariant_witness:
  "name_clusters 1 spec_example_rfm [2, 1, 0] = name_clusters 1 spec_example_rfm [0, 1, 2] \<and>
   name_clusters 1 spec_example_rfm [0, 1, 2] =
     [Some ''VIP Customers'', Some ''Sleeping Customers'', Some ''Loyal Customers'']"
proof -
  have "bij_betw (\<lambda>l. 2 - l) {..<3::nat} {..<3}"
    by (rule bij_betw_byWitness [where f' = "\<lambda>l. 2 - l"]) auto
  from name_clusters_relabel_invariant [OF valid_round_robin spec_example_segment this, of 1,
      unfolded spec_example_labels]
  show ?thesis using spec_example_names by simp
qed



end
