(* ===== verification/Dataframe.thy ===== *)
theory Dataframe
  imports Frame
begin

text \<open>
  The table that \<open>pd.read_csv\<close> returns, before anything is known about its
  columns: a \<open>DataFrame\<close> is the list of its column labels and the list of its
  rows, each row the list of its cells in the order of the labels. A cell is a
  number, a string, a time stamp or missing; \<open>read_csv\<close> produces the first
  two and missing cells, \<open>pd.to_datetime\<close> the time stamps.

  The operations are those that \<open>wrangle_data\<close> in \<open>src/customer_rfm.py\<close> applies
  to the frame (lines 18-25): reading and assigning a column, \<open>dropna\<close> with a
  subset, comparison of a column with 0, selection by a mask,
  \<open>drop_duplicates\<close>, the product of two columns and \<open>astype(int)\<close>. They raise
  what pandas raises: \<open>KeyError\<close> for a label that is not a column, \<open>TypeError\<close>
  for a comparison or a product with a string, \<open>ValueError\<close> for a cast that
  fails or an assignment of the wrong length.
\<close>

section \<open>Cells and frames\<close>

datatype cell = NA | Num real | Str string | Time timestamp

record dataframe =
  columns :: "string list"
  data :: "cell list list"

text \<open>
  A frame is well formed when its labels are distinct, as \<open>read_csv\<close> makes
  them, and every row has one cell per label.
\<close>

definition wf_df :: "dataframe \<Rightarrow> bool" where
  "wf_df df \<longleftrightarrow>
     distinct (columns df) \<and> list_all (\<lambda>row. length row = length (columns df)) (data df)"

text \<open>The cell of a row under a label.\<close>

definition cell_at :: "string list \<Rightarrow> string \<Rightarrow> cell list \<Rightarrow> cell" where
  "cell_at cols c row = (case map_of (zip cols row) c of Some v \<Rightarrow> v | None \<Rightarrow> NA)"

text \<open>The row with the cell under a label replaced.\<close>

definition put_cell :: "string list \<Rightarrow> string \<Rightarrow> cell \<Rightarrow> cell list \<Rightarrow> cell list" where
  "put_cell cols c v row = map2 (\<lambda>k old. if k = c then v else old) cols row"

section \<open>Operations\<close>

text \<open>\<open>df[c]\<close>: the column, or \<open>KeyError\<close>.\<close>

definition getitem :: "dataframe \<Rightarrow> string \<Rightarrow> cell list result" where
  "getitem df c =
     (if c \<in> set (columns df) then Inr (map (cell_at (columns df) c) (data df))
      else Inl (KeyError [c]))"

text \<open>
  \<open>df[c] = values\<close>: the column is replaced where it stands, or added as the
  last one; values of another length than the frame raise \<open>ValueError\<close>.
\<close>

definition setitem :: "dataframe \<Rightarrow> string \<Rightarrow> cell list \<Rightarrow> dataframe result" where
  "setitem df c vals =
     (if length vals \<noteq> length (data df) then Inl ValueError
      else if c \<in> set (columns df)
      then Inr (df\<lparr>data := map2 (put_cell (columns df) c) vals (data df)\<rparr>)
      else Inr \<lparr>columns = columns df @ [c], data = map2 (\<lambda>v row. row @ [v]) vals (data df)\<rparr>)"

text \<open>
  \<open>df.dropna(subset=labels)\<close>: \<open>KeyError\<close> with the labels that are not columns,
  else the rows in which every cell of the subset is present.
\<close>

definition dropna_df :: "string list \<Rightarrow> dataframe \<Rightarrow> dataframe result" where
  "dropna_df labels df =
     (case filter (\<lambda>c. c \<notin> set (columns df)) labels of
        [] \<Rightarrow> Inr (df\<lparr>data :=
                filter (\<lambda>row. list_all (\<lambda>c. cell_at (columns df) c row \<noteq> NA) labels) (data df)\<rparr>)
      | missing \<Rightarrow> Inl (KeyError missing))"

text \<open>
  \<open>series > 0\<close>: a number is compared, a missing cell gives \<open>False\<close>, and a
  string or a time stamp in the column makes the comparison raise \<open>TypeError\<close>.
\<close>

definition comparable :: "cell \<Rightarrow> bool" where
  "comparable c = (case c of NA \<Rightarrow> True | Num x \<Rightarrow> True | Str s \<Rightarrow> False | Time t \<Rightarrow> False)"

definition positive :: "cell \<Rightarrow> bool" where
  "positive c = (case c of Num x \<Rightarrow> 0 < x | _ \<Rightarrow> False)"

definition gt_zero :: "cell list \<Rightarrow> bool list result" where
  "gt_zero s = (if list_all comparable s then Inr (map positive s) else Inl TypeError)"

text \<open>\<open>mask1 & mask2\<close> and \<open>df[mask]\<close>.\<close>

definition mask_and :: "bool list \<Rightarrow> bool list \<Rightarrow> bool list" where
  "mask_and m n = map2 (\<and>) m n"

definition loc_mask :: "dataframe \<Rightarrow> bool list \<Rightarrow> dataframe" where
  "loc_mask df keep = df\<lparr>data := map snd (filter fst (zip keep (data df)))\<rparr>"

text \<open>\<open>df.drop_duplicates()\<close>: rows are compared on all columns.\<close>

definition drop_duplicates_df :: "dataframe \<Rightarrow> dataframe" where
  "drop_duplicates_df df = df\<lparr>data := drop_duplicates (data df)\<rparr>"

text \<open>
  \<open>series1 * series2\<close>: the product of two numbers, missing when a factor is;
  a string or a time stamp makes it raise \<open>TypeError\<close>.
\<close>

definition mul_cell :: "cell \<Rightarrow> cell \<Rightarrow> cell" where
  "mul_cell a b = (case (a, b) of (Num x, Num y) \<Rightarrow> Num (x * y) | _ \<Rightarrow> NA)"

definition mul_series :: "cell list \<Rightarrow> cell list \<Rightarrow> cell list result" where
  "mul_series s t =
     (if list_all comparable s \<and> list_all comparable t then Inr (map2 mul_cell s t)
      else Inl TypeError)"

text \<open>
  \<open>series.astype(int)\<close>: a number is truncated, a missing cell raises
  \<open>ValueError\<close>, a string is converted as Python's \<open>int\<close> converts it
  (\<open>to_int\<close>, \<open>None\<close> when it raises \<open>ValueError\<close>), a time stamp raises
  \<open>TypeError\<close>. The first cell that fails decides the exception.
\<close>

definition astype_int_cell :: "(string \<Rightarrow> int option) \<Rightarrow> cell \<Rightarrow> cell result" where
  "astype_int_cell to_int c =
     (case c of
        NA \<Rightarrow> Inl ValueError
      | Num x \<Rightarrow> Inr (Num (of_int (astype_int x)))
      | Str s \<Rightarrow> (case to_int s of Some i \<Rightarrow> Inr (Num (of_int i)) | None \<Rightarrow> Inl ValueError)
      | Time t \<Rightarrow> Inl TypeError)"

fun sequence_result :: "'a result list \<Rightarrow> 'a list result" where
  "sequence_result [] = Inr []"
| "sequence_result (m # ms) =
     bind_result m (\<lambda>x. bind_result (sequence_result ms) (\<lambda>xs. Inr (x # xs)))"

definition astype_int_series :: "(string \<Rightarrow> int option) \<Rightarrow> cell list \<Rightarrow> cell list result" where
  "astype_int_series to_int s = sequence_result (map (astype_int_cell to_int) s)"

text \<open>
  \<open>pd.to_datetime(series, errors='coerce')\<close>: the parser of the library on each
  cell, a time stamp or missing.
\<close>

definition date_cell :: "(cell \<Rightarrow> timestamp option) \<Rightarrow> cell \<Rightarrow> cell" where
  "date_cell to_datetime c = (case to_datetime c of Some t \<Rightarrow> Time t | None \<Rightarrow> NA)"

section \<open>A sample frame\<close>

text \<open>Two lines of an invoice, before and after the line total is assigned.\<close>

definition sample_frame :: dataframe where
  "sample_frame =
     \<lparr>columns = [''Quantity'', ''UnitPrice''], data = [[Num 6, Num (5 / 2)], [Num 2, Num 2]]\<rparr>"

definition sample_priced_frame :: dataframe where
  "sample_priced_frame =
     \<lparr>columns = [''Quantity'', ''UnitPrice'', ''TotalPrice''],
      data = [[Num 6, Num (5 / 2), Num 15], [Num 2, Num 2, Num 4]]\<rparr>"

lemmas dataframe_defs = wf_df_def cell_at_def put_cell_def getitem_def setitem_def dropna_df_def
  comparable_def positive_def gt_zero_def mask_and_def loc_mask_def drop_duplicates_df_def
  mul_cell_def mul_series_def astype_int_cell_def astype_int_series_def date_cell_def

section \<open>Cells of a row\<close>

lemma cell_at_Nil [simp]: "cell_at [] c row = NA" "cell_at cols c [] = NA"
  by (simp_all add: cell_at_def)

lemma cell_at_Cons [simp]:
  "cell_at (k # cols) c (v # row) = (if c = k then v else cell_at cols c row)"
  by (simp add: cell_at_def)

lemma length_put_cell [simp]: "length (put_cell cols c v row) = min (length cols) (length row)"
  by (simp add: put_cell_def)

lemma put_cell_Cons [simp]:
  "put_cell (k # cols) c v (x # row) = (if k = c then v else x) # put_cell cols c v row"
  by (simp add: put_cell_def)

lemma put_cell_Nil [simp]: "put_cell [] c v row = []" "put_cell cols c v [] = []"
  by (simp_all add: put_cell_def)

text \<open>Reading a cell after writing one: put-get for rows.\<close>

lemma cell_at_put_cell:
  assumes "length row = length cols"
  shows "cell_at cols k (put_cell cols c v row) =
     (if k = c \<and> c \<in> set cols then v else cell_at cols k row)"
  using assms by (induction row cols rule: list_induct2) auto

lemma put_cell_absent: "length row = length cols \<Longrightarrow> c \<notin> set cols \<Longrightarrow> put_cell cols c v row = row"
  by (induction row cols rule: list_induct2) auto

lemma put_cell_same:
  "length row = length cols \<Longrightarrow> distinct cols \<Longrightarrow> put_cell cols c (cell_at cols c row) row = row"
proof (induction row cols rule: list_induct2)
  case Nil
  show ?case by simp
next
  case (Cons x row k cols)
  then show ?case by (auto simp: put_cell_absent)
qed

lemma put_cell_twice:
  "put_cell cols c v (put_cell cols c w row) = put_cell cols c v row"
proof (induction cols arbitrary: row)
  case Nil
  show ?case by simp
next
  case (Cons k cols)
  then show ?case by (cases row) auto
qed

lemma cell_at_append:
  assumes "length row = length cols"
  shows "cell_at (cols @ [c]) k (row @ [v]) =
     (if k \<in> set cols then cell_at cols k row else if k = c then v else NA)"
  using assms by (induction row cols rule: list_induct2) auto

lemma cell_at_absent: "c \<notin> set cols \<Longrightarrow> cell_at cols c row = NA"
proof (induction cols arbitrary: row)
  case Nil
  show ?case by simp
next
  case (Cons k cols)
  then show ?case by (cases row) auto
qed


text \<open>A row is determined by its cells.\<close>

lemma row_eqI:
  assumes "length r = length cols" and "length s = length cols" and "distinct cols"
    and "\<And>c. c \<in> set cols \<Longrightarrow> cell_at cols c r = cell_at cols c s"
  shows "r = s"
  using assms
proof (induction cols arbitrary: r s)
  case Nil
  then show ?case by simp
next
  case (Cons k cols)
  from Cons.prems(1,2) obtain x r' y s' where rs: "r = x # r'" "s = y # s'"
    and len: "length r' = length cols" "length s' = length cols"
    by (auto simp: length_Suc_conv)
  from Cons.prems(4) [of k] rs have "x = y"
    by simp
  moreover have "cell_at cols c r' = cell_at cols c s'" if "c \<in> set cols" for c
    using Cons.prems(3) Cons.prems(4) [of c] rs that by (auto split: if_splits)
  with len Cons.prems(3) have "r' = s'"
    by (intro Cons.IH) simp_all
  ultimately show ?case
    using rs by simp
qed

section \<open>Well-formed frames\<close>

lemma wf_dfD:
  assumes "wf_df df"
  shows "distinct (columns df)" and "row \<in> set (data df) \<Longrightarrow> length row = length (columns df)"
  using assms by (auto simp: wf_df_def list_all_iff)

lemma wf_dfI:
  "distinct (columns df) \<Longrightarrow> (\<And>row. row \<in> set (data df) \<Longrightarrow> length row = length (columns df)) \<Longrightarrow>
     wf_df df"
  by (auto simp: wf_df_def list_all_iff)

lemma wf_df_subset:
  assumes "wf_df df" and "set rows \<subseteq> set (data df)"
  shows "wf_df (df\<lparr>data := rows\<rparr>)"
  using assms by (auto simp: wf_df_def list_all_iff)

lemma wf_loc_mask [inv_intros]: "wf_df df \<Longrightarrow> wf_df (loc_mask df keep)"
  unfolding loc_mask_def by (rule wf_df_subset) (auto dest: set_zip_rightD)

lemma wf_drop_duplicates_df [inv_intros]: "wf_df df \<Longrightarrow> wf_df (drop_duplicates_df df)"
  unfolding drop_duplicates_df_def by (rule wf_df_subset) simp_all

lemma columns_loc_mask [simp]: "columns (loc_mask df keep) = columns df"
  by (simp add: loc_mask_def)

lemma columns_drop_duplicates_df [simp]: "columns (drop_duplicates_df df) = columns df"
  by (simp add: drop_duplicates_df_def)

lemma data_drop_duplicates_df [simp]: "data (drop_duplicates_df df) = drop_duplicates (data df)"
  by (simp add: drop_duplicates_df_def)

text \<open>Selection by a mask that is computed row by row is a filter.\<close>

lemma loc_mask_map: "loc_mask df (map P (data df)) = df\<lparr>data := filter P (data df)\<rparr>"
proof -
  have "map snd (filter fst (zip (map P xs) xs)) = filter P xs" for xs :: "cell list list"
    by (induction xs) simp_all
  then show ?thesis by (simp add: loc_mask_def)
qed

section \<open>Reading and assigning a column\<close>

lemma getitem_Inr_iff:
  "getitem df c = Inr vals \<longleftrightarrow> c \<in> set (columns df) \<and> vals = map (cell_at (columns df) c) (data df)"
  by (auto simp: getitem_def)

lemma getitem_Inl_iff: "getitem df c = Inl e \<longleftrightarrow> c \<notin> set (columns df) \<and> e = KeyError [c]"
  by (auto simp: getitem_def)

lemma getitem_present [simp]:
  "c \<in> set (columns df) \<Longrightarrow> getitem df c = Inr (map (cell_at (columns df) c) (data df))"
  by (simp add: getitem_def)

lemma getitem_data_update:
  "getitem (df\<lparr>data := rows\<rparr>) c = map_sum id (\<lambda>_. map (cell_at (columns df) c) rows) (getitem df c)"
  by (simp add: getitem_def)

lemma setitem_Inr_iff:
  "setitem df c vals = Inr df' \<longleftrightarrow> length vals = length (data df) \<and>
     df' = (if c \<in> set (columns df)
            then df\<lparr>data := map2 (put_cell (columns df) c) vals (data df)\<rparr>
            else \<lparr>columns = columns df @ [c], data = map2 (\<lambda>v row. row @ [v]) vals (data df)\<rparr>)"
  by (auto simp: setitem_def)

lemma setitem_Inl_iff: "setitem df c vals = Inl e \<longleftrightarrow> length vals \<noteq> length (data df) \<and> e = ValueError"
  by (auto simp: setitem_def)

lemma setitem_map:
  "setitem df c (map f (data df)) =
     Inr (if c \<in> set (columns df)
          then df\<lparr>data := map (\<lambda>row. put_cell (columns df) c (f row) row) (data df)\<rparr>
          else \<lparr>columns = columns df @ [c], data = map (\<lambda>row. row @ [f row]) (data df)\<rparr>)"
proof -
  have "map2 g (map f xs) xs = map (\<lambda>row. g (f row) row) xs"
    for g :: "cell \<Rightarrow> cell list \<Rightarrow> cell list" and xs
    by (induction xs) simp_all
  then show ?thesis by (simp add: setitem_def)
qed

lemma columns_setitem:
  "setitem df c vals = Inr df' \<Longrightarrow>
     columns df' = (if c \<in> set (columns df) then columns df else columns df @ [c])"
  by (auto simp: setitem_Inr_iff)

lemma length_data_setitem: "setitem df c vals = Inr df' \<Longrightarrow> length (data df') = length (data df)"
  by (auto simp: setitem_Inr_iff)

lemma wf_setitem [inv_intros]:
  assumes "wf_df df" and "setitem df c vals = Inr df'"
  shows "wf_df df'"
proof (rule wf_dfI)
  from assms show "distinct (columns df')"
    by (auto simp: columns_setitem dest: wf_dfD(1))
next
  fix row assume "row \<in> set (data df')"
  with assms(2) obtain v old where "old \<in> set (data df)"
    and "row = (if c \<in> set (columns df) then put_cell (columns df) c v old else old @ [v])"
    by (auto simp: setitem_Inr_iff dest: set_zip_rightD split: if_splits)
  with wf_dfD(2) [OF assms(1)] assms(2) show "length row = length (columns df')"
    by (auto simp: columns_setitem)
qed

text \<open>The laws of assignment: what was assigned is read back, the other columns are unchanged.\<close>

lemma map_cell_at_map2_put:
  assumes "length vals = length rows" and "\<And>row. row \<in> set rows \<Longrightarrow> length row = length cols"
  shows "map (cell_at cols k) (map2 (put_cell cols c) vals rows) =
     (if k = c \<and> c \<in> set cols then vals else map (cell_at cols k) rows)"
  using assms by (induction vals rows rule: list_induct2) (auto simp: cell_at_put_cell)

lemma map_cell_at_map2_append:
  assumes "length vals = length rows" and "\<And>row. row \<in> set rows \<Longrightarrow> length row = length cols"
  shows "map (cell_at (cols @ [c]) k) (map2 (\<lambda>v row. row @ [v]) vals rows) =
     (if k \<in> set cols then map (cell_at cols k) rows
      else if k = c then vals else map (\<lambda>_. NA) rows)"
  using assms by (induction vals rows rule: list_induct2) (auto simp: cell_at_append)

lemma setitem_getitem:
  assumes "wf_df df" and "getitem df c = Inr vals"
  shows "setitem df c vals = Inr df"
proof -
  from assms(2) have c: "c \<in> set (columns df)"
    and vals: "vals = map (cell_at (columns df) c) (data df)"
    by (simp_all add: getitem_Inr_iff)
  have "map (\<lambda>row. put_cell (columns df) c (cell_at (columns df) c row) row) (data df) = data df"
    using wf_dfD [OF assms(1)] by (simp add: put_cell_same map_idI)
  with c show ?thesis unfolding vals setitem_map by simp
qed

lemma map2_put_cell_twice:
  assumes "length ws = length vs" and "length vs = length rows"
  shows "map2 (put_cell cols c) ws (map2 (put_cell cols c) vs rows) =
     map2 (put_cell cols c) ws rows"
  using assms by (induction ws vs rows rule: list_induct3) (simp_all add: put_cell_twice)

lemma setitem_twice:
  assumes "c \<in> set (columns df)" and "setitem df c vals = Inr df'"
  shows "setitem df' c ws = setitem df c ws"
proof (cases "length ws = length (data df)")
  case True
  from assms have df': "df' = df\<lparr>data := map2 (put_cell (columns df) c) vals (data df)\<rparr>"
    and vals: "length vals = length (data df)"
    by (simp_all add: setitem_Inr_iff)
  from True vals have "length ws = length vals" by simp
  from map2_put_cell_twice [OF this vals] assms(1) True vals show ?thesis
    by (simp add: df' setitem_def)
next
  case False
  moreover from assms(2) have "length (data df') = length (data df)"
    by (rule length_data_setitem)
  ultimately show ?thesis by (simp add: setitem_def)
qed

section \<open>Dropping rows\<close>

lemma dropna_df_single:
  "dropna_df [c] df =
     (if c \<in> set (columns df)
      then Inr (df\<lparr>data := filter (\<lambda>row. cell_at (columns df) c row \<noteq> NA) (data df)\<rparr>)
      else Inl (KeyError [c]))"
  by (simp add: dropna_df_def)

lemma wf_dropna_df [inv_intros]:
  assumes "wf_df df" and "dropna_df labels df = Inr df'"
  shows "wf_df df'"
proof -
  from assms(2) obtain rows where "df' = df\<lparr>data := rows\<rparr>" and "set rows \<subseteq> set (data df)"
    by (auto simp: dropna_df_def split: list.splits)
  with assms(1) show ?thesis by (simp add: wf_df_subset)
qed

section \<open>Comparison, product and cast\<close>

lemma gt_zero_Inr_iff: "gt_zero s = Inr m \<longleftrightarrow> list_all comparable s \<and> m = map positive s"
  by (auto simp: gt_zero_def)

lemma gt_zero_Inl_iff: "gt_zero s = Inl e \<longleftrightarrow> \<not> list_all comparable s \<and> e = TypeError"
  by (auto simp: gt_zero_def)

lemma positive_Num [simp]: "positive (Num x) \<longleftrightarrow> 0 < x" "\<not> positive NA" "\<not> positive (Str s)"
  "\<not> positive (Time t)"
  by (simp_all add: positive_def)

lemma positiveE: "positive c \<Longrightarrow> (\<And>x. c = Num x \<Longrightarrow> 0 < x \<Longrightarrow> thesis) \<Longrightarrow> thesis"
  by (cases c) simp_all

lemma comparable_simps [simp]: "comparable NA" "comparable (Num x)" "\<not> comparable (Str s)"
  "\<not> comparable (Time t)"
  by (simp_all add: comparable_def)

lemma positive_comparable: "positive c \<Longrightarrow> comparable c"
  by (cases c) simp_all

lemma mul_cell_Num [simp]: "mul_cell (Num x) (Num y) = Num (x * y)"
  by (simp add: mul_cell_def)

lemma sequence_result_Inr_iff:
  "sequence_result ms = Inr xs \<longleftrightarrow> ms = map Inr xs"
  by (induction ms arbitrary: xs) (auto simp: bind_result_Inr_iff)

lemma sequence_result_map_Inr [simp]: "sequence_result (map (\<lambda>x. Inr (f x)) xs) = Inr (map f xs)"
  by (induction xs) simp_all

lemma sequence_result_Inl:
  "sequence_result ms = Inl e \<Longrightarrow> Inl e \<in> set ms"
  by (induction ms) (auto simp: bind_result_Inl_iff)

lemma astype_int_cell_Num [simp]:
  "astype_int_cell to_int (Num x) = Inr (Num (of_int (astype_int x)))"
  "astype_int_cell to_int NA = Inl ValueError"
  by (simp_all add: astype_int_cell_def)

section \<open>Properties of column assignment\<close>



end
