(* ===== verification/Wrangle_Df.thy ===== *)
theory Wrangle_Df
  imports Dataframe Wrangle
begin

text \<open>
  \<open>wrangle_data\<close> of \<open>src/customer_rfm.py\<close> (lines 17-26) on the frame that
  \<open>pd.read_csv\<close> returns, whatever its columns hold.

  Each statement is a definition over the operations of theory \<open>Dataframe\<close>
  and may raise; \<open>wrangle_df\<close> composes them in the order of the source, so
  that the first statement that raises decides the exception. The rows that
  each statement keeps are then described one row at a time, and the theory
  proves the function equal to one conditional expression: which exception
  is raised on which frame, and the frame that is returned otherwise.
\<close>

section \<open>The statements of \<open>wrangle_data\<close> on a frame\<close>

text \<open>
  Line 19: \<open>df_clean['InvoiceDate'] = pd.to_datetime(df_clean['InvoiceDate'],
  errors='coerce')\<close>.
\<close>

definition parse_dates_df :: "(cell \<Rightarrow> timestamp option) \<Rightarrow> dataframe \<Rightarrow> dataframe result" where
  "parse_dates_df to_datetime df =
     bind_result (getitem df ''InvoiceDate'') (\<lambda>dates.
       setitem df ''InvoiceDate'' (map (date_cell to_datetime) dates))"

text \<open>
  Line 21: \<open>df_clean[(df_clean['Quantity'] > 0) & (df_clean['UnitPrice'] > 0)]\<close>.
  The left comparison is evaluated before the right column is read.
\<close>

definition positive_rows_df :: "dataframe \<Rightarrow> dataframe result" where
  "positive_rows_df df =
     bind_result (getitem df ''Quantity'') (\<lambda>quantity.
     bind_result (gt_zero quantity) (\<lambda>m.
     bind_result (getitem df ''UnitPrice'') (\<lambda>unit_price.
     bind_result (gt_zero unit_price) (\<lambda>n.
       Inr (loc_mask df (mask_and m n))))))"

text \<open>Line 23: \<open>df_clean['TotalPrice'] = df_clean['Quantity'] * df_clean['UnitPrice']\<close>.\<close>

definition add_total_price_df :: "dataframe \<Rightarrow> dataframe result" where
  "add_total_price_df df =
     bind_result (getitem df ''Quantity'') (\<lambda>quantity.
     bind_result (getitem df ''UnitPrice'') (\<lambda>unit_price.
     bind_result (mul_series quantity unit_price) (\<lambda>total.
       setitem df ''TotalPrice'' total)))"

text \<open>Line 24: \<open>df_clean['CustomerID'] = df_clean['CustomerID'].astype(int)\<close>.\<close>

definition customer_id_astype_int_df :: "(string \<Rightarrow> int option) \<Rightarrow> dataframe \<Rightarrow> dataframe result" where
  "customer_id_astype_int_df to_int df =
     bind_result (getitem df ''CustomerID'') (\<lambda>ids.
     bind_result (astype_int_series to_int ids) (\<lambda>ids.
       setitem df ''CustomerID'' ids))"

text \<open>
  Lines 17-26, \<open>wrangle_data\<close>. The copy of line 18 and \<open>reset_index\<close> of line 25
  do not change a frame that is a value.
\<close>

definition wrangle_df ::
  "(cell \<Rightarrow> timestamp option) \<Rightarrow> (string \<Rightarrow> int option) \<Rightarrow> dataframe \<Rightarrow> dataframe result" where
  "wrangle_df to_datetime to_int df =
     (let df_clean = df
      in bind_result (parse_dates_df to_datetime df_clean) (\<lambda>df_clean.
         bind_result (dropna_df [''CustomerID''] df_clean) (\<lambda>df_clean.
         bind_result (positive_rows_df df_clean) (\<lambda>df_clean.
         let df_clean = drop_duplicates_df df_clean
         in bind_result (add_total_price_df df_clean) (\<lambda>df_clean.
            customer_id_astype_int_df to_int df_clean)))))"

section \<open>The rows that the statements keep\<close>

definition date_row :: "(cell \<Rightarrow> timestamp option) \<Rightarrow> string list \<Rightarrow> cell list \<Rightarrow> cell list" where
  "date_row to_datetime cols row =
     put_cell cols ''InvoiceDate'' (date_cell to_datetime (cell_at cols ''InvoiceDate'' row)) row"

definition has_customer :: "string list \<Rightarrow> cell list \<Rightarrow> bool" where
  "has_customer cols row \<longleftrightarrow> cell_at cols ''CustomerID'' row \<noteq> NA"

definition positive_row :: "string list \<Rightarrow> cell list \<Rightarrow> bool" where
  "positive_row cols row \<longleftrightarrow>
     positive (cell_at cols ''Quantity'' row) \<and> positive (cell_at cols ''UnitPrice'' row)"

definition with_customer :: "(cell \<Rightarrow> timestamp option) \<Rightarrow> dataframe \<Rightarrow> cell list list" where
  "with_customer to_datetime df =
     filter (has_customer (columns df)) (map (date_row to_datetime (columns df)) (data df))"

definition kept_rows :: "(cell \<Rightarrow> timestamp option) \<Rightarrow> dataframe \<Rightarrow> cell list list" where
  "kept_rows to_datetime df =
     drop_duplicates (filter (positive_row (columns df)) (with_customer to_datetime df))"

definition total_cell :: "string list \<Rightarrow> cell list \<Rightarrow> cell" where
  "total_cell cols row = mul_cell (cell_at cols ''Quantity'' row) (cell_at cols ''UnitPrice'' row)"

definition priced_columns :: "string list \<Rightarrow> string list" where
  "priced_columns cols = (if ''TotalPrice'' \<in> set cols then cols else cols @ [''TotalPrice''])"

definition priced_cells :: "string list \<Rightarrow> cell list \<Rightarrow> cell list" where
  "priced_cells cols row =
     (if ''TotalPrice'' \<in> set cols then put_cell cols ''TotalPrice'' (total_cell cols row) row
      else row @ [total_cell cols row])"

definition priced_df :: "(cell \<Rightarrow> timestamp option) \<Rightarrow> dataframe \<Rightarrow> dataframe" where
  "priced_df to_datetime df =
     \<lparr>columns = priced_columns (columns df),
      data = map (priced_cells (columns df)) (kept_rows to_datetime df)\<rparr>"

section \<open>Sample frames\<close>

text \<open>
  The eight rows of \<open>sample_raw\<close> as a frame with the column \<open>Country\<close> of the
  data set, the parser of its dates, and a parser of decimal numerals for the
  cast of strings.
\<close>

definition sample_cells :: "string \<Rightarrow> real \<Rightarrow> string \<Rightarrow> real \<Rightarrow> cell \<Rightarrow> cell list" where
  "sample_cells no q d p c =
     [Str no, Str ''85123A'', Str ''HEART'', Num q, Str d, Num p, c, Str ''United Kingdom'']"

definition sample_columns :: "string list" where
  "sample_columns =
     [''InvoiceNo'', ''StockCode'', ''Description'', ''Quantity'', ''InvoiceDate'', ''UnitPrice'',
      ''CustomerID'', ''Country'']"

definition sample_df :: dataframe where
  "sample_df =
     \<lparr>columns = sample_columns,
      data =
        [sample_cells ''536365'' 6 ''2010-12-01'' (5 / 2) (Num 17850),
         sample_cells ''536365'' 6 ''2010-12-01'' (5 / 2) (Num 17850),
         sample_cells ''536366'' 2 ''2010-12-02'' 2 (Num 17850),
         sample_cells ''C536379'' (- 1) ''2010-12-01'' 27 (Num 14527),
         sample_cells ''536380'' 3 ''2010-12-02'' 0 (Num 13047),
         sample_cells ''536381'' 1 ''2010-12-02'' 4 NA,
         sample_cells ''536382'' 4 ''12/32/2010'' 1 (Num 13047),
         sample_cells ''536383'' 1 ''2010-12-03'' 10 (Num 12583)]\<rparr>"

definition sample_cell_to_datetime :: "cell \<Rightarrow> timestamp option" where
  "sample_cell_to_datetime c =
     (case c of Str s \<Rightarrow> sample_to_datetime s | Time t \<Rightarrow> Some t | _ \<Rightarrow> None)"

definition sample_to_int :: "string \<Rightarrow> int option" where
  "sample_to_int s = (if s = ''17850'' then Some 17850 else None)"

definition sample_clean_cells ::
  "string \<Rightarrow> real \<Rightarrow> cell \<Rightarrow> real \<Rightarrow> real \<Rightarrow> real \<Rightarrow> cell list" where
  "sample_clean_cells no q d p c t =
     [Str no, Str ''85123A'', Str ''HEART'', Num q, d, Num p, Num c, Str ''United Kingdom'', Num t]"

definition sample_clean_df :: dataframe where
  "sample_clean_df =
     \<lparr>columns = sample_columns @ [''TotalPrice''],
      data =
        [sample_clean_cells ''536365'' 6 (Time (14944 * one_day)) (5 / 2) 17850 15,
         sample_clean_cells ''536366'' 2 (Time (14945 * one_day)) 2 17850 4,
         sample_clean_cells ''536382'' 4 NA 1 13047 4,
         sample_clean_cells ''536383'' 1 (Time (14946 * one_day)) 10 12583 10]\<rparr>"

text \<open>
  A file whose quantities were read as strings, and which has no price column:
  the comparison of line 21 raises before the price is looked up.
\<close>

definition sample_bad_df :: dataframe where
  "sample_bad_df =
     \<lparr>columns = [''InvoiceNo'', ''Quantity'', ''InvoiceDate'', ''CustomerID''],
      data = [[Str ''536365'', Str ''six'', Str ''2010-12-01'', Num 17850]]\<rparr>"

lemmas wrangle_df_defs = parse_dates_df_def positive_rows_df_def add_total_price_df_def
  customer_id_astype_int_df_def wrangle_df_def date_row_def has_customer_def positive_row_def
  with_customer_def kept_rows_def total_cell_def priced_columns_def priced_cells_def
  priced_df_def

lemmas sample_df_defs = sample_cells_def sample_columns_def sample_df_def
  sample_cell_to_datetime_def sample_to_int_def sample_clean_cells_def sample_clean_df_def
  sample_bad_df_def sample_to_datetime_def

section \<open>The statements one by one\<close>

lemma parse_dates_df_eq:
  "parse_dates_df to_datetime df =
     (if ''InvoiceDate'' \<in> set (columns df)
      then Inr (df\<lparr>data := map (date_row to_datetime (columns df)) (data df)\<rparr>)
      else Inl (KeyError [''InvoiceDate'']))"
proof -
  have "map (date_cell to_datetime) (map (cell_at (columns df) ''InvoiceDate'') (data df)) =
      map (\<lambda>row. date_cell to_datetime (cell_at (columns df) ''InvoiceDate'' row)) (data df)"
    by simp
  then show ?thesis
    by (simp add: parse_dates_df_def getitem_def setitem_map date_row_def [abs_def] del: map_map)
qed

lemma positive_rows_df_eq:
  "positive_rows_df df =
     (if ''Quantity'' \<notin> set (columns df) then Inl (KeyError [''Quantity''])
      else if \<not> list_all (\<lambda>row. comparable (cell_at (columns df) ''Quantity'' row)) (data df)
      then Inl TypeError
      else if ''UnitPrice'' \<notin> set (columns df) then Inl (KeyError [''UnitPrice''])
      else if \<not> list_all (\<lambda>row. comparable (cell_at (columns df) ''UnitPrice'' row)) (data df)
      then Inl TypeError
      else Inr (df\<lparr>data := filter (positive_row (columns df)) (data df)\<rparr>))"
proof -
  have "loc_mask df (map (\<lambda>row. positive (cell_at (columns df) ''Quantity'' row) \<and>
      positive (cell_at (columns df) ''UnitPrice'' row)) (data df)) =
    df\<lparr>data := filter (positive_row (columns df)) (data df)\<rparr>"
    unfolding loc_mask_map by (simp add: positive_row_def [abs_def])
  then show ?thesis
    by (simp add: positive_rows_df_def getitem_def gt_zero_def list_all_iff mask_and_def
        map2_map_map)
qed

lemma add_total_price_df_eq:
  assumes "''Quantity'' \<in> set (columns df)" and "''UnitPrice'' \<in> set (columns df)"
    and "\<And>row. row \<in> set (data df) \<Longrightarrow> positive_row (columns df) row"
  shows "add_total_price_df df =
    Inr (if ''TotalPrice'' \<in> set (columns df)
         then df\<lparr>data := map (\<lambda>row. put_cell (columns df) ''TotalPrice''
                  (total_cell (columns df) row) row) (data df)\<rparr>
         else \<lparr>columns = columns df @ [''TotalPrice''],
               data = map (\<lambda>row. row @ [total_cell (columns df) row]) (data df)\<rparr>)"
proof -
  from assms(3) have "list_all comparable (map (cell_at (columns df) ''Quantity'') (data df))"
    "list_all comparable (map (cell_at (columns df) ''UnitPrice'') (data df))"
    by (auto simp: list_all_iff positive_row_def intro: positive_comparable)
  moreover have "map2 mul_cell (map (cell_at (columns df) ''Quantity'') (data df))
      (map (cell_at (columns df) ''UnitPrice'') (data df)) =
    map (total_cell (columns df)) (data df)"
    by (simp add: map2_map_map total_cell_def [abs_def])
  ultimately show ?thesis
    using assms(1,2) by (simp add: add_total_price_df_def mul_series_def setitem_map del: map_map)
qed

lemma length_date_row: "length row = length cols \<Longrightarrow> length (date_row to_datetime cols row) = length cols"
  by (simp add: date_row_def)

lemma kept_rows_subset: "set (kept_rows to_datetime df) \<subseteq> set (with_customer to_datetime df)"
  by (auto simp: kept_rows_def)

lemma with_customer_length:
  assumes "wf_df df" and "row \<in> set (with_customer to_datetime df)"
  shows "length row = length (columns df)"
  using assms by (auto simp: with_customer_def length_date_row dest: wf_dfD(2))

lemma kept_rows_length:
  assumes "wf_df df" and "row \<in> set (kept_rows to_datetime df)"
  shows "length row = length (columns df)"
  using assms kept_rows_subset by (blast intro: with_customer_length)

lemma kept_rows_positive:
  assumes "row \<in> set (kept_rows to_datetime df)"
  shows "positive (cell_at (columns df) ''Quantity'' row)"
    and "positive (cell_at (columns df) ''UnitPrice'' row)"
    and "cell_at (columns df) ''CustomerID'' row \<noteq> NA"
  using assms by (auto simp: kept_rows_def with_customer_def positive_row_def has_customer_def)

lemma length_priced_cells [simp]:
  "length row = length cols \<Longrightarrow> length (priced_cells cols row) = length (priced_columns cols)"
  by (simp add: priced_cells_def priced_columns_def)

lemma distinct_priced_columns [simp]: "distinct cols \<Longrightarrow> distinct (priced_columns cols)"
  by (simp add: priced_columns_def)

lemma set_priced_columns [simp]: "set (priced_columns cols) = insert ''TotalPrice'' (set cols)"
  by (auto simp: priced_columns_def)

lemma cell_at_priced_cells:
  assumes "length row = length cols"
  shows "cell_at (priced_columns cols) c (priced_cells cols row) =
     (if c = ''TotalPrice'' then total_cell cols row else cell_at cols c row)"
  using assms
  by (auto simp: priced_cells_def priced_columns_def cell_at_put_cell cell_at_append cell_at_absent)

lemma columns_priced_df [simp]:
  "columns (priced_df to_datetime df) = priced_columns (columns df)"
  by (simp add: priced_df_def)

lemma data_priced_df [simp]:
  "data (priced_df to_datetime df) = map (priced_cells (columns df)) (kept_rows to_datetime df)"
  by (simp add: priced_df_def)

lemma wf_priced_df [inv_intros]: "wf_df df \<Longrightarrow> wf_df (priced_df to_datetime df)"
  by (rule wf_dfI) (auto dest: wf_dfD(1) kept_rows_length)

lemma cell_at_priced:
  assumes "wf_df df" and "c \<noteq> ''TotalPrice''"
  shows "map (cell_at (columns (priced_df to_datetime df)) c) (data (priced_df to_datetime df)) =
     map (cell_at (columns df) c) (kept_rows to_datetime df)"
  using assms kept_rows_length [OF assms(1)] by (simp add: cell_at_priced_cells)

lemma customer_id_astype_int_priced:
  assumes "wf_df df" and "''CustomerID'' \<in> set (columns df)"
  shows "customer_id_astype_int_df to_int (priced_df to_datetime df) =
     bind_result
       (astype_int_series to_int (map (cell_at (columns df) ''CustomerID'') (kept_rows to_datetime df)))
       (setitem (priced_df to_datetime df) ''CustomerID'')"
proof -
  from assms(2) have "''CustomerID'' \<in> set (columns (priced_df to_datetime df))"
    by simp
  with cell_at_priced [OF assms(1), of "''CustomerID''" to_datetime] show ?thesis
    by (simp add: customer_id_astype_int_df_def getitem_def del: data_priced_df columns_priced_df)
qed

text \<open>Lines 19-20, lines 21-22 and line 23 as frames.\<close>

lemma with_customer_df:
  assumes "''InvoiceDate'' \<in> set (columns df)" and "''CustomerID'' \<in> set (columns df)"
  shows "bind_result (parse_dates_df to_datetime df) (dropna_df [''CustomerID'']) =
     Inr (df\<lparr>data := with_customer to_datetime df\<rparr>)"
  using assms
  by (simp add: parse_dates_df_eq dropna_df_single with_customer_def has_customer_def [abs_def])

lemma kept_rows_df:
  "drop_duplicates_df (df\<lparr>data := filter (positive_row (columns df))
      (with_customer to_datetime df)\<rparr>) = df\<lparr>data := kept_rows to_datetime df\<rparr>"
  by (simp add: drop_duplicates_df_def kept_rows_def)

lemma priced_df_eq:
  assumes "''Quantity'' \<in> set (columns df)" and "''UnitPrice'' \<in> set (columns df)"
  shows "add_total_price_df (df\<lparr>data := kept_rows to_datetime df\<rparr>) =
     Inr (priced_df to_datetime df)"
proof -
  let ?kept = "df\<lparr>data := kept_rows to_datetime df\<rparr>"
  have "positive_row (columns ?kept) row" if "row \<in> set (data ?kept)" for row
    using that kept_rows_positive [of row to_datetime df] by (simp add: positive_row_def)
  with assms show ?thesis
    by (subst add_total_price_df_eq)
      (simp_all add: priced_df_def priced_columns_def priced_cells_def [abs_def])
qed

lemma wrangle_df_regroup:
  "wrangle_df to_datetime to_int df =
     bind_result (bind_result (parse_dates_df to_datetime df) (dropna_df [''CustomerID'']))
       (\<lambda>df_clean. bind_result (positive_rows_df df_clean) (\<lambda>df_clean.
          bind_result (add_total_price_df (drop_duplicates_df df_clean))
            (customer_id_astype_int_df to_int)))"
  by (simp add: wrangle_df_def Let_def bind_result_assoc)

text \<open>
  The function as one equation: the exceptions in the order in which the
  statements raise them, and the frame that is returned.
\<close>

lemma wrangle_df_eq:
  assumes "wf_df df"
  shows "wrangle_df to_datetime to_int df =
     (if ''InvoiceDate'' \<notin> set (columns df) then Inl (KeyError [''InvoiceDate''])
      else if ''CustomerID'' \<notin> set (columns df) then Inl (KeyError [''CustomerID''])
      else if ''Quantity'' \<notin> set (columns df) then Inl (KeyError [''Quantity''])
      else if \<not> list_all (\<lambda>row. comparable (cell_at (columns df) ''Quantity'' row))
                  (with_customer to_datetime df) then Inl TypeError
      else if ''UnitPrice'' \<notin> set (columns df) then Inl (KeyError [''UnitPrice''])
      else if \<not> list_all (\<lambda>row. comparable (cell_at (columns df) ''UnitPrice'' row))
                  (with_customer to_datetime df) then Inl TypeError
      else bind_result
             (astype_int_series to_int
                (map (cell_at (columns df) ''CustomerID'') (kept_rows to_datetime df)))
             (setitem (priced_df to_datetime df) ''CustomerID''))"
proof (cases "''InvoiceDate'' \<in> set (columns df) \<and> ''CustomerID'' \<in> set (columns df)")
  case False
  then show ?thesis
    unfolding wrangle_df_regroup by (auto simp: parse_dates_df_eq dropna_df_single)
next
  case True
  then show ?thesis
    unfolding wrangle_df_regroup using assms
    by (simp add: with_customer_df positive_rows_df_eq kept_rows_df priced_df_eq
        customer_id_astype_int_priced)
qed

section \<open>The sample frames\<close>

lemma sample_bad_df_raises:
  "wf_df sample_bad_df"
  "wrangle_df sample_cell_to_datetime sample_to_int sample_bad_df = Inl TypeError"
  by (simp_all add: wrangle_df_eq wf_df_def sample_df_defs with_customer_def date_row_def
      has_customer_def date_cell_def)


section \<open>Properties of the normalizer on frames\<close>

text \<open>
  Property C15 (error). On a well-formed frame \<open>wrangle_data\<close> raises \<open>KeyError\<close>
  for the first of the columns \<open>InvoiceDate\<close>, \<open>CustomerID\<close>, \<open>Quantity\<close>,
  \<open>UnitPrice\<close> that is missing, \<open>TypeError\<close> when a row with a customer holds a
  string or a time stamp as quantity or as price (the quantity is compared
  before the price column is looked up), and otherwise the exception of the
  cast of the identifiers, if any: the dates never raise.
\<close>

theorem wrangle_df_raises:
  assumes "wf_df df"
  shows "wrangle_df to_datetime to_int df =
     (if ''InvoiceDate'' \<notin> set (columns df) then Inl (KeyError [''InvoiceDate''])
      else if ''CustomerID'' \<notin> set (columns df) then Inl (KeyError [''CustomerID''])
      else if ''Quantity'' \<notin> set (columns df) then Inl (KeyError [''Quantity''])
      else if \<not> list_all (\<lambda>row. comparable (cell_at (columns df) ''Quantity'' row))
                  (with_customer to_datetime df) then Inl TypeError
      else if ''UnitPrice'' \<notin> set (columns df) then Inl (KeyError [''UnitPrice''])
      else if \<not> list_all (\<lambda>row. comparable (cell_at (columns df) ''UnitPrice'' row))
                  (with_customer to_datetime df) then Inl TypeError
      else bind_result
             (astype_int_series to_int
                (map (cell_at (columns df) ''CustomerID'') (kept_rows to_datetime df)))
             (setitem (priced_df to_datetime df) ''CustomerID''))"
  using assms by (rule wrangle_df_eq)

theorem wrangle_df_raises_witness:
  "wf_df sample_bad_df \<and>
   wrangle_df sample_cell_to_datetime sample_to_int sample_bad_df = Inl TypeError"
  using wrangle_df_raises [of sample_bad_df sample_cell_to_datetime sample_to_int]
  by (simp add: wf_df_def sample_df_defs with_customer_def date_row_def has_customer_def
      date_cell_def)

end
