(* ===== verification/Schema.thy ===== *)
theory Schema
  imports Wrangle_Df
begin

text \<open>
  Column types of the frames that \<open>wrangle_data\<close> of \<open>src/customer_rfm.py\<close> (lines
  17-26) reads and returns.

  A frame of the script has no declared types: \<open>pd.read_csv\<close> infers a dtype per
  column, and the statements of \<open>wrangle_data\<close> raise when a column does not
  hold what they need. The theory names the dtypes of pandas that occur
  (\<open>int64\<close>, \<open>float64\<close>, \<open>datetime64\<close> and \<open>object\<close>, the latter as a column of
  strings or of anything), says when a frame conforms to a schema, gives the
  schema of the retail file and the schema of the cleaned frame, and proves
  type safety: on a frame that conforms to the retail schema no statement
  raises, and the frame returned conforms to the clean schema.
\<close>

section \<open>Dtypes and schemas\<close>

datatype dtype = Int64 | Float64 | Datetime64 | Text | Object

text \<open>
  The cells a column of a dtype may hold: an \<open>int64\<close> column has whole numbers
  and no missing cell; \<open>float64\<close> has \<open>NaN\<close>, \<open>datetime64\<close> has \<open>NaT\<close>, a column
  of strings has \<open>None\<close>; an \<open>object\<close> column holds anything.
\<close>

fun has_dtype :: "dtype \<Rightarrow> cell \<Rightarrow> bool" where
  "has_dtype Int64 (Num x) \<longleftrightarrow> of_int (astype_int x) = x"
| "has_dtype Float64 (Num x) \<longleftrightarrow> True"
| "has_dtype Float64 NA \<longleftrightarrow> True"
| "has_dtype Datetime64 (Time t) \<longleftrightarrow> True"
| "has_dtype Datetime64 NA \<longleftrightarrow> True"
| "has_dtype Text (Str s) \<longleftrightarrow> True"
| "has_dtype Text NA \<longleftrightarrow> True"
| "has_dtype Object c \<longleftrightarrow> True"
| "has_dtype _ _ \<longleftrightarrow> False"

text \<open>
  A schema lists columns with their dtype and whether every cell is present
  (the non-null count of \<open>df.info()\<close> equals the number of rows).
\<close>

type_synonym field = "dtype \<times> bool"
type_synonym schema = "(string \<times> field) list"

definition cell_conforms :: "field \<Rightarrow> cell \<Rightarrow> bool" where
  "cell_conforms f c \<longleftrightarrow> has_dtype (fst f) c \<and> (if snd f then c \<noteq> NA else True)"

definition row_conforms :: "schema \<Rightarrow> string list \<Rightarrow> cell list \<Rightarrow> bool" where
  "row_conforms sch cols row \<longleftrightarrow> list_all (\<lambda>(c, f). cell_conforms f (cell_at cols c row)) sch"

definition conforms :: "schema \<Rightarrow> dataframe \<Rightarrow> bool" where
  "conforms sch df \<longleftrightarrow>
     wf_df df \<and> list_all (\<lambda>(c, f). c \<in> set (columns df)) sch \<and>
     list_all (row_conforms sch (columns df)) (data df)"

text \<open>
  The retail file as \<open>pd.read_csv\<close> reads it: the invoice date is not parsed
  yet, the customer identifier is a float because the column has missing cells.
  A frame may have more columns than its schema (\<open>Country\<close> in the data set).
\<close>

definition retail_schema :: schema where
  "retail_schema =
     [(''InvoiceNo'', Text, True), (''StockCode'', Text, True), (''Description'', Text, False),
      (''Quantity'', Int64, True), (''InvoiceDate'', Object, False),
      (''UnitPrice'', Float64, False), (''CustomerID'', Float64, False)]"

text \<open>After line 19 the invoice date is a time stamp or \<open>NaT\<close>.\<close>

definition dated_schema :: schema where
  "dated_schema =
     [(''InvoiceNo'', Text, True), (''StockCode'', Text, True), (''Description'', Text, False),
      (''Quantity'', Int64, True), (''InvoiceDate'', Datetime64, False),
      (''UnitPrice'', Float64, False), (''CustomerID'', Float64, False)]"

text \<open>
  The frame that \<open>wrangle_data\<close> returns: price and identifier have no missing
  cell, the identifier is an integer, and there is a column \<open>TotalPrice\<close>.
\<close>

definition clean_schema :: schema where
  "clean_schema =
     [(''InvoiceNo'', Text, True), (''StockCode'', Text, True), (''Description'', Text, False),
      (''Quantity'', Int64, True), (''InvoiceDate'', Datetime64, False),
      (''UnitPrice'', Float64, True), (''CustomerID'', Int64, True),
      (''TotalPrice'', Float64, True)]"

section \<open>The rows of the cleaned frame\<close>

text \<open>
  What lines 23 and 24 make of a kept row whose identifier is a float: the line
  total is added and the identifier is cut to a whole number.
\<close>

definition num_of :: "cell \<Rightarrow> real" where
  "num_of c = (case c of Num x \<Rightarrow> x | _ \<Rightarrow> 0)"

definition clean_cells :: "string list \<Rightarrow> cell list \<Rightarrow> cell list" where
  "clean_cells cols row =
     put_cell (priced_columns cols) ''CustomerID''
       (Num (of_int (astype_int (num_of (cell_at cols ''CustomerID'' row)))))
       (priced_cells cols row)"

text \<open>The rows that lines 19 to 22 keep, as a predicate on a row.\<close>

definition kept_row :: "string list \<Rightarrow> cell list \<Rightarrow> bool" where
  "kept_row cols row \<longleftrightarrow>
     length row = length cols \<and> row_conforms dated_schema cols row \<and>
     has_customer cols row \<and> positive_row cols row"

lemmas schema_defs = cell_conforms_def row_conforms_def conforms_def retail_schema_def
  dated_schema_def clean_schema_def num_of_def clean_cells_def kept_row_def

section \<open>Cells of a dtype\<close>

lemma cell_conforms_iff:
  "cell_conforms (Text, True) c \<longleftrightarrow> (\<exists>s. c = Str s)"
  "cell_conforms (Text, False) c \<longleftrightarrow> c = NA \<or> (\<exists>s. c = Str s)"
  "cell_conforms (Int64, b) c \<longleftrightarrow> (\<exists>x. c = Num x \<and> of_int (astype_int x) = x)"
  "cell_conforms (Float64, True) c \<longleftrightarrow> (\<exists>x. c = Num x)"
  "cell_conforms (Float64, False) c \<longleftrightarrow> c = NA \<or> (\<exists>x. c = Num x)"
  "cell_conforms (Datetime64, False) c \<longleftrightarrow> c = NA \<or> (\<exists>t. c = Time t)"
  "cell_conforms (Object, False) c"
  by (cases c; simp add: cell_conforms_def)+

lemma num_of_simps [simp]: "num_of (Num x) = x" "num_of NA = 0" "num_of (Str s) = 0"
  "num_of (Time t) = 0"
  by (simp_all add: num_of_def)

lemma has_dtype_date_cell [simp]: "has_dtype Datetime64 (date_cell to_datetime c)"
  by (simp add: date_cell_def split: option.splits)

lemma cell_conforms_date_cell [simp]: "cell_conforms (Datetime64, False) (date_cell to_datetime c)"
  by (simp add: cell_conforms_def)

lemma float_comparable: "cell_conforms (Float64, b) c \<Longrightarrow> comparable c"
  by (cases c; simp add: cell_conforms_def)

lemma int_comparable: "cell_conforms (Int64, b) c \<Longrightarrow> comparable c"
  by (cases c; simp add: cell_conforms_def)

section \<open>Frames of a schema\<close>

lemma conformsD:
  assumes "conforms sch df"
  shows "wf_df df" and "(c, f) \<in> set sch \<Longrightarrow> c \<in> set (columns df)"
    and "row \<in> set (data df) \<Longrightarrow> row_conforms sch (columns df) row"
  using assms by (auto simp: conforms_def list_all_iff)

lemma conformsI:
  assumes "wf_df df" and "\<And>c f. (c, f) \<in> set sch \<Longrightarrow> c \<in> set (columns df)"
    and "\<And>row. row \<in> set (data df) \<Longrightarrow> row_conforms sch (columns df) row"
  shows "conforms sch df"
  using assms by (auto simp: conforms_def list_all_iff)

lemma row_conformsD:
  "row_conforms sch cols row \<Longrightarrow> (c, f) \<in> set sch \<Longrightarrow> cell_conforms f (cell_at cols c row)"
  by (auto simp: row_conforms_def list_all_iff)

lemma retail_columns_present:
  assumes "conforms retail_schema df"
  shows "''InvoiceDate'' \<in> set (columns df)" and "''CustomerID'' \<in> set (columns df)"
    and "''Quantity'' \<in> set (columns df)" and "''UnitPrice'' \<in> set (columns df)"
    and "''InvoiceNo'' \<in> set (columns df)" and "''StockCode'' \<in> set (columns df)"
    and "''Description'' \<in> set (columns df)"
  using assms by (simp_all add: conforms_def retail_schema_def)

text \<open>Line 19 turns a row of the retail schema into a row of the dated schema.\<close>

lemma cell_at_date_row:
  assumes "length row = length cols"
  shows "cell_at cols k (date_row to_datetime cols row) =
     (if k = ''InvoiceDate'' \<and> ''InvoiceDate'' \<in> set cols
      then date_cell to_datetime (cell_at cols ''InvoiceDate'' row) else cell_at cols k row)"
  using assms by (simp add: date_row_def cell_at_put_cell)

lemma date_row_conforms:
  assumes "length row = length cols" and "''InvoiceDate'' \<in> set cols"
    and "row_conforms retail_schema cols row"
  shows "row_conforms dated_schema cols (date_row to_datetime cols row)"
  using assms by (simp add: row_conforms_def retail_schema_def dated_schema_def cell_at_date_row)

lemma kept_rowsD:
  assumes "conforms retail_schema df" and "row \<in> set (kept_rows to_datetime df)"
  shows "kept_row (columns df) row"
proof -
  from assms(2) obtain raw where raw: "raw \<in> set (data df)"
    and row: "row = date_row to_datetime (columns df) raw"
    and keep: "has_customer (columns df) row" "positive_row (columns df) row"
    by (auto simp: kept_rows_def with_customer_def)
  from assms(1) raw have "length raw = length (columns df)"
    and "row_conforms retail_schema (columns df) raw"
    by (auto dest: conformsD wf_dfD(2))
  with row keep retail_columns_present(1) [OF assms(1)] show ?thesis
    by (simp add: kept_row_def date_row_conforms length_date_row)
qed

lemma with_customer_comparable:
  assumes "conforms retail_schema df" and "row \<in> set (with_customer to_datetime df)"
  shows "comparable (cell_at (columns df) ''Quantity'' row)"
    and "comparable (cell_at (columns df) ''UnitPrice'' row)"
proof -
  from assms(2) obtain raw where raw: "raw \<in> set (data df)"
    and row: "row = date_row to_datetime (columns df) raw"
    by (auto simp: with_customer_def)
  from assms(1) raw have len: "length raw = length (columns df)"
    and conf: "row_conforms retail_schema (columns df) raw"
    by (auto dest: conformsD wf_dfD(2))
  from conf have "cell_conforms (Int64, True) (cell_at (columns df) ''Quantity'' raw)"
    and "cell_conforms (Float64, False) (cell_at (columns df) ''UnitPrice'' raw)"
    by (simp_all add: row_conforms_def retail_schema_def)
  with len row show "comparable (cell_at (columns df) ''Quantity'' row)"
    and "comparable (cell_at (columns df) ''UnitPrice'' row)"
    by (simp_all add: cell_at_date_row int_comparable float_comparable)
qed

section \<open>The cleaned rows\<close>

lemma length_clean_cells [simp]:
  "length row = length cols \<Longrightarrow> length (clean_cells cols row) = length (priced_columns cols)"
  by (simp add: clean_cells_def)

lemma cell_at_clean_cells:
  assumes "length row = length cols" and "''CustomerID'' \<in> set cols"
  shows "cell_at (priced_columns cols) k (clean_cells cols row) =
     (if k = ''CustomerID'' then Num (of_int (astype_int (num_of (cell_at cols ''CustomerID'' row))))
      else if k = ''TotalPrice'' then total_cell cols row else cell_at cols k row)"
  using assms by (simp add: clean_cells_def cell_at_put_cell cell_at_priced_cells)

lemma kept_row_cells:
  assumes "kept_row cols row"
  obtains no code q p c where "cell_at cols ''InvoiceNo'' row = Str no"
    and "cell_at cols ''StockCode'' row = Str code"
    and "cell_at cols ''Quantity'' row = Num q" and "of_int (astype_int q) = q" and "0 < q"
    and "cell_at cols ''UnitPrice'' row = Num p" and "0 < p"
    and "cell_at cols ''CustomerID'' row = Num c"
    and "cell_conforms (Text, False) (cell_at cols ''Description'' row)"
    and "cell_conforms (Datetime64, False) (cell_at cols ''InvoiceDate'' row)"
  using assms
  by (auto simp: kept_row_def row_conforms_def dated_schema_def cell_conforms_iff(1,3,5)
      has_customer_def positive_row_def)

lemma kept_row_conforms:
  assumes "kept_row cols row"
  shows "cell_conforms (Text, True) (cell_at cols ''InvoiceNo'' row)"
    and "cell_conforms (Text, True) (cell_at cols ''StockCode'' row)"
    and "cell_conforms (Text, False) (cell_at cols ''Description'' row)"
    and "cell_conforms (Int64, True) (cell_at cols ''Quantity'' row)"
    and "cell_conforms (Datetime64, False) (cell_at cols ''InvoiceDate'' row)"
    and "cell_conforms (Float64, True) (cell_at cols ''UnitPrice'' row)"
    and "cell_conforms (Float64, False) (cell_at cols ''CustomerID'' row)"
proof -
  from assms have "row_conforms dated_schema cols row" and "positive_row cols row"
    by (simp_all add: kept_row_def)
  then show "cell_conforms (Text, True) (cell_at cols ''InvoiceNo'' row)"
    and "cell_conforms (Text, True) (cell_at cols ''StockCode'' row)"
    and "cell_conforms (Text, False) (cell_at cols ''Description'' row)"
    and "cell_conforms (Int64, True) (cell_at cols ''Quantity'' row)"
    and "cell_conforms (Datetime64, False) (cell_at cols ''InvoiceDate'' row)"
    and "cell_conforms (Float64, True) (cell_at cols ''UnitPrice'' row)"
    and "cell_conforms (Float64, False) (cell_at cols ''CustomerID'' row)"
    by (auto simp: row_conforms_def dated_schema_def positive_row_def cell_conforms_iff(4)
        elim: positiveE)
qed

lemma clean_cells_conforms:
  assumes "kept_row cols row" and "''CustomerID'' \<in> set cols"
  shows "row_conforms clean_schema (priced_columns cols) (clean_cells cols row)"
proof -
  from assms(1) have len: "length row = length cols"
    by (simp add: kept_row_def)
  from assms(1) show ?thesis
    by (rule kept_row_cells)
      (simp add: row_conforms_def clean_schema_def cell_at_clean_cells [OF len assms(2)]
        total_cell_def cell_conforms_iff(1,3,4))
qed

section \<open>The frame that is returned\<close>

lemma astype_int_series_floats:
  assumes "\<And>row. row \<in> set rows \<Longrightarrow> \<exists>x. f row = Num x"
  shows "astype_int_series to_int (map f rows) =
     Inr (map (\<lambda>row. Num (of_int (astype_int (num_of (f row))))) rows)"
proof -
  have "map (astype_int_cell to_int) (map f rows) =
      map (\<lambda>row. Inr (Num (of_int (astype_int (num_of (f row)))))) rows"
    using assms by (fastforce simp: map_eq_conv)
  then show ?thesis
    by (simp add: astype_int_series_def del: map_map)
qed

lemma wrangle_df_conforming:
  assumes "conforms retail_schema df"
  shows "wrangle_df to_datetime to_int df =
     Inr \<lparr>columns = priced_columns (columns df),
          data = map (clean_cells (columns df)) (kept_rows to_datetime df)\<rparr>"
proof -
  note present = retail_columns_present [OF assms]
  from assms have wf: "wf_df df"
    by (rule conformsD)
  have ids: "\<exists>x. cell_at (columns df) ''CustomerID'' row = Num x"
    if "row \<in> set (kept_rows to_datetime df)" for row
    using kept_rowsD [OF assms that] by (rule kept_row_cells) simp
  have "wrangle_df to_datetime to_int df =
      bind_result (astype_int_series to_int
          (map (cell_at (columns df) ''CustomerID'') (kept_rows to_datetime df)))
        (setitem (priced_df to_datetime df) ''CustomerID'')"
    using present with_customer_comparable [OF assms]
    by (simp add: wrangle_df_eq [OF wf] list_all_iff)
  also have "\<dots> = setitem (priced_df to_datetime df) ''CustomerID''
      (map (\<lambda>row. Num (of_int (astype_int (num_of (cell_at (columns df) ''CustomerID'' row)))))
        (kept_rows to_datetime df))"
    by (simp add: astype_int_series_floats ids)
  also have "\<dots> = Inr \<lparr>columns = priced_columns (columns df),
      data = map (clean_cells (columns df)) (kept_rows to_datetime df)\<rparr>"
    using present(2) by (simp add: setitem_def map2_map_map clean_cells_def [abs_def] priced_df_def)
  finally show ?thesis .
qed

lemma cleaned_conforms:
  assumes "conforms retail_schema df"
  shows "conforms clean_schema \<lparr>columns = priced_columns (columns df),
     data = map (clean_cells (columns df)) (kept_rows to_datetime df)\<rparr>"
    (is "conforms _ ?out")
proof (rule conformsI)
  note present = retail_columns_present [OF assms]
  from assms have wf: "wf_df df"
    by (rule conformsD)
  show "wf_df ?out"
    using wf kept_rows_length [OF wf, of _ to_datetime]
    by (auto intro!: wf_dfI dest: wf_dfD(1))
  show "c \<in> set (columns ?out)" if "(c, f) \<in> set clean_schema" for c f
    using that present by (auto simp: clean_schema_def)
  show "row_conforms clean_schema (columns ?out) row" if "row \<in> set (data ?out)" for row
    using that present(2) by (auto intro: clean_cells_conforms kept_rowsD [OF assms])
qed

section \<open>The sample frame\<close>

lemma sample_df_conforms: "conforms retail_schema sample_df"
  by (simp add: schema_defs sample_df_defs wf_df_def)

lemma sample_wrangle_df:
  "wrangle_df sample_cell_to_datetime sample_to_int sample_df = Inr sample_clean_df"
  unfolding wrangle_df_conforming [OF sample_df_conforms]
  by (simp add: kept_rows_def with_customer_def date_row_def has_customer_def positive_row_def
      clean_cells_def priced_cells_def priced_columns_def total_cell_def date_cell_def
      sample_df_defs)

lemma sample_clean_df_conforms: "conforms clean_schema sample_clean_df"
  by (simp add: schema_defs sample_df_defs wf_df_def)

section \<open>Type safety\<close>

text \<open>
  Property C4 (type). On a frame that conforms to the retail schema
  \<open>wrangle_data\<close> raises nothing, whatever the dates hold and whichever other
  columns the file has, and the frame it returns conforms to the clean schema:
  the dates are time stamps or \<open>NaT\<close>, the identifiers are whole numbers, and
  price, identifier and line total have no missing cell.
\<close>

theorem wrangle_df_type_safe:
  assumes "conforms retail_schema df"
  shows "\<exists>out. wrangle_df to_datetime to_int df = Inr out \<and> conforms clean_schema out"
  using assms by (simp add: wrangle_df_conforming cleaned_conforms)

theorem wrangle_df_type_safe_witness:
  "conforms retail_schema sample_df \<and>
   wrangle_df sample_cell_to_datetime sample_to_int sample_df = Inr sample_clean_df \<and>
   conforms clean_schema sample_clean_df"
  using wrangle_df_type_safe [OF sample_df_conforms, of sample_cell_to_datetime sample_to_int]
  by (simp add: sample_df_conforms sample_wrangle_df)

end
