(* ===== verification/Wrangle_Refine.thy ===== *)
theory Wrangle_Refine
  imports Schema
begin

text \<open>
  The two models of \<open>wrangle_data\<close> (\<open>src/customer_rfm.py\<close>, lines 17-26) agree.

  \<open>Wrangle_Df.wrangle_df\<close> runs the statements on a frame of untyped cells and
  may raise; \<open>Wrangle.wrangle_data\<close> runs them on a table of typed records and
  is what the aggregator, the segmenter and the page are proved about. A frame
  that conforms to the retail schema is decoded into a table of records, cell
  by cell; the columns that the script never reads become the \<open>more\<close> part of the
  record. The theory proves that decoding commutes with every statement, so that
  the frame returned decodes to the table returned: the theorems about the
  typed table are theorems about the frame that pandas computes.
\<close>

section \<open>Decoding\<close>

definition str_of :: "cell \<Rightarrow> string" where
  "str_of c = (case c of Str s \<Rightarrow> s | _ \<Rightarrow> [])"

definition text_of :: "cell \<Rightarrow> string option" where
  "text_of c = (case c of Str s \<Rightarrow> Some s | _ \<Rightarrow> None)"

definition float_of :: "cell \<Rightarrow> real option" where
  "float_of c = (case c of Num x \<Rightarrow> Some x | _ \<Rightarrow> None)"

definition time_of :: "cell \<Rightarrow> timestamp option" where
  "time_of c = (case c of Time t \<Rightarrow> Some t | _ \<Rightarrow> None)"

text \<open>The columns that \<open>wrangle_data\<close> names, and the cells of the other columns.\<close>

definition retail_columns :: "string list" where
  "retail_columns =
     [''InvoiceNo'', ''StockCode'', ''Description'', ''Quantity'', ''InvoiceDate'', ''UnitPrice'',
      ''CustomerID'', ''TotalPrice'']"

definition other_cells :: "string list \<Rightarrow> cell list \<Rightarrow> cell list" where
  "other_cells cols row =
     map (\<lambda>c. cell_at cols c row) (filter (\<lambda>c. c \<notin> set retail_columns) cols)"

text \<open>A row of the file, of the frame after line 19, and of the frame returned.\<close>

definition decode_row :: "string list \<Rightarrow> cell list \<Rightarrow> (cell, cell list) raw_row" where
  "decode_row cols row =
     \<lparr>InvoiceNo = str_of (cell_at cols ''InvoiceNo'' row),
      StockCode = str_of (cell_at cols ''StockCode'' row),
      Description = text_of (cell_at cols ''Description'' row),
      Quantity = astype_int (num_of (cell_at cols ''Quantity'' row)),
      InvoiceDate = cell_at cols ''InvoiceDate'' row,
      UnitPrice = num_of (cell_at cols ''UnitPrice'' row),
      CustomerID = float_of (cell_at cols ''CustomerID'' row),
      \<dots> = other_cells cols row\<rparr>"

definition decode_dated :: "string list \<Rightarrow> cell list \<Rightarrow> cell list dated_row" where
  "decode_dated cols row =
     assign_InvoiceDate (decode_row cols row) (time_of (cell_at cols ''InvoiceDate'' row))"

definition decode_clean :: "string list \<Rightarrow> cell list \<Rightarrow> cell list clean_row" where
  "decode_clean cols row =
     assign_CustomerID
       (assign_TotalPrice (decode_dated cols row) (num_of (cell_at cols ''TotalPrice'' row)))
       (astype_int (num_of (cell_at cols ''CustomerID'' row)))"

definition decode_df :: "dataframe \<Rightarrow> (cell, cell list) raw_row frame" where
  "decode_df df = map (decode_row (columns df)) (data df)"

definition decode_clean_df :: "dataframe \<Rightarrow> cell list clean_row frame" where
  "decode_clean_df df = map (decode_clean (columns df)) (data df)"

lemmas decode_defs = str_of_def text_of_def float_of_def time_of_def retail_columns_def
  other_cells_def decode_row_def decode_dated_def decode_clean_def decode_df_def
  decode_clean_df_def

section \<open>Cells\<close>

lemma decode_cell_simps [simp]:
  "str_of (Str s) = s" "text_of (Str s) = Some s" "text_of NA = None"
  "float_of (Num x) = Some x" "float_of NA = None" "time_of (Time t) = Some t" "time_of NA = None"
  by (simp_all add: str_of_def text_of_def float_of_def time_of_def)

lemma time_of_date_cell [simp]: "time_of (date_cell to_datetime c) = to_datetime c"
  by (simp add: date_cell_def split: option.splits)

text \<open>On the cells of a dtype the decoders lose nothing.\<close>

lemma str_of_inj:
  "cell_conforms (Text, True) a \<Longrightarrow> cell_conforms (Text, True) b \<Longrightarrow> str_of a = str_of b \<Longrightarrow> a = b"
  by (cases a; cases b; simp add: cell_conforms_def)

lemma text_of_inj:
  "cell_conforms (Text, False) a \<Longrightarrow> cell_conforms (Text, False) b \<Longrightarrow> text_of a = text_of b \<Longrightarrow>
     a = b"
  by (cases a; cases b; simp add: cell_conforms_def)

lemma int_of_inj:
  "cell_conforms (Int64, True) a \<Longrightarrow> cell_conforms (Int64, True) b \<Longrightarrow>
     astype_int (num_of a) = astype_int (num_of b) \<Longrightarrow> a = b"
proof -
  assume "cell_conforms (Int64, True) a" "cell_conforms (Int64, True) b"
  then obtain x y where ab: "a = Num x" "b = Num y"
    and whole: "of_int (astype_int x) = x" "of_int (astype_int y) = y"
    unfolding cell_conforms_iff by blast
  assume "astype_int (num_of a) = astype_int (num_of b)"
  with ab have "astype_int x = astype_int y"
    by simp
  with whole have "x = y"
    by metis
  with ab show "a = b"
    by simp
qed

lemma float_of_inj:
  "cell_conforms (Float64, False) a \<Longrightarrow> cell_conforms (Float64, False) b \<Longrightarrow>
     float_of a = float_of b \<Longrightarrow> a = b"
  by (cases a; cases b; simp add: cell_conforms_def)

lemma time_of_inj:
  "cell_conforms (Datetime64, False) a \<Longrightarrow> cell_conforms (Datetime64, False) b \<Longrightarrow>
     time_of a = time_of b \<Longrightarrow> a = b"
  by (cases a; cases b; simp add: cell_conforms_def)

lemma num_of_inj:
  "cell_conforms (Float64, True) a \<Longrightarrow> cell_conforms (Float64, True) b \<Longrightarrow>
     num_of a = num_of b \<Longrightarrow> a = b"
  by (cases a; cases b; simp add: cell_conforms_def)

lemmas decode_cell_inj = str_of_inj text_of_inj int_of_inj float_of_inj time_of_inj num_of_inj

section \<open>Rows\<close>

lemma decode_row_sel [simp]:
  "InvoiceNo (decode_row cols row) = str_of (cell_at cols ''InvoiceNo'' row)"
  "StockCode (decode_row cols row) = str_of (cell_at cols ''StockCode'' row)"
  "Description (decode_row cols row) = text_of (cell_at cols ''Description'' row)"
  "Quantity (decode_row cols row) = astype_int (num_of (cell_at cols ''Quantity'' row))"
  "InvoiceDate (decode_row cols row) = cell_at cols ''InvoiceDate'' row"
  "UnitPrice (decode_row cols row) = num_of (cell_at cols ''UnitPrice'' row)"
  "CustomerID (decode_row cols row) = float_of (cell_at cols ''CustomerID'' row)"
  "txn.more (decode_row cols row) = other_cells cols row"
  by (simp_all add: decode_row_def)

lemma other_cells_cong:
  assumes "\<And>c. c \<in> set cols \<Longrightarrow> c \<notin> set retail_columns \<Longrightarrow> cell_at cols c r = cell_at cols c s"
  shows "other_cells cols r = other_cells cols s"
  using assms by (simp add: other_cells_def)

lemma other_cells_eqD:
  assumes "other_cells cols r = other_cells cols s" and "c \<in> set cols" and "c \<notin> set retail_columns"
  shows "cell_at cols c r = cell_at cols c s"
  using assms by (simp add: other_cells_def)

text \<open>Line 19 on a row is the assignment of the parsed date to the record.\<close>

lemma decode_dated_date_row:
  assumes "length row = length cols" and "''InvoiceDate'' \<in> set cols"
  shows "decode_dated cols (date_row to_datetime cols row) =
     assign_InvoiceDate (decode_row cols row) (to_datetime (cell_at cols ''InvoiceDate'' row))"
proof -
  have "other_cells cols (date_row to_datetime cols row) = other_cells cols row"
    by (rule other_cells_cong) (auto simp: cell_at_date_row assms(1) retail_columns_def)
  with assms show ?thesis
    by (intro txn_eqI) (simp_all add: decode_dated_def cell_at_date_row)
qed

text \<open>Lines 20 and 21 keep a row of the frame exactly when they keep the record.\<close>

lemma keep_row_decode:
  assumes "row_conforms dated_schema cols row"
  shows "keep_row (decode_dated cols row) \<longleftrightarrow> has_customer cols row \<and> positive_row cols row"
proof -
  from assms obtain q where "cell_at cols ''Quantity'' row = Num q" "of_int (astype_int q) = q"
    by (auto simp: row_conforms_def dated_schema_def cell_conforms_iff)
  moreover from this(2) have "0 < astype_int q \<longleftrightarrow> 0 < q"
    by (metis of_int_0_less_iff)
  moreover from assms have "cell_conforms (Float64, False) (cell_at cols ''UnitPrice'' row)"
    "cell_conforms (Float64, False) (cell_at cols ''CustomerID'' row)"
    by (simp_all add: row_conforms_def dated_schema_def)
  ultimately show ?thesis
    by (auto simp: keep_row_def decode_dated_def has_customer_def positive_row_def
        cell_conforms_iff)
qed

lemma retail_column_cases:
  assumes "c \<in> set retail_columns" "c \<in> set cols" "''TotalPrice'' \<notin> set cols"
  obtains "c = ''InvoiceNo''" | "c = ''StockCode''" | "c = ''Description''"
      | "c = ''Quantity''" | "c = ''InvoiceDate''" | "c = ''UnitPrice''" | "c = ''CustomerID''"
  using assms unfolding retail_columns_def by fastforce

lemma decode_dated_eqD:
  assumes "decode_dated cols r = decode_dated cols s"
  shows "str_of (cell_at cols ''InvoiceNo'' r) = str_of (cell_at cols ''InvoiceNo'' s)"
    and "str_of (cell_at cols ''StockCode'' r) = str_of (cell_at cols ''StockCode'' s)"
    and "text_of (cell_at cols ''Description'' r) = text_of (cell_at cols ''Description'' s)"
    and "astype_int (num_of (cell_at cols ''Quantity'' r)) =
      astype_int (num_of (cell_at cols ''Quantity'' s))"
    and "time_of (cell_at cols ''InvoiceDate'' r) = time_of (cell_at cols ''InvoiceDate'' s)"
    and "num_of (cell_at cols ''UnitPrice'' r) = num_of (cell_at cols ''UnitPrice'' s)"
    and "float_of (cell_at cols ''CustomerID'' r) = float_of (cell_at cols ''CustomerID'' s)"
    and "other_cells cols r = other_cells cols s"
  using arg_cong [OF assms, of InvoiceNo] arg_cong [OF assms, of StockCode]
    arg_cong [OF assms, of Description] arg_cong [OF assms, of Quantity]
    arg_cong [OF assms, of InvoiceDate] arg_cong [OF assms, of UnitPrice]
    arg_cong [OF assms, of CustomerID] arg_cong [OF assms, of txn.more]
  by (simp_all add: decode_dated_def)

text \<open>The records of two kept rows differ when the rows differ.\<close>

lemma decode_dated_inj:
  assumes "distinct cols" and "''TotalPrice'' \<notin> set cols"
    and "kept_row cols r" and "kept_row cols s" and "decode_dated cols r = decode_dated cols s"
  shows "r = s"
proof (rule row_eqI [of _ cols])
  from assms(3,4) show "length r = length cols" and "length s = length cols"
    by (simp_all add: kept_row_def)
  show "distinct cols" by fact
  note r = kept_row_conforms [OF assms(3)] and s = kept_row_conforms [OF assms(4)]
  note eq = decode_dated_eqD [OF assms(5)]
  show "cell_at cols c r = cell_at cols c s" if "c \<in> set cols" for c
  proof (cases "c \<in> set retail_columns")
    case False
    with eq(8) that show ?thesis
      by (rule other_cells_eqD)
  next
    case True
    then show ?thesis
      using that assms(2)
    proof (cases rule: retail_column_cases)
      case 1
      show ?thesis unfolding 1 using r(1) s(1) eq(1) by (rule str_of_inj)
    next
      case 2
      show ?thesis unfolding 2 using r(2) s(2) eq(2) by (rule str_of_inj)
    next
      case 3
      show ?thesis unfolding 3 using r(3) s(3) eq(3) by (rule text_of_inj)
    next
      case 4
      show ?thesis unfolding 4 using r(4) s(4) eq(4) by (rule int_of_inj)
    next
      case 5
      show ?thesis unfolding 5 using r(5) s(5) eq(5) by (rule time_of_inj)
    next
      case 6
      show ?thesis unfolding 6 using r(6) s(6) eq(6) by (rule num_of_inj)
    next
      case 7
      show ?thesis unfolding 7 using r(7) s(7) eq(7) by (rule float_of_inj)
    qed
  qed
qed

text \<open>
  Lines 23 and 24 on a kept row are the row-by-row specification of the
  normalizer on its record.
\<close>

lemma clean_row_decode:
  assumes "kept_row cols row" and "''CustomerID'' \<in> set cols" and "''TotalPrice'' \<notin> set cols"
  shows "clean_row (decode_dated cols row) =
     Some (decode_clean (priced_columns cols) (clean_cells cols row))"
proof -
  from assms(1) have len: "length row = length cols"
    by (simp add: kept_row_def)
  note cell = cell_at_clean_cells [OF len assms(2)]
  have "filter (\<lambda>c. c \<notin> set retail_columns) (priced_columns cols) =
      filter (\<lambda>c. c \<notin> set retail_columns) cols"
    by (simp add: priced_columns_def retail_columns_def)
  then have other: "other_cells (priced_columns cols) (clean_cells cols row) = other_cells cols row"
    by (auto simp: other_cells_def cell retail_columns_def)
  from assms(1) show ?thesis
  proof (rule kept_row_cells)
    fix no code q p c
    assume "cell_at cols ''InvoiceNo'' row = Str no" "cell_at cols ''StockCode'' row = Str code"
      "cell_at cols ''Quantity'' row = Num q" "of_int (astype_int q) = q" "0 < q"
      "cell_at cols ''UnitPrice'' row = Num p" "0 < p" "cell_at cols ''CustomerID'' row = Num c"
    moreover from this(4,5) have "0 < astype_int q"
      by (metis of_int_0_less_iff)
    ultimately show ?thesis
      using other
      by (auto simp: clean_row_def decode_dated_def decode_clean_def cell total_cell_def
          line_total_def intro!: priced_eqI)
  qed
qed

section \<open>Frames\<close>

lemma parse_dates_decode:
  assumes "wf_df df" and "''InvoiceDate'' \<in> set (columns df)"
  shows "parse_dates to_datetime (decode_df df) =
     map (decode_dated (columns df)) (map (date_row to_datetime (columns df)) (data df))"
  using assms by (simp add: parse_dates_def decode_df_def decode_dated_date_row wf_dfD(2))

lemma kept_rows_decode:
  assumes "conforms retail_schema df" and "''TotalPrice'' \<notin> set (columns df)"
  shows "drop_duplicates (filter keep_row (parse_dates to_datetime (decode_df df))) =
     map (decode_dated (columns df)) (kept_rows to_datetime df)"
proof -
  let ?cols = "columns df"
  let ?dated = "map (date_row to_datetime ?cols) (data df)"
  let ?kept = "filter (positive_row ?cols) (with_customer to_datetime df)"
  from assms(1) have wf: "wf_df df"
    by (rule conformsD)
  have dated: "row_conforms dated_schema ?cols row" if "row \<in> set ?dated" for row
    using that conformsD(3) [OF assms(1)] wf_dfD(2) [OF wf] retail_columns_present(1) [OF assms(1)]
    by (auto intro: date_row_conforms)
  have "filter keep_row (map (decode_dated ?cols) ?dated) =
      map (decode_dated ?cols) (filter (\<lambda>row. has_customer ?cols row \<and> positive_row ?cols row) ?dated)"
    by (rule filter_map_cong) (simp add: keep_row_decode dated)
  also have "\<dots> = map (decode_dated ?cols) ?kept"
    by (simp add: with_customer_def conj_commute)
  finally have "filter keep_row (parse_dates to_datetime (decode_df df)) =
      map (decode_dated ?cols) ?kept"
    by (simp add: parse_dates_decode [OF wf retail_columns_present(1) [OF assms(1)]])
  moreover have "inj_on (decode_dated ?cols) (set ?kept)"
  proof (rule inj_onI)
    fix r s
    assume "r \<in> set ?kept" "s \<in> set ?kept"
    then have "kept_row ?cols r" "kept_row ?cols s"
      by (auto intro!: kept_rowsD [OF assms(1)] simp: kept_rows_def)
    moreover assume "decode_dated ?cols r = decode_dated ?cols s"
    ultimately show "r = s"
      using wf assms(2) by (auto intro: decode_dated_inj dest: wf_dfD(1))
  qed
  ultimately show ?thesis
    by (simp add: drop_duplicates_map_inj kept_rows_def)
qed

text \<open>The frame returned decodes to the table returned.\<close>

lemma wrangle_df_decode:
  assumes "conforms retail_schema df" and "''TotalPrice'' \<notin> set (columns df)"
  shows "map_sum id decode_clean_df (wrangle_df to_datetime to_int df) =
     wrangle_data to_datetime (decode_df df)"
proof -
  let ?cols = "columns df"
  have "wrangle_data to_datetime (decode_df df) =
      customer_id_astype_int (add_total_price (filter keep_row
        (map (decode_dated ?cols) (kept_rows to_datetime df))))"
    using kept_rowsD [OF assms(1)]
    by (simp add: wrangle_data_def keep_rows_eq kept_rows_decode [OF assms] keep_row_decode
        kept_row_def)
  also have "\<dots> = Inr (List.map_filter clean_row
      (map (decode_dated ?cols) (kept_rows to_datetime df)))"
    by (rule astype_rows_filter)
  also have "List.map_filter clean_row (map (decode_dated ?cols) (kept_rows to_datetime df)) =
      map (\<lambda>row. decode_clean (priced_columns ?cols) (clean_cells ?cols row))
        (kept_rows to_datetime df)"
    using assms(2) retail_columns_present(2) [OF assms(1)]
    by (intro map_filter_map_Some clean_row_decode kept_rowsD [OF assms(1)])
  finally show ?thesis
    by (simp add: wrangle_df_conforming [OF assms(1)] decode_clean_df_def comp_def)
qed

section \<open>The sample frame\<close>

lemma sample_decode_df:
  "map (\<lambda>r. assign_InvoiceDate (txn.truncate r) (str_of (InvoiceDate r))) (decode_df sample_df) =
     sample_raw"
  by (simp add: decode_df_def decode_row_def other_cells_def retail_columns_def sample_df_defs
      txn.truncate_def sample_raw_def sample_row_def assign_InvoiceDate_def)

section \<open>Refinement\<close>

text \<open>
  Property C2 (refinement). On a frame that conforms to the retail schema and
  has no column \<open>TotalPrice\<close> yet, the frame that \<open>wrangle_data\<close> returns decodes
  to the table that the typed model returns on the decoded input: the typed
  model of the normalizer is a sound abstraction of the statements on frames,
  duplicates and the columns the script never reads included.
\<close>

theorem wrangle_df_refines_wrangle_data:
  assumes "conforms retail_schema df" and "''TotalPrice'' \<notin> set (columns df)"
  shows "map_sum id decode_clean_df (wrangle_df to_datetime to_int df) =
     wrangle_data to_datetime (decode_df df)"
  using assms by (rule wrangle_df_decode)

theorem wrangle_df_refines_wrangle_data_witness:
  "conforms retail_schema sample_df \<and> ''TotalPrice'' \<notin> set (columns sample_df) \<and>
   wrangle_data sample_cell_to_datetime (decode_df sample_df) = Inr (decode_clean_df sample_clean_df)"
  using wrangle_df_refines_wrangle_data [OF sample_df_conforms, of sample_cell_to_datetime
      sample_to_int]
  by (simp add: sample_df_conforms sample_wrangle_df)
    (simp add: sample_df_def sample_columns_def)

end
