(* ===== verification/Summary.thy ===== *)
theory Summary
  imports Segment "HOL-Library.Char_ord" "HOL-Library.List_Lexorder"
begin

text \<open>
  The two tables that the page derives from the segmented RFM table: the
  transactions with the segment of their customer (line 60 of
  \<open>src/customer_rfm.py\<close>, \<open>df_clean.merge(rfm, on='CustomerID', how='left')\<close>) and
  the summary of the segments (lines 99-105: \<open>groupby('ClusterName')\<close>, the means
  and the count, \<open>round(2)\<close>, \<open>sort_values\<close> by descending count).

  A row of the joined table is a pair of the transaction and the segment row
  that matched it, \<open>None\<close> when none did (pandas fills the columns with \<open>NaN\<close>).
  \<open>round_half_even\<close> is the rounding of \<open>numpy.round\<close> on exact reals.
  \<open>sort_values\<close> reverses, sorts and reverses again; the sort of numpy is an
  insertion sort below 17 elements, and the summary has at most three, so rows
  of equal count stay in the order of the grouping, as in \<open>sort_key\<close>. Strings
  are ordered as lists of characters (\<open>Char_ord\<close>, \<open>List_Lexorder\<close>), which is the
  order of Python on the names of the dictionary.
\<close>

section \<open>The left join\<close>

definition merge_left ::
  "'z clean_row frame \<Rightarrow> segmented_row frame \<Rightarrow> ('z clean_row \<times> segmented_row option) frame" where
  "merge_left df_clean rfm =
     concat (map (\<lambda>r. case filter (\<lambda>s. CustomerID s = txn.CustomerID r) rfm of
                          [] \<Rightarrow> [(r, None)]
                        | ms \<Rightarrow> map (\<lambda>s. (r, Some s)) ms) df_clean)"

section \<open>Rounding to two decimals\<close>

definition round_half_even :: "real \<Rightarrow> int" where
  "round_half_even x =
     (let f = \<lfloor>x\<rfloor>; d = x - of_int f
      in if d < 1 / 2 then f else if 1 / 2 < d then f + 1 else if even f then f else f + 1)"

definition round2 :: "real \<Rightarrow> real" where
  "round2 x = of_int (round_half_even (x * 100)) / 100"

section \<open>The cluster summary\<close>

text \<open>The mean of a column skips the missing cells and is missing when all are.\<close>

definition nan_mean :: "real option list \<Rightarrow> real option" where
  "nan_mean col = (if present col = [] then None else Some (mean (present col)))"

record summary_row =
  ClusterName :: string
  Recency_Mean :: "real option"
  Frequency_Mean :: real
  Monetary_Mean :: real
  Customer_Count :: nat

text \<open>\<open>groupby\<close> drops the rows whose key is missing.\<close>

definition named_rows :: "segmented_row frame \<Rightarrow> (string \<times> segmented_row) frame" where
  "named_rows rfm = List.map_filter (\<lambda>r. map_option (\<lambda>n. (n, r)) (segmented_row.ClusterName r)) rfm"

definition summary_agg :: "string \<times> (string \<times> segmented_row) frame \<Rightarrow> summary_row" where
  "summary_agg kg =
     \<lparr>ClusterName = fst kg,
      Recency_Mean = map_option round2 (nan_mean (map (\<lambda>p. map_option of_int (Recency (snd p))) (snd kg))),
      Frequency_Mean = round2 (mean (map (\<lambda>p. real (Frequency (snd p))) (snd kg))),
      Monetary_Mean = round2 (mean (map (\<lambda>p. Monetary (snd p)) (snd kg))),
      Customer_Count = length (snd kg)\<rparr>"

definition sort_values_desc :: "('r \<Rightarrow> nat) \<Rightarrow> 'r frame \<Rightarrow> 'r frame" where
  "sort_values_desc col df = sort_key (\<lambda>r. - int (col r)) df"

definition cluster_summary :: "segmented_row frame \<Rightarrow> summary_row frame" where
  "cluster_summary rfm =
     sort_values_desc Customer_Count (map summary_agg (groupby fst (named_rows rfm)))"

section \<open>Samples\<close>

definition sample_segmented :: "segmented_row frame" where
  "sample_segmented = map2 segmented sample_segment_rfm [0, 1, 2, 0]"

text \<open>The customers of a segment, for the statements about the summary.\<close>

definition group_of :: "string \<Rightarrow> segmented_row frame \<Rightarrow> segmented_row frame" where
  "group_of n rfm = filter (\<lambda>r. segmented_row.ClusterName r = Some n) rfm"

definition sample_summary :: "summary_row frame" where
  "sample_summary =
     [\<lparr>ClusterName = ''Loyal Customers'', Recency_Mean = Some 2, Frequency_Mean = 2,
        Monetary_Mean = 11, Customer_Count = 2\<rparr>,
      \<lparr>ClusterName = ''Sleeping Customers'', Recency_Mean = Some 3, Frequency_Mean = 2,
        Monetary_Mean = 12, Customer_Count = 1\<rparr>,
      \<lparr>ClusterName = ''VIP Customers'', Recency_Mean = Some 1, Frequency_Mean = 2,
        Monetary_Mean = 10, Customer_Count = 1\<rparr>]"

lemmas summary_defs = merge_left_def round_half_even_def round2_def nan_mean_def named_rows_def
  summary_agg_def sort_values_desc_def cluster_summary_def sample_segmented_def
  group_of_def sample_summary_def

section \<open>Facts about the join\<close>

lemma filter_key_distinct:
  "distinct (map f xs) \<Longrightarrow> x \<in> set xs \<Longrightarrow> filter (\<lambda>s. f s = f x) xs = [x]"
proof (induction xs)
  case Nil
  then show ?case by simp
next
  case (Cons y xs)
  show ?case
  proof (cases "x = y")
    case True
    with Cons.prems(1) have "filter (\<lambda>s. f s = f y) xs = []"
      by (auto simp: filter_empty_conv) (metis imageI)
    with True show ?thesis by simp
  next
    case False
    with Cons.prems have "x \<in> set xs" "f y \<noteq> f x" by auto
    with Cons show ?thesis by simp
  qed
qed

lemma merge_left_unique:
  assumes "distinct (map CustomerID rfm)"
    and "\<And>r. r \<in> set df \<Longrightarrow> \<exists>s\<in>set rfm. CustomerID s = txn.CustomerID r"
  shows "map fst (merge_left df rfm) = df"
    and "(r, m) \<in> set (merge_left df rfm) \<Longrightarrow>
      \<exists>s\<in>set rfm. m = Some s \<and> CustomerID s = txn.CustomerID r"
proof -
  have row: "\<exists>s\<in>set rfm. CustomerID s = txn.CustomerID r \<and>
      filter (\<lambda>s. CustomerID s = txn.CustomerID r) rfm = [s]" if "r \<in> set df" for r
  proof -
    from assms(2) [OF that] obtain s where s: "s \<in> set rfm" "CustomerID s = txn.CustomerID r"
      by blast
    with filter_key_distinct [OF assms(1) s(1)] show ?thesis by auto
  qed
  have "merge_left df' rfm = map (\<lambda>r. (r, Some (hd (filter (\<lambda>s. CustomerID s = txn.CustomerID r) rfm)))) df'"
    if "set df' \<subseteq> set df" for df'
    using that
  proof (induction df')
    case Nil
    show ?case by (simp add: merge_left_def)
  next
    case (Cons r df')
    then obtain s where "filter (\<lambda>s. CustomerID s = txn.CustomerID r) rfm = [s]"
      using row [of r] by auto
    with Cons show ?case by (simp add: merge_left_def)
  qed
  from this [of df] have eq: "merge_left df rfm =
      map (\<lambda>r. (r, Some (hd (filter (\<lambda>s. CustomerID s = txn.CustomerID r) rfm)))) df"
    by simp
  show "map fst (merge_left df rfm) = df" by (simp add: eq comp_def)
  show "\<exists>s\<in>set rfm. m = Some s \<and> CustomerID s = txn.CustomerID r"
    if "(r, m) \<in> set (merge_left df rfm)"
  proof -
    from that have r: "r \<in> set df"
      and m: "m = Some (hd (filter (\<lambda>s. CustomerID s = txn.CustomerID r) rfm))"
      by (auto simp: eq)
    from row [OF r] m show ?thesis by auto
  qed
qed

section \<open>Facts about rounding\<close>

lemma round_half_even_bounds:
  "\<bar>of_int (round_half_even x) - x\<bar> \<le> 1 / 2"
  unfolding round_half_even_def Let_def by (auto simp: abs_if; linarith)

lemma round2_error: "\<bar>round2 x - x\<bar> \<le> 1 / 200"
proof -
  have "\<bar>round2 x - x\<bar> = \<bar>of_int (round_half_even (x * 100)) - x * 100\<bar> / 100"
    by (simp add: round2_def field_simps abs_if)
  also have "\<dots> \<le> (1 / 2) / 100"
    by (intro divide_right_mono round_half_even_bounds) simp
  finally show ?thesis by simp
qed

lemma round_half_even_of_int [simp]: "round_half_even (of_int i) = i"
  by (simp add: round_half_even_def)


section \<open>Facts about the summary\<close>

lemma map_snd_named_rows:
  "map snd (named_rows rfm) = filter (\<lambda>r. segmented_row.ClusterName r \<noteq> None) rfm"
  by (induction rfm) (auto simp: named_rows_def List.map_filter_simps split: option.splits)

lemma map_fst_named_rows:
  "map fst (named_rows rfm) = List.map_filter segmented_row.ClusterName rfm"
  by (induction rfm) (auto simp: named_rows_def List.map_filter_simps split: option.splits)

lemma named_rows_group:
  "map snd (filter (\<lambda>p. fst p = n) (named_rows rfm)) = group_of n rfm"
  by (induction rfm)
    (auto simp: named_rows_def group_of_def List.map_filter_simps split: option.splits)

lemma length_named_rows:
  "length (named_rows rfm) = length (filter (\<lambda>r. segmented_row.ClusterName r \<noteq> None) rfm)"
  using arg_cong [OF map_snd_named_rows, of length rfm] by simp

lemma set_sort_values_desc [simp]: "set (sort_values_desc col df) = set df"
  by (simp add: sort_values_desc_def)

lemma mset_sort_values_desc [simp]: "mset (sort_values_desc col df) = mset df"
  by (simp add: sort_values_desc_def)

lemma length_sort_values_desc [simp]: "length (sort_values_desc col df) = length df"
  by (simp add: sort_values_desc_def)

lemma sum_list_sort_values_desc:
  fixes f :: "'r \<Rightarrow> nat"
  shows "sum_list (map f (sort_values_desc col df)) = sum_list (map f df)"
proof -
  have "sum_list (map f (sort_values_desc col df)) =
      sum_mset (image_mset f (mset (sort_values_desc col df)))"
    by (simp only: sum_mset_sum_list [symmetric] mset_map)
  also have "\<dots> = sum_list (map f df)"
    by (simp add: sum_mset_sum_list [symmetric])
  finally show ?thesis .
qed

lemma sorted_sort_values_desc:
  "sorted_wrt (\<lambda>a b. col b \<le> col a) (sort_values_desc col df)"
proof -
  have "sorted (map (\<lambda>r. - int (col r)) (sort_values_desc col df))"
    by (simp add: sort_values_desc_def)
  then show ?thesis by (simp add: sorted_map sorted_wrt_iff_nth_less)
qed

lemma sort_values_desc_stable:
  "filter (\<lambda>r. col r = c) (sort_values_desc col df) = filter (\<lambda>r. col r = c) df"
proof -
  have "filter (\<lambda>r. - int (col r) = - int c) (sort_key (\<lambda>r. - int (col r)) df) =
      filter (\<lambda>r. - int (col r) = - int c) df"
    by (rule sort_key_stable)
  then show ?thesis by (simp add: sort_values_desc_def)
qed

lemma summary_agg_sel [simp]:
  "ClusterName (summary_agg kg) = fst kg"
  "Customer_Count (summary_agg kg) = length (snd kg)"
  "Frequency_Mean (summary_agg kg) = round2 (mean (map (\<lambda>p. real (Frequency (snd p))) (snd kg)))"
  "Monetary_Mean (summary_agg kg) = round2 (mean (map (\<lambda>p. Monetary (snd p)) (snd kg)))"
  "Recency_Mean (summary_agg kg) =
     map_option round2 (nan_mean (map (\<lambda>p. map_option of_int (Recency (snd p))) (snd kg)))"
  by (simp_all add: summary_agg_def)

lemma cluster_summary_member_iff:
  "row \<in> set (cluster_summary rfm) \<longleftrightarrow>
     (\<exists>n. group_of n rfm \<noteq> [] \<and>
        row = summary_agg (n, filter (\<lambda>p. fst p = n) (named_rows rfm)))"
proof -
  have "fst ` set (named_rows rfm) = {n. group_of n rfm \<noteq> []}"
    by (auto simp: named_rows_def set_map_filter group_of_def filter_empty_conv image_iff)
  then show ?thesis
    by (auto simp: cluster_summary_def groupby_def image_iff)
qed

lemma cluster_summary_names:
  "ClusterName ` set (cluster_summary rfm) = {n. group_of n rfm \<noteq> []}"
proof -
  have "n \<in> ClusterName ` set (cluster_summary rfm)" if "group_of n rfm \<noteq> []" for n
  proof -
    from that have "summary_agg (n, filter (\<lambda>p. fst p = n) (named_rows rfm))
        \<in> set (cluster_summary rfm)"
      unfolding cluster_summary_member_iff by blast
    then show ?thesis by force
  qed
  then show ?thesis by (auto simp: cluster_summary_member_iff)
qed

lemma map_ClusterName_cluster_summary:
  "mset (map ClusterName (cluster_summary rfm)) =
     mset (group_keys (List.map_filter segmented_row.ClusterName rfm))"
proof -
  have "mset (map ClusterName (cluster_summary rfm)) =
      mset (map ClusterName (map summary_agg (groupby fst (named_rows rfm))))"
    unfolding cluster_summary_def by (simp only: mset_map mset_sort_values_desc)
  also have "map ClusterName (map summary_agg (groupby fst (named_rows rfm))) =
      map fst (groupby fst (named_rows rfm))"
    by (simp add: comp_def)
  finally show ?thesis by (simp add: map_fst_named_rows)
qed

lemma distinct_cluster_summary_names: "distinct (map ClusterName (cluster_summary rfm))"
  using map_ClusterName_cluster_summary [of rfm] distinct_group_keys
  by (metis mset_eq_imp_distinct_iff)

lemma length_cluster_summary_le:
  assumes "\<And>r. r \<in> set rfm \<Longrightarrow> segmented_row.ClusterName r = cluster_names (Cluster r)"
  shows "length (cluster_summary rfm) \<le> 3"
proof -
  let ?names = "{''VIP Customers'', ''Loyal Customers'', ''Sleeping Customers''}"
  have "n \<in> ?names" if "group_of n rfm \<noteq> []" for n
  proof -
    from that obtain r where "r \<in> set rfm" "segmented_row.ClusterName r = Some n"
      by (auto simp: group_of_def filter_empty_conv)
    with assms have "cluster_names (Cluster r) = Some n" by simp
    then show ?thesis by (auto simp: cluster_names_def split: if_splits)
  qed
  then have "ClusterName ` set (cluster_summary rfm) \<subseteq> ?names"
    unfolding cluster_summary_names by blast
  then have "card (ClusterName ` set (cluster_summary rfm)) \<le> card ?names"
    by (intro card_mono) simp_all
  also have "\<dots> \<le> 3" by (simp add: card_insert_if)
  finally have "card (set (map ClusterName (cluster_summary rfm))) \<le> 3" by simp
  then show ?thesis
    by (simp only: distinct_card [OF distinct_cluster_summary_names] length_map)
qed

lemma sum_counts_cluster_summary:
  "sum_list (map Customer_Count (cluster_summary rfm)) =
     length (filter (\<lambda>r. segmented_row.ClusterName r \<noteq> None) rfm)"
proof -
  have "sum_list (map Customer_Count (cluster_summary rfm)) =
      (\<Sum>(k, g)\<leftarrow>groupby fst (named_rows rfm). length g)"
    by (simp add: cluster_summary_def sum_list_sort_values_desc comp_def case_prod_unfold)
  then show ?thesis by (simp add: groupby_length length_named_rows)
qed

lemma sample_cluster_summary: "cluster_summary sample_segmented = sample_summary"
  by (simp add: summary_defs eval_defs sample_summary_def Let_def)


lemma named_rows_group_map:
  "map (\<lambda>p. f (snd p)) (filter (\<lambda>p. fst p = n) (named_rows rfm)) = map f (group_of n rfm)"
  unfolding named_rows_group [symmetric] by (simp add: comp_def)

lemma cluster_summary_row:
  assumes "row \<in> set (cluster_summary rfm)"
  obtains n where "ClusterName row = n" and "group_of n rfm \<noteq> []"
    and "Customer_Count row = length (group_of n rfm)"
    and "Monetary_Mean row = round2 (mean (map Monetary (group_of n rfm)))"
    and "Frequency_Mean row = round2 (mean (map (\<lambda>r. real (Frequency r)) (group_of n rfm)))"
    and "Recency_Mean row =
      map_option round2 (nan_mean (map (\<lambda>r. map_option of_int (Recency r)) (group_of n rfm)))"
proof -
  from assms obtain n where n: "group_of n rfm \<noteq> []"
    and row: "row = summary_agg (n, filter (\<lambda>p. fst p = n) (named_rows rfm))"
    unfolding cluster_summary_member_iff by blast
  show thesis
  proof (rule that [of n])
    show "Customer_Count row = length (group_of n rfm)"
      using arg_cong [OF named_rows_group, of length n rfm] by (simp add: row)
  qed (simp_all add: row n named_rows_group_map [of Monetary]
      named_rows_group_map [of "\<lambda>r. real (Frequency r)"]
      named_rows_group_map [of "\<lambda>r. map_option of_int (Recency r)"])
qed

lemma sample_merge_left:
  "merge_left sample_clean sample_segmented =
     [(sample_clean ! 0, Some (segmented (sample_segment_rfm ! 3) 0)),
      (sample_clean ! 1, Some (segmented (sample_segment_rfm ! 3) 0)),
      (sample_clean ! 2, Some (segmented (sample_segment_rfm ! 1) 1)),
      (sample_clean ! 3, Some (segmented (sample_segment_rfm ! 0) 0))]"
  by (simp add: summary_defs eval_defs)

section \<open>Properties\<close>

text \<open>
  When the segmented table has one row per
  customer identifier and a row for every customer of the cleaned table, the
  left join keeps the cleaned rows as they are, in their order, and gives each
  of them the segment row of its customer.
\<close>

theorem merge_left_total:
  assumes "distinct (map CustomerID rfm)"
    and "txn.CustomerID ` set df_clean \<subseteq> CustomerID ` set rfm"
  shows "map fst (merge_left df_clean rfm) = df_clean \<and>
    list_all (\<lambda>(r, m). \<exists>s\<in>set rfm. m = Some s \<and> CustomerID s = txn.CustomerID r)
      (merge_left df_clean rfm)"
proof -
  from assms(2) have "\<exists>s\<in>set rfm. CustomerID s = txn.CustomerID r" if "r \<in> set df_clean" for r
    using that by (metis (no_types) imageE image_eqI subsetD)
  from merge_left_unique [OF assms(1) this] show ?thesis
    by (auto simp: list_all_iff)
qed

theorem merge_left_total_witness:
  "map fst (merge_left sample_clean sample_segmented) = sample_clean \<and>
   list_all (\<lambda>(r, m). \<exists>s\<in>set sample_segmented. m = Some s \<and> CustomerID s = txn.CustomerID r)
     (merge_left sample_clean sample_segmented)"
  using merge_left_total [of sample_segmented sample_clean]
  by (simp add: sample_segmented_def eval_defs)

text \<open>
  The customer counts of the cluster
  summary add up to the number of customers that have a segment name.
\<close>

theorem cluster_summary_counts:
  "sum_list (map Customer_Count (cluster_summary rfm)) =
     length (filter (\<lambda>r. segmented_row.ClusterName r \<noteq> None) rfm)"
  by (rule sum_counts_cluster_summary)

text \<open>
  Property C32 (the order of the summary). The summary has one row per segment
  name, the rows are in descending order of the customer count, and rows with
  the same count are in the order of their names.
\<close>

theorem cluster_summary_sorted:
  "distinct (map ClusterName (cluster_summary rfm)) \<and>
   sorted_wrt (\<lambda>a b. Customer_Count b \<le> Customer_Count a) (cluster_summary rfm) \<and>
   sorted (map ClusterName (filter (\<lambda>r. Customer_Count r = c) (cluster_summary rfm)))"
proof -
  have "map ClusterName (map summary_agg (groupby fst (named_rows rfm))) =
      group_keys (map fst (named_rows rfm))"
    by (simp add: comp_def)
  then have "sorted (map ClusterName (map summary_agg (groupby fst (named_rows rfm))))"
    by (simp only: sorted_group_keys)
  then have "sorted (map ClusterName (filter (\<lambda>r. Customer_Count r = c)
      (map summary_agg (groupby fst (named_rows rfm)))))"
    by (rule sorted_filter)
  then have "sorted (map ClusterName (filter (\<lambda>r. Customer_Count r = c) (cluster_summary rfm)))"
    by (simp add: cluster_summary_def sort_values_desc_stable)
  moreover have "sorted_wrt (\<lambda>a b. Customer_Count b \<le> Customer_Count a) (cluster_summary rfm)"
    unfolding cluster_summary_def by (rule sorted_sort_values_desc)
  ultimately show ?thesis
    using distinct_cluster_summary_names [of rfm] by simp
qed

text \<open>
  Property C33 (the rows of the summary). A row of the summary stands for a
  segment that has at least one customer; its count is the number of customers
  of the segment, and its frequency and monetary means are within 0.005 of the
  means over these customers.
\<close>

theorem cluster_summary_means:
  assumes "row \<in> set (cluster_summary rfm)"
  shows "1 \<le> Customer_Count row \<and>
    Customer_Count row = length (group_of (ClusterName row) rfm) \<and>
    \<bar>Monetary_Mean row - mean (map Monetary (group_of (ClusterName row) rfm))\<bar> \<le> 1 / 200 \<and>
    \<bar>Frequency_Mean row -
       mean (map (\<lambda>r. real (Frequency r)) (group_of (ClusterName row) rfm))\<bar> \<le> 1 / 200"
proof -
  note err = round2_error [of "mean (map Monetary (group_of (ClusterName row) rfm))"]
    round2_error [of "mean (map (\<lambda>r. real (Frequency r)) (group_of (ClusterName row) rfm))"]
  from assms show ?thesis
    by (rule cluster_summary_row) (use err in \<open>simp add: Suc_le_eq\<close>)
qed

theorem cluster_summary_means_witness:
  "1 \<le> Customer_Count (sample_summary ! 0) \<and>
   Customer_Count (sample_summary ! 0) = length (group_of ''Loyal Customers'' sample_segmented) \<and>
   \<bar>Monetary_Mean (sample_summary ! 0) -
      mean (map Monetary (group_of ''Loyal Customers'' sample_segmented))\<bar> \<le> 1 / 200 \<and>
   \<bar>Frequency_Mean (sample_summary ! 0) -
      mean (map (\<lambda>r. real (Frequency r)) (group_of ''Loyal Customers'' sample_segmented))\<bar>
      \<le> 1 / 200"
  using cluster_summary_means [of "sample_summary ! 0" sample_segmented]
  by (simp add: sample_cluster_summary) (simp add: sample_summary_def)

end
