(* ===== verification/Pipeline.thy ===== *)
theory Pipeline
  imports Summary
begin

text \<open>
  The body of the script between the upload and the tabs: lines 37-60 of
  \<open>src/customer_rfm.py\<close> call \<open>wrangle_data\<close> on the table that was read,
  aggregate the result, scale it, cluster it, name the clusters and join the
  names onto the transactions. \<open>clean_and_aggregate\<close> is the first half (lines
  37-46); \<open>analyse\<close> is the whole and returns the four variables that the tabs
  read, as the record \<open>workspace\<close>. An exception of any stage ends the run.

  The theory proves when the run raises, in terms of the uploaded table, and
  the properties of the result that span the stages: every transaction is
  joined with a named segment, and the counts of the summary add up to the
  number of customers.
\<close>

section \<open>Cleaning and aggregating\<close>

definition clean_and_aggregate ::
  "('d \<Rightarrow> timestamp option) \<Rightarrow> ('d, 'z) raw_row frame \<Rightarrow>
     ('z clean_row frame \<times> rfm_row frame) result" where
  "clean_and_aggregate to_datetime df =
     bind_result (wrangle_data to_datetime df) (\<lambda>df_clean. Inr (df_clean, rfm_table df_clean))"

section \<open>The analysis\<close>

text \<open>The variables of the script that are live at line 60.\<close>

record 'z workspace =
  df_clean :: "'z clean_row frame"
  rfm :: "segmented_row frame"
  rfm_scaled :: "real option list list"
  df_with_clusters :: "('z clean_row \<times> segmented_row option) frame"

text \<open>Lines 37-60, statement by statement.\<close>

definition analyse ::
  "('d \<Rightarrow> timestamp option) \<Rightarrow> clusterer \<Rightarrow> ('d, 'z) raw_row frame \<Rightarrow> 'z workspace result" where
  "analyse to_datetime km df =
     bind_result (clean_and_aggregate to_datetime df) (\<lambda>(df_clean, rfm).
     bind_result (fit_transform (rfm_features rfm)) (\<lambda>rfm_scaled.
     bind_result (fit_predict km 3 rfm_scaled) (\<lambda>labels.
     bind_result (assign_Cluster rfm labels) (\<lambda>rfm.
       let rfm = assign_ClusterName rfm
       in Inr \<lparr>df_clean = df_clean, rfm = rfm, rfm_scaled = rfm_scaled,
               df_with_clusters = merge_left df_clean rfm\<rparr>))))"

text \<open>
  The customers of an upload: the identifiers of the rows that cleaning keeps.
  A customer is dated when the date of one of its rows parses.
\<close>

definition customers :: "('d \<Rightarrow> timestamp option) \<Rightarrow> ('d, 'z) raw_row frame \<Rightarrow> int set" where
  "customers to_datetime df = txn.CustomerID ` set (wrangle_rows to_datetime df)"

definition dated :: "('d \<Rightarrow> timestamp option) \<Rightarrow> ('d, 'z) raw_row frame \<Rightarrow> int \<Rightarrow> bool" where
  "dated to_datetime df c \<longleftrightarrow>
     list_ex (\<lambda>r. txn.CustomerID r = c \<and> InvoiceDate r \<noteq> None) (wrangle_rows to_datetime df)"

section \<open>A sample upload\<close>

text \<open>
  Four customers with two invoices each, all dated; their RFM table is
  \<open>sample_segment_rfm\<close>.
\<close>

definition sample_upload :: "(string, unit) raw_row frame" where
  "sample_upload =
     [sample_row ''536365'' 1 ''2010-12-01'' 4 (Some 12583),
      sample_row ''536366'' 1 ''2010-12-03'' 6 (Some 12583),
      sample_row ''536367'' 2 ''2010-12-01'' 3 (Some 13047),
      sample_row ''536368'' 1 ''2010-12-01'' 6 (Some 13047),
      sample_row ''536369'' 1 ''2010-12-02'' 5 (Some 14527),
      sample_row ''536370'' 1 ''2010-12-03'' 5 (Some 14527),
      sample_row ''536371'' 3 ''2010-12-01'' 2 (Some 17850),
      sample_row ''536372'' 1 ''2010-12-01'' 6 (Some 17850)]"

definition sample_upload_clean :: "unit clean_row frame" where
  "sample_upload_clean =
     [sample_clean_row ''536365'' 1 (Some (14944 * one_day)) 4 12583 4,
      sample_clean_row ''536366'' 1 (Some (14946 * one_day)) 6 12583 6,
      sample_clean_row ''536367'' 2 (Some (14944 * one_day)) 3 13047 6,
      sample_clean_row ''536368'' 1 (Some (14944 * one_day)) 6 13047 6,
      sample_clean_row ''536369'' 1 (Some (14945 * one_day)) 5 14527 5,
      sample_clean_row ''536370'' 1 (Some (14946 * one_day)) 5 14527 5,
      sample_clean_row ''536371'' 3 (Some (14944 * one_day)) 2 17850 6,
      sample_clean_row ''536372'' 1 (Some (14944 * one_day)) 6 17850 6]"

definition sample_workspace :: "unit workspace" where
  "sample_workspace =
     \<lparr>df_clean = sample_upload_clean, rfm = sample_segmented, rfm_scaled = sample_scaled,
      df_with_clusters = merge_left sample_upload_clean sample_segmented\<rparr>"

declare clean_and_aggregate_def [eval_defs] analyse_def [eval_defs] customers_def [eval_defs]
  dated_def [eval_defs] sample_upload_def [eval_defs] sample_upload_clean_def [eval_defs]
  sample_workspace_def [eval_defs]

section \<open>The stages composed\<close>

lemma clean_and_aggregate_Inr_iff:
  "clean_and_aggregate to_datetime df = Inr (c, r) \<longleftrightarrow>
     c = wrangle_rows to_datetime df \<and> r = rfm_table c"
  by (auto simp: clean_and_aggregate_def bind_result_Inr_iff wrangle_data_Inr_iff)

lemma clean_and_aggregate_total:
  "\<exists>c r. clean_and_aggregate to_datetime df = Inr (c, r)"
  by (simp add: clean_and_aggregate_Inr_iff)

lemma wrangle_rows_Nil_iff:
  "wrangle_rows to_datetime df = [] \<longleftrightarrow>
     (\<forall>x\<in>set df. \<not> keep_row (assign_InvoiceDate x (to_datetime (InvoiceDate x))))"
proof -
  have "wrangle_rows to_datetime df = [] \<longleftrightarrow> set (wrangle_rows to_datetime df) = {}"
    by simp
  also have "\<dots> \<longleftrightarrow>
      (\<forall>x\<in>set df. clean_row (assign_InvoiceDate x (to_datetime (InvoiceDate x))) = None)"
    unfolding set_wrangle_rows by (simp add: Ball_def) (metis not_Some_eq)
  finally show ?thesis by (simp add: clean_row_None_iff)
qed

lemma rfm_table_Nil_iff [simp]: "rfm_table df = [] \<longleftrightarrow> df = []"
proof -
  have "rfm_table df = [] \<longleftrightarrow> group_keys (map txn.CustomerID df) = []"
    by (simp add: rfm_table_def groupby_def)
  also have "\<dots> \<longleftrightarrow> set (group_keys (map txn.CustomerID df)) = {}"
    by (simp only: set_empty)
  finally show ?thesis by simp
qed

lemma sample_clean_and_aggregate:
  "clean_and_aggregate sample_to_datetime sample_raw = Inr (sample_clean, sample_rfm)"
  by (simp add: clean_and_aggregate_Inr_iff sample_wrangle_rows sample_rfm_eq)

section \<open>The whole analysis\<close>

lemma analyse_segment:
  "analyse to_datetime km df =
     bind_result (segment km (rfm_table (wrangle_rows to_datetime df))) (\<lambda>s.
       Inr \<lparr>df_clean = wrangle_rows to_datetime df, rfm = s,
            rfm_scaled = projr (fit_transform (rfm_features (rfm_table (wrangle_rows to_datetime df)))),
            df_with_clusters = merge_left (wrangle_rows to_datetime df) s\<rparr>)"
proof -
  have "clean_and_aggregate to_datetime df =
      Inr (wrangle_rows to_datetime df, rfm_table (wrangle_rows to_datetime df))"
    by (simp add: clean_and_aggregate_Inr_iff)
  then show ?thesis
    by (cases "fit_transform (rfm_features (rfm_table (wrangle_rows to_datetime df)))")
      (simp_all add: analyse_def segment_def Let_def bind_result_assoc)
qed

lemma analyse_Inr_iff:
  "analyse to_datetime km df = Inr w \<longleftrightarrow>
     segment km (rfm_table (wrangle_rows to_datetime df)) = Inr (rfm w) \<and>
     df_clean w = wrangle_rows to_datetime df \<and>
     fit_transform (rfm_features (rfm_table (df_clean w))) = Inr (rfm_scaled w) \<and>
     df_with_clusters w = merge_left (df_clean w) (rfm w)"
proof -
  have "\<exists>Z. fit_transform (rfm_features r) = Inr Z" if "segment km r = Inr s" for r s
    using that by (auto simp: segment_def bind_result_Inr_iff)
  then have "fit_transform (rfm_features r) = Inr (projr (fit_transform (rfm_features r)))"
    if "segment km r = Inr s" for r s
    using that by fastforce
  then show ?thesis
    unfolding analyse_segment by (cases w) (auto simp: bind_result_Inr_iff)
qed

lemma analyse_cases:
  "(\<exists>w. analyse to_datetime km df = Inr w) \<or> analyse to_datetime km df = Inl ValueError"
  using segment_cases [of km "rfm_table (wrangle_rows to_datetime df)"]
  unfolding analyse_segment by auto

section \<open>The customers of an upload\<close>

lemma set_CustomerID_rfm_table:
  "CustomerID ` set (rfm_table (wrangle_rows to_datetime df)) = customers to_datetime df"
  using arg_cong [OF map_CustomerID_rfm_table, of set "wrangle_rows to_datetime df"]
  by (simp add: customers_def)

lemma length_rfm_table_customers:
  "length (rfm_table (wrangle_rows to_datetime df)) = card (customers to_datetime df)"
  by (simp add: length_rfm_table customers_def)

lemma rfm_table_undated_iff:
  "(\<exists>r\<in>set (rfm_table (wrangle_rows to_datetime df)). Recency r = None) \<longleftrightarrow>
     (\<exists>c\<in>customers to_datetime df. \<not> dated to_datetime df c)"
proof -
  let ?C = "wrangle_rows to_datetime df"
  have "Recency r = None \<longleftrightarrow> \<not> dated to_datetime df (CustomerID r)"
    if "r \<in> set (rfm_table ?C)" for r
    using rfm_recency_missing [OF that] by (auto simp: dated_def list_ex_iff)
  then have "(\<exists>r\<in>set (rfm_table ?C). Recency r = None) \<longleftrightarrow>
      (\<exists>c\<in>CustomerID ` set (rfm_table ?C). \<not> dated to_datetime df c)"
    by auto
  then show ?thesis by (simp only: set_CustomerID_rfm_table)
qed

lemma analyse_Inl_iff:
  assumes "valid_clusterer km"
  shows "analyse to_datetime km df = Inl ValueError \<longleftrightarrow>
     card (customers to_datetime df) < 3 \<or> (\<exists>c\<in>customers to_datetime df. \<not> dated to_datetime df c)"
proof -
  have "analyse to_datetime km df = Inl ValueError \<longleftrightarrow>
      segment km (rfm_table (wrangle_rows to_datetime df)) = Inl ValueError"
    unfolding analyse_segment by (simp add: bind_result_Inl_iff)
  then show ?thesis
    by (simp only: segment_Inl_iff [OF assms] rfm_table_undated_iff length_rfm_table_customers)
qed

lemma analyse_rfm:
  assumes "valid_clusterer km" and "analyse to_datetime km df = Inr w"
  shows "segment km (rfm_table (df_clean w)) = Inr (rfm w)"
    and "df_clean w = wrangle_rows to_datetime df"
    and "df_with_clusters w = merge_left (df_clean w) (rfm w)"
    and "map CustomerID (rfm w) = group_keys (map txn.CustomerID (df_clean w))"
    and "length (rfm w) = card (customers to_datetime df)"
proof -
  from assms(2) show seg: "segment km (rfm_table (df_clean w)) = Inr (rfm w)"
    and clean: "df_clean w = wrangle_rows to_datetime df"
    and "df_with_clusters w = merge_left (df_clean w) (rfm w)"
    by (simp_all add: analyse_Inr_iff)
  from segment_keeps_rows(2) [OF assms(1) seg]
  show "map CustomerID (rfm w) = group_keys (map txn.CustomerID (df_clean w))"
    by (simp add: map_CustomerID_rfm_table)
  from segment_keeps_rows(1) [OF assms(1) seg]
  show "length (rfm w) = card (customers to_datetime df)"
    by (simp add: clean length_rfm_table_customers)
qed

lemma analyse_named:
  assumes "valid_clusterer km" and "analyse to_datetime km df = Inr w" and "s \<in> set (rfm w)"
  shows "Cluster s < 3 \<and> segmented_row.ClusterName s = cluster_names (Cluster s) \<and>
    segmented_row.ClusterName s \<noteq> None"
  using assms(1) analyse_rfm(1) [OF assms(1,2)] assms(3) by (rule segment_row_named)

lemma analyse_summary:
  assumes "valid_clusterer km" and "analyse to_datetime km df = Inr w"
  shows "sum_list (map Customer_Count (cluster_summary (rfm w))) = card (customers to_datetime df)"
    and "length (cluster_summary (rfm w)) \<le> 3"
proof -
  note named = analyse_named [OF assms]
  then have "filter (\<lambda>r. segmented_row.ClusterName r \<noteq> None) (rfm w) = rfm w"
    unfolding filter_id_conv by blast
  then show "sum_list (map Customer_Count (cluster_summary (rfm w))) =
      card (customers to_datetime df)"
    by (simp add: sum_counts_cluster_summary analyse_rfm(5) [OF assms])
  from named show "length (cluster_summary (rfm w)) \<le> 3"
    by (intro length_cluster_summary_le) simp
qed

lemma analyse_join:
  assumes "valid_clusterer km" and "analyse to_datetime km df = Inr w"
  shows "map fst (df_with_clusters w) = df_clean w"
    and "(r, m) \<in> set (df_with_clusters w) \<Longrightarrow>
      \<exists>s\<in>set (rfm w). m = Some s \<and> CustomerID s = txn.CustomerID r"
proof -
  note ids = analyse_rfm(4) [OF assms]
  then have dist: "distinct (map CustomerID (rfm w))" by simp
  have cover: "\<exists>s\<in>set (rfm w). CustomerID s = txn.CustomerID r" if "r \<in> set (df_clean w)" for r
  proof -
    from that have "txn.CustomerID r \<in> set (map CustomerID (rfm w))"
      unfolding ids by simp
    then show ?thesis by auto
  qed
  from merge_left_unique [OF dist cover]
  show "map fst (df_with_clusters w) = df_clean w"
    and "(r, m) \<in> set (df_with_clusters w) \<Longrightarrow>
      \<exists>s\<in>set (rfm w). m = Some s \<and> CustomerID s = txn.CustomerID r"
    by (simp_all add: analyse_rfm(3) [OF assms])
qed

section \<open>The sample\<close>

lemma sample_upload_wrangle: "wrangle_rows sample_to_datetime sample_upload = sample_upload_clean"
  by (simp add: eval_defs)

lemma sample_upload_rfm: "rfm_table sample_upload_clean = sample_segment_rfm"
  by (simp add: eval_defs)

lemma sample_segment: "segment round_robin sample_segment_rfm = Inr sample_segmented"
  by (simp add: segment_valid_Inr_iff valid_round_robin sample_features_eq sample_fit_transform
      sample_segmented_def)
    (simp add: eval_defs)

lemma sample_analyse:
  "analyse sample_to_datetime round_robin sample_upload = Inr sample_workspace"
  by (simp add: analyse_Inr_iff sample_upload_wrangle sample_upload_rfm sample_segment
      sample_features_eq sample_fit_transform sample_workspace_def)

lemma sample_customers:
  "customers sample_to_datetime sample_upload = {12583, 13047, 14527, 17850}"
  "customers sample_to_datetime sample_raw = {12583, 13047, 17850}"
  by (simp_all add: customers_def sample_upload_wrangle sample_wrangle_rows
      sample_upload_clean_def sample_clean_def sample_clean_row_def insert_commute)

end
