(* ===== verification/Page.thy ===== *)
theory Page
  imports Pipeline
begin

text \<open>
  The Streamlit page: what one run of \<open>src/customer_rfm.py\<close> shows for an upload
  and a choice in the customer selector. The run reads the first CSV member of
  the archive (lines 28-35), analyses it (lines 37-60, theory \<open>Pipeline\<close>) and
  fills the tabs in the order of the script: the customer tab (lines 79-94),
  the cluster summary (lines 96-107) and the elbow plot (lines 124-129).

  The inputs of a run are the uploaded archive, if any, and the index that the
  user chose in the selector. The archive is the list of its member names and
  the table that \<open>pd.read_csv\<close> returns for a member. The fitted inertia of
  k-means is a parameter \<open>inertia\<close>, as the labelling is in theory \<open>Segment\<close>.
  The outcome of a run is a \<open>page\<close>: the request for an upload, the stop after
  the message that no CSV was found, an exception that ends the script, or
  the content of the tabs. Widgets and plots are reduced to the data they are
  given.
\<close>

section \<open>The archive\<close>

text \<open>
  Lines 29-35: the names of the members and the table read from a member.
\<close>

record ('d, 'z) zip_file =
  namelist :: "string list"
  read_csv :: "string \<Rightarrow> ('d, 'z) raw_row frame"

text \<open>Line 30, the members whose name ends in \<open>.csv\<close>, in the order of the archive.\<close>

definition csv_files :: "string list \<Rightarrow> string list" where
  "csv_files names = filter (\<lambda>f. suffix ''.csv'' f) names"

section \<open>The customer tab\<close>

text \<open>
  Line 82, \<open>st.selectbox\<close>: the option at the index the user chose. The widget
  offers the indices of the options only, and returns nothing when there is no
  option.
\<close>

definition selectbox :: "'a list \<Rightarrow> nat \<Rightarrow> 'a option" where
  "selectbox options index = (if index < length options then Some (options ! index) else None)"

text \<open>
  Line 94, the selection of seven columns. The identifier of the customer is
  not among them: its column has the one-element type.
\<close>

definition shown_columns :: "'z clean_row \<Rightarrow> (timestamp option, unit) priced_txn" where
  "shown_columns r =
     \<lparr>InvoiceNo = InvoiceNo r, StockCode = StockCode r, Description = Description r,
      Quantity = Quantity r, InvoiceDate = InvoiceDate r, UnitPrice = UnitPrice r,
      CustomerID = (), TotalPrice = TotalPrice r\<rparr>"

text \<open>What the tab shows of a customer: the segment row and the transactions.\<close>

record customer_view =
  customer_rfm :: segmented_row
  cust_transactions :: "(timestamp option, unit) priced_txn frame"

text \<open>
  Lines 84-94. \<open>if selected_id:\<close> is false for no selection and for the
  identifier 0; \<open>iloc[0]\<close> raises \<open>IndexError\<close> on a selection without rows.
\<close>

definition customer_details ::
  "segmented_row frame \<Rightarrow> ('z clean_row \<times> segmented_row option) frame \<Rightarrow> int option \<Rightarrow>
     customer_view option result" where
  "customer_details tbl joined selected_id =
     (case selected_id of
        None \<Rightarrow> Inr None
      | Some i \<Rightarrow>
          if i = 0 then Inr None
          else (case filter (\<lambda>r. CustomerID r = i) tbl of
                  [] \<Rightarrow> Inl IndexError
                | row # _ \<Rightarrow>
                    Inr (Some \<lparr>customer_rfm = row,
                      cust_transactions =
                        map (\<lambda>p. shown_columns (fst p))
                          (filter (\<lambda>p. txn.CustomerID (fst p) = i) joined)\<rparr>)))"

section \<open>The elbow plot\<close>

text \<open>The fitted inertia of the library: \<open>KMeans(n_clusters=k).fit(X).inertia_\<close>.\<close>

type_synonym inertia = "nat \<Rightarrow> real list list \<Rightarrow> real"

text \<open>Lines 127-129, one fit, with the checks of the input that precede it.\<close>

definition fit_inertia :: "inertia \<Rightarrow> nat \<Rightarrow> real option list list \<Rightarrow> real result" where
  "fit_inertia inertia n_clusters X =
     (if X = [] \<or> list_ex (\<lambda>row. None \<in> set row) X then Inl ValueError
      else if length X < n_clusters then Inl ValueError
      else Inr (inertia n_clusters (map present X)))"

text \<open>
  Lines 125-129: the loop over \<open>range(1, 11)\<close> with the list \<open>wcss\<close> as
  accumulator. The recursion is on the list of the remaining iterations.
\<close>

fun elbow_loop ::
  "inertia \<Rightarrow> real option list list \<Rightarrow> nat list \<Rightarrow> real list \<Rightarrow> real list result" where
  "elbow_loop inertia X [] wcss = Inr wcss"
| "elbow_loop inertia X (i # rest) wcss =
     bind_result (fit_inertia inertia i X) (\<lambda>w. elbow_loop inertia X rest (wcss @ [w]))"

definition elbow :: "inertia \<Rightarrow> real option list list \<Rightarrow> real list result" where
  "elbow inertia X = elbow_loop inertia X [1..<11] []"

section \<open>The page\<close>

text \<open>The data of the tabs.\<close>

record view =
  customer_ids :: "int list"
  customer :: "customer_view option"
  summary :: "summary_row frame"
  wcss :: "real list"

datatype page = Info | Stopped | Raised error | Shown view

text \<open>Lines 79-129: the tabs in the order in which the script fills them.\<close>

definition tabs :: "inertia \<Rightarrow> nat \<Rightarrow> 'z workspace \<Rightarrow> view result" where
  "tabs inertia choice w =
     (let customer_ids = sort (map CustomerID (rfm w));
          selected_id = selectbox customer_ids choice
      in bind_result (customer_details (rfm w) (df_with_clusters w) selected_id) (\<lambda>customer.
         let summary = cluster_summary (rfm w)
         in bind_result (elbow inertia (rfm_scaled w)) (\<lambda>wcss.
              Inr \<lparr>customer_ids = customer_ids, customer = customer, summary = summary,
                   wcss = wcss\<rparr>)))"

text \<open>Lines 28-138: one run of the script.\<close>

definition page ::
  "('d \<Rightarrow> timestamp option) \<Rightarrow> clusterer \<Rightarrow> inertia \<Rightarrow> ('d, 'z) zip_file option \<Rightarrow> nat \<Rightarrow> page" where
  "page to_datetime km inertia uploaded_zip choice =
     (case uploaded_zip of
        None \<Rightarrow> Info
      | Some zip_file \<Rightarrow>
          (case csv_files (namelist zip_file) of
             [] \<Rightarrow> Stopped
           | f # _ \<Rightarrow>
               (case bind_result (analyse to_datetime km (read_csv zip_file f))
                       (tabs inertia choice) of
                  Inl e \<Rightarrow> Raised e
                | Inr v \<Rightarrow> Shown v)))"

section \<open>Samples\<close>

text \<open>
  An archive whose second member is the first CSV, with the sample upload of
  four customers; an upload of ten customers; an inertia that only depends on
  the number of rows and clusters.
\<close>

definition sample_zip :: "(string, unit) zip_file" where
  "sample_zip = \<lparr>namelist = [''readme.txt'', ''data.csv'', ''old.csv''],
      read_csv = (\<lambda>f. if f = ''data.csv'' then sample_upload else [])\<rparr>"

definition ten_upload :: "(string, unit) raw_row frame" where
  "ten_upload = map (\<lambda>c. sample_row ''536365'' 1 ''2010-12-01'' 4 (Some (real c))) [1..<11]"

definition ten_zip :: "(string, unit) zip_file" where
  "ten_zip = \<lparr>namelist = [''data.csv''], read_csv = (\<lambda>f. ten_upload)\<rparr>"

definition sample_inertia :: inertia where
  "sample_inertia k X = real (length X) / real k"

lemmas page_defs = csv_files_def selectbox_def shown_columns_def customer_details_def
  fit_inertia_def elbow_def tabs_def page_def sample_zip_def sample_inertia_def
  ten_upload_def ten_zip_def

section \<open>Facts about the archive\<close>

lemma csv_files_Nil_iff: "csv_files names = [] \<longleftrightarrow> (\<forall>f\<in>set names. \<not> suffix ''.csv'' f)"
  by (simp add: csv_files_def filter_empty_conv)

lemma csv_files_Cons:
  "csv_files names = f # fs \<Longrightarrow>
     suffix ''.csv'' f \<and> (\<exists>us vs. names = us @ f # vs \<and> (\<forall>u\<in>set us. \<not> suffix ''.csv'' u))"
  unfolding csv_files_def by (auto simp: filter_eq_Cons_iff)

lemma sample_csv_files: "csv_files (namelist sample_zip) = [''data.csv'', ''old.csv'']"
  by (simp add: page_defs suffix_to_prefix)

section \<open>Facts about the elbow loop\<close>

lemma fit_inertia_Inr_iff:
  "fit_inertia inertia k X = Inr w \<longleftrightarrow>
     X \<noteq> [] \<and> (\<forall>row\<in>set X. None \<notin> set row) \<and> k \<le> length X \<and> w = inertia k (map present X)"
  by (auto simp: fit_inertia_def list_ex_iff)

lemma elbow_loop_Inr_iff:
  "elbow_loop inertia X ks acc = Inr out \<longleftrightarrow>
     (\<forall>k\<in>set ks. X \<noteq> [] \<and> (\<forall>row\<in>set X. None \<notin> set row) \<and> k \<le> length X) \<and>
     out = acc @ map (\<lambda>k. inertia k (map present X)) ks"
  by (induction ks arbitrary: acc) (auto simp: bind_result_Inr_iff fit_inertia_Inr_iff)

lemma elbow_loop_Inl: "elbow_loop inertia X ks acc = Inl e \<Longrightarrow> e = ValueError"
  by (induction ks arbitrary: acc)
    (auto simp: bind_result_Inl_iff fit_inertia_def split: if_splits)

lemma elbow_Inr_iff:
  "elbow inertia X = Inr out \<longleftrightarrow>
     10 \<le> length X \<and> (\<forall>row\<in>set X. None \<notin> set row) \<and>
     out = map (\<lambda>k. inertia k (map present X)) [1..<11]"
proof -
  have "(\<forall>k\<in>set [1..<11]. X \<noteq> [] \<and> (\<forall>row\<in>set X. None \<notin> set row) \<and> k \<le> length X) \<longleftrightarrow>
      10 \<le> length X \<and> (\<forall>row\<in>set X. None \<notin> set row)"
    by (auto dest: bspec [of _ _ 10])
  then show ?thesis unfolding elbow_def elbow_loop_Inr_iff by simp
qed


lemma elbow_eq:
  "elbow inertia X =
     (if 10 \<le> length X \<and> list_all (\<lambda>row. None \<notin> set row) X
      then Inr (map (\<lambda>k. inertia k (map present X)) [1..<11]) else Inl ValueError)"
proof (cases "elbow inertia X")
  case (Inl e)
  then have "e = ValueError" unfolding elbow_def by (rule elbow_loop_Inl)
  with Inl show ?thesis using elbow_Inr_iff [of inertia X] by (auto simp: list_all_iff)
next
  case (Inr out)
  then show ?thesis by (auto simp: elbow_Inr_iff list_all_iff)
qed

section \<open>Facts about the customer tab\<close>

lemma filter_map_fst:
  "map (\<lambda>p. f (fst p)) (filter (\<lambda>p. P (fst p)) xs) = map f (filter P (map fst xs))"
  by (induction xs) simp_all

lemma customer_details_Some:
  assumes "distinct (map CustomerID tbl)" and "s \<in> set tbl" and "CustomerID s \<noteq> 0"
  shows "customer_details tbl joined (Some (CustomerID s)) =
     Inr (Some \<lparr>customer_rfm = s,
       cust_transactions =
         map shown_columns (filter (\<lambda>r. txn.CustomerID r = CustomerID s) (map fst joined))\<rparr>)"
  using filter_key_distinct [OF assms(1,2)] assms(3)
    filter_map_fst [of shown_columns "\<lambda>r. txn.CustomerID r = CustomerID s" joined]
  by (simp add: customer_details_def)

lemma customer_details_selectbox:
  "\<exists>c. customer_details tbl joined (selectbox (sort (map CustomerID tbl)) choice) = Inr c"
proof (cases "selectbox (sort (map CustomerID tbl)) choice")
  case None
  then show ?thesis by (simp add: customer_details_def)
next
  case (Some i)
  then have "i \<in> set (sort (map CustomerID tbl))"
    by (metis nth_mem option.inject option.distinct(1) selectbox_def)
  then have "filter (\<lambda>r. CustomerID r = i) tbl \<noteq> []"
    by (auto simp: filter_empty_conv)
  with Some show ?thesis
    by (cases "filter (\<lambda>r. CustomerID r = i) tbl") (simp_all add: customer_details_def)
qed

section \<open>Facts about the run\<close>

lemma analyse_rfm_scaled:
  assumes "valid_clusterer km" and "analyse to_datetime km df = Inr w"
  shows "length (rfm_scaled w) = card (customers to_datetime df)"
    and "list_all (\<lambda>row. None \<notin> set row) (rfm_scaled w)"
proof -
  let ?R = "rfm_table (wrangle_rows to_datetime df)"
  from assms(2) have seg: "segment km ?R = Inr (rfm w)"
    and Z: "fit_transform (rfm_features ?R) = Inr (rfm_scaled w)"
    by (auto simp: analyse_Inr_iff)
  from Z show "length (rfm_scaled w) = card (customers to_datetime df)"
    by (simp add: length_fit_transform length_rfm_table_customers)
  from seg have "\<forall>r\<in>set ?R. Recency r \<noteq> None" by (simp add: segment_Inr_iff)
  then have "\<not> (\<exists>row\<in>set (rfm_features ?R). None \<in> set row)"
    by (simp add: rfm_features_None_iff)
  then show "list_all (\<lambda>row. None \<notin> set row) (rfm_scaled w)"
    unfolding fit_transform_has_None_iff [OF Z, symmetric] by (simp add: list_all_iff)
qed

lemma tabs_eq:
  assumes "valid_clusterer km" and "analyse to_datetime km df = Inr w"
  shows "tabs inertia choice w =
     (if 10 \<le> card (customers to_datetime df)
      then Inr \<lparr>customer_ids = sorted_list_of_set (customers to_datetime df),
             customer = projr (customer_details (rfm w) (df_with_clusters w)
               (selectbox (sorted_list_of_set (customers to_datetime df)) choice)),
             summary = cluster_summary (rfm w),
             wcss = map (\<lambda>k. inertia k (map present (rfm_scaled w))) [1..<11]\<rparr>
      else Inl ValueError)"
proof -
  from analyse_rfm(2,4) [OF assms]
  have ids: "sort (map CustomerID (rfm w)) = sorted_list_of_set (customers to_datetime df)"
    by (simp add: group_keys_eq_sorted_list_of_set customers_def sorted_sort_id)
  obtain c where c: "customer_details (rfm w) (df_with_clusters w)
      (selectbox (sort (map CustomerID (rfm w))) choice) = Inr c"
    using customer_details_selectbox by blast
  then show ?thesis
    using analyse_rfm_scaled [OF assms] ids
    by (simp add: tabs_def Let_def elbow_eq)
qed


lemma page_eq:
  assumes "valid_clusterer km" and "csv_files (namelist z) = f # fs"
  shows "page to_datetime km inertia (Some z) choice =
     (if 10 \<le> card (customers to_datetime (read_csv z f)) \<and>
         (\<forall>c\<in>customers to_datetime (read_csv z f). dated to_datetime (read_csv z f) c)
      then Shown (projr (tabs inertia choice (projr (analyse to_datetime km (read_csv z f)))))
      else Raised ValueError)"
proof (cases "analyse to_datetime km (read_csv z f)")
  case (Inl e)
  with analyse_cases [of to_datetime km "read_csv z f"] have e: "e = ValueError" by simp
  with Inl analyse_Inl_iff [OF assms(1), of to_datetime "read_csv z f"]
  have "card (customers to_datetime (read_csv z f)) < 3 \<or>
      (\<exists>c\<in>customers to_datetime (read_csv z f). \<not> dated to_datetime (read_csv z f) c)"
    by simp
  then have "\<not> (10 \<le> card (customers to_datetime (read_csv z f)) \<and>
      (\<forall>c\<in>customers to_datetime (read_csv z f). dated to_datetime (read_csv z f) c))"
    by auto
  with Inl e assms(2) show ?thesis by (simp add: page_def)
next
  case (Inr w)
  with analyse_Inl_iff [OF assms(1), of to_datetime "read_csv z f"]
  have "\<forall>c\<in>customers to_datetime (read_csv z f). dated to_datetime (read_csv z f) c"
    by auto
  with Inr assms(2) tabs_eq [OF assms(1) Inr, of inertia choice] show ?thesis
    by (simp add: page_def)
qed

lemma page_Stopped_iff:
  "page to_datetime km inertia uploaded_zip choice = Stopped \<longleftrightarrow>
     (\<exists>z. uploaded_zip = Some z \<and> (\<forall>f\<in>set (namelist z). \<not> suffix ''.csv'' f))"
  by (auto simp: page_def csv_files_Nil_iff [symmetric] split: option.splits list.splits sum.splits)

lemma page_Info_iff:
  "page to_datetime km inertia uploaded_zip choice = Info \<longleftrightarrow> uploaded_zip = None"
  by (auto simp: page_def split: option.splits list.splits sum.splits)

lemma sample_page_raises:
  "page sample_to_datetime round_robin sample_inertia (Some sample_zip) choice = Raised ValueError"
  using page_eq [OF valid_round_robin sample_csv_files, of sample_to_datetime sample_inertia choice]
  by (simp add: sample_zip_def sample_customers)

section \<open>The samples\<close>

lemma ten_wrangle:
  "wrangle_rows sample_to_datetime ten_upload =
     map (\<lambda>c. sample_clean_row ''536365'' 1 (Some (14944 * one_day)) 4 (int c) 4) [1..<11]"
  by (simp add: ten_upload_def upt_rec [of _ 11] upt_rec [of _ 10] eval_defs numeral_eq_Suc)

lemma ten_customers: "customers sample_to_datetime ten_upload = {1..10}"
proof -
  have "customers sample_to_datetime ten_upload = int ` {1..<11}"
    by (simp add: customers_def ten_wrangle sample_clean_row_def image_image)
  also have "\<dots> = {1..10}"
    unfolding image_int_atLeastLessThan by auto
  finally show ?thesis .
qed

lemma ten_dated: "c \<in> {1..10} \<Longrightarrow> dated sample_to_datetime ten_upload c"
proof -
  assume "c \<in> {1..10}"
  then have "c \<in> int ` {1..<11}" unfolding image_int_atLeastLessThan by auto
  then show ?thesis
    by (auto simp: dated_def ten_wrangle list_ex_iff sample_clean_row_def)
qed

lemma ten_page_shown:
  "\<exists>v. page sample_to_datetime round_robin sample_inertia (Some ten_zip) choice = Shown v"
proof -
  have "csv_files (namelist ten_zip) = [''data.csv'']"
    by (simp add: ten_zip_def csv_files_def suffix_to_prefix)
  from page_eq [OF valid_round_robin this, of sample_to_datetime sample_inertia choice]
  show ?thesis by (simp add: ten_zip_def ten_customers ten_dated)
qed

section \<open>Properties of the page\<close>

text \<open>
  Property C9 (the page needs ten customers). When the archive has a CSV
  member and the clusterer meets its contract, the page is shown exactly when
  the upload has at least ten customers and each of them has a dated row; in
  every other case the script ends with \<open>ValueError\<close>. Three customers are
  enough for the segmentation, but the elbow loop fits up to ten clusters.
\<close>

theorem page_needs_ten_customers:
  assumes "valid_clusterer km" and "csv_files (namelist z) = f # fs"
  shows "((\<exists>v. page to_datetime km inertia (Some z) choice = Shown v) \<longleftrightarrow>
       10 \<le> card (customers to_datetime (read_csv z f)) \<and>
       (\<forall>c\<in>customers to_datetime (read_csv z f). dated to_datetime (read_csv z f) c)) \<and>
     (page to_datetime km inertia (Some z) choice = Raised ValueError \<longleftrightarrow>
       card (customers to_datetime (read_csv z f)) < 10 \<or>
       (\<exists>c\<in>customers to_datetime (read_csv z f). \<not> dated to_datetime (read_csv z f) c))"
  unfolding page_eq [OF assms] by (auto simp: not_le)

theorem page_needs_ten_customers_witness:
  "analyse sample_to_datetime round_robin sample_upload = Inr sample_workspace \<and>
   page sample_to_datetime round_robin sample_inertia (Some sample_zip) 0 = Raised ValueError"
  using page_needs_ten_customers [OF valid_round_robin sample_csv_files,
      of sample_to_datetime sample_inertia 0]
  by (simp add: sample_analyse sample_zip_def sample_customers)

text \<open>
  The loop over 1 to 10 clusters returns the ten
  inertias in the order of the loop when the scaled matrix has at least ten
  rows and no missing cell, and raises \<open>ValueError\<close> otherwise.
\<close>

theorem elbow_needs_ten_samples:
  "elbow inertia X =
     (if 10 \<le> length X \<and> list_all (\<lambda>row. None \<notin> set row) X
      then Inr (map (\<lambda>k. inertia k (map present X)) [1..<11]) else Inl ValueError)"
  by (rule elbow_eq)

theorem elbow_needs_ten_samples_witness:
  "elbow sample_inertia sample_scaled = Inl ValueError \<and>
   elbow sample_inertia (replicate 10 [Some 0]) =
     Inr [10, 5, 10 / 3, 5 / 2, 2, 5 / 3, 10 / 7, 5 / 4, 10 / 9, 1]"
  using elbow_needs_ten_samples [of sample_inertia sample_scaled]
    elbow_needs_ten_samples [of sample_inertia "replicate 10 [Some 0]"]
  by (simp add: sample_scaled_def sample_inertia_def upt_rec [of _ 11] upt_rec [of _ 10]
      numeral_eq_Suc)

text \<open>
  Property C35 (what the page shows). When the page is shown, the options of
  the customer selector are the customers of the upload in ascending order
  without repetition, the elbow plot has ten points, and the summary has at
  most three rows whose counts add up to the number of customers.
\<close>

theorem page_shown_view:
  assumes "valid_clusterer km" and "csv_files (namelist z) = f # fs"
    and "page to_datetime km inertia (Some z) choice = Shown v"
  shows "customer_ids v = sorted_list_of_set (customers to_datetime (read_csv z f)) \<and>
     length (wcss v) = 10 \<and> length (summary v) \<le> 3 \<and>
     sum_list (map Customer_Count (summary v)) = card (customers to_datetime (read_csv z f))"
proof -
  from assms(3) have ten: "10 \<le> card (customers to_datetime (read_csv z f))"
    and v: "v = projr (tabs inertia choice (projr (analyse to_datetime km (read_csv z f))))"
    unfolding page_eq [OF assms(1,2)] by (simp_all split: if_splits)
  from ten have "analyse to_datetime km (read_csv z f) \<noteq> Inl ValueError \<or>
      (\<exists>c\<in>customers to_datetime (read_csv z f). \<not> dated to_datetime (read_csv z f) c)"
    by (auto simp: analyse_Inl_iff [OF assms(1)])
  moreover from assms(3) have
    "\<forall>c\<in>customers to_datetime (read_csv z f). dated to_datetime (read_csv z f) c"
    unfolding page_eq [OF assms(1,2)] by (simp split: if_splits)
  ultimately obtain w where w: "analyse to_datetime km (read_csv z f) = Inr w"
    using analyse_cases [of to_datetime km "read_csv z f"] by blast
  from ten v show ?thesis
    by (simp add: w tabs_eq [OF assms(1) w] analyse_summary [OF assms(1) w])
qed

theorem page_shown_view_witness:
  "\<exists>v. page sample_to_datetime round_robin sample_inertia (Some ten_zip) 0 = Shown v \<and>
     customer_ids v = [1, 2, 3, 4, 5, 6, 7, 8, 9, 10] \<and> length (wcss v) = 10 \<and>
     length (summary v) \<le> 3 \<and> sum_list (map Customer_Count (summary v)) = 10"
proof -
  have csv: "csv_files (namelist ten_zip) = [''data.csv'']"
    by (simp add: ten_zip_def csv_files_def suffix_to_prefix)
  have "sorted_list_of_set (set [1..10::int]) = [1..10]"
    by (rule sorted_list_of_set.idem_if_sorted_distinct) simp_all
  then have ids: "sorted_list_of_set {1..10::int} = [1, 2, 3, 4, 5, 6, 7, 8, 9, 10]"
    by (simp add: upto_rec1)
  obtain v where v: "page sample_to_datetime round_robin sample_inertia (Some ten_zip) 0 = Shown v"
    using ten_page_shown by blast
  from page_shown_view [OF valid_round_robin csv v] v ids show ?thesis
    by (simp add: ten_zip_def ten_customers)
qed

text \<open>
  Property C34 (the customer tab). For a customer of the upload other than 0,
  the tab shows the segment row of that customer and the cleaned transactions
  of that customer, in their order, reduced to the seven columns. For the
  customer 0 the tab shows nothing, because the identifier is tested for truth.
\<close>

theorem customer_tab_selected:
  assumes "valid_clusterer km" and "analyse to_datetime km df = Inr w"
    and "i \<in> customers to_datetime df"
  shows "\<exists>s\<in>set (rfm w). CustomerID s = i \<and>
     customer_details (rfm w) (df_with_clusters w) (Some i) =
       (if i = 0 then Inr None
        else Inr (Some \<lparr>customer_rfm = s,
          cust_transactions =
            map shown_columns (filter (\<lambda>r. txn.CustomerID r = i) (df_clean w))\<rparr>))"
proof -
  note ids = analyse_rfm(4) [OF assms(1,2)]
  from assms(3) have "i \<in> set (map CustomerID (rfm w))"
    unfolding ids by (simp add: customers_def analyse_rfm(2) [OF assms(1,2)])
  then obtain s where s: "s \<in> set (rfm w)" "CustomerID s = i" by auto
  from ids have "distinct (map CustomerID (rfm w))" by simp
  from customer_details_Some [OF this s(1), of "df_with_clusters w"] s
  show ?thesis
    by (auto simp: analyse_join(1) [OF assms(1,2)] customer_details_def)
qed

theorem customer_tab_selected_witness:
  "customer_details (rfm sample_workspace) (df_with_clusters sample_workspace) (Some 13047) =
     Inr (Some \<lparr>customer_rfm = segmented (sample_segment_rfm ! 1) 1,
       cust_transactions = map shown_columns [sample_upload_clean ! 2, sample_upload_clean ! 3]\<rparr>)"
  using customer_tab_selected [OF valid_round_robin sample_analyse, of 13047]
  by (simp add: sample_customers) (simp add: sample_workspace_def summary_defs eval_defs)

text \<open>
  The page stops with the message that no CSV was
  found exactly when an archive was uploaded and no member name ends in
  \<open>.csv\<close>; it asks for an upload exactly when there is none.
\<close>

theorem page_stops_without_csv:
  "(page to_datetime km inertia uploaded_zip choice = Stopped \<longleftrightarrow>
      (\<exists>z. uploaded_zip = Some z \<and> (\<forall>f\<in>set (namelist z). \<not> suffix ''.csv'' f))) \<and>
   (page to_datetime km inertia uploaded_zip choice = Info \<longleftrightarrow> uploaded_zip = None)"
  by (simp only: page_Stopped_iff page_Info_iff)

theorem page_stops_without_csv_witness:
  "page sample_to_datetime round_robin sample_inertia
     (Some \<lparr>namelist = [''readme.txt'', ''data.CSV''], read_csv = (\<lambda>f. sample_upload)\<rparr>) 0 = Stopped"
  using page_stops_without_csv [of sample_to_datetime round_robin sample_inertia
      "Some \<lparr>namelist = [''readme.txt'', ''data.CSV''], read_csv = (\<lambda>f. sample_upload)\<rparr>" 0]
  by (simp add: suffix_to_prefix)

end
