(* ===== verification/Format.thy ===== *)
theory Format
  imports Summary
begin

text \<open>
  The text that the f-strings of the customer tab make of a number
  (\<open>src/customer_rfm.py\<close>, lines 86-90): \<open>str\<close> of an integer, \<open>str\<close> of a float
  that holds a whole number, \<open>nan\<close> for a missing cell, and the format \<open>.2f\<close>.
\<close>

section \<open>Integers\<close>

text \<open>\<open>str(n)\<close> for a natural number: its decimal digits, the most significant first.\<close>

definition digit :: "nat \<Rightarrow> char" where
  "digit d = ''0123456789'' ! d"

fun show_nat :: "nat \<Rightarrow> string" where
  "show_nat n = (if n < 10 then [digit n] else show_nat (n div 10) @ [digit (n mod 10)])"

declare show_nat.simps [simp del]

definition show_int :: "int \<Rightarrow> string" where
  "show_int i = (if i < 0 then CHR ''-'' # show_nat (nat (- i)) else show_nat (nat i))"

section \<open>Floats\<close>

text \<open>
  \<open>str\<close> of a cell of a float column that holds whole numbers of days: \<open>nan\<close> for
  a missing cell, else the integer followed by \<open>.0\<close> (the positional notation
  that Python uses below \<open>10\<^sup>1\<^sup>6\<close>; a number of days is below \<open>10\<^sup>6\<close>).
\<close>

definition show_float_days :: "int option \<Rightarrow> string" where
  "show_float_days d = (case d of None \<Rightarrow> ''nan'' | Some n \<Rightarrow> show_int n @ ''.0'')"

text \<open>
  The format \<open>.2f\<close>: the number rounded to hundredths, half to even, with two
  digits after the point; the sign is that of the number before rounding.
\<close>

definition format_2f :: "real \<Rightarrow> string" where
  "format_2f x =
     (let q = nat (round_half_even (\<bar>x\<bar> * 100))
      in (if x < 0 then ''-'' else []) @
         show_nat (q div 100) @ ''.'' @ [digit (q mod 100 div 10), digit (q mod 10)])"

text \<open>Reading digits back, for the statement of what the formats preserve.\<close>

definition digit_value :: "char \<Rightarrow> nat" where
  "digit_value c = of_char c - 48"

definition read_nat :: "string \<Rightarrow> nat" where
  "read_nat s = foldl (\<lambda>n c. 10 * n + digit_value c) 0 s"

text \<open>The number that a text in the format \<open>.2f\<close> denotes.\<close>

definition read_2f :: "string \<Rightarrow> real" where
  "read_2f s =
     (let negative = (take 1 s = ''-'');
          body = (if negative then drop 1 s else s);
          whole = takeWhile (\<lambda>c. c \<noteq> CHR ''.'') body;
          cents = drop (length whole + 1) body
      in (if negative then - 1 else 1) * (real (read_nat whole) + real (read_nat cents) / 100))"

lemmas format_defs = digit_def show_int_def show_float_days_def format_2f_def digit_value_def
  read_nat_def read_2f_def

section \<open>Digits\<close>

lemma digit_value_digit [simp]: "d < 10 \<Longrightarrow> digit_value (digit d) = d"
proof -
  assume "d < 10"
  then consider "d = 0" | "d = 1" | "d = 2" | "d = 3" | "d = 4" | "d = 5" | "d = 6" | "d = 7"
    | "d = 8" | "d = 9"
    by atomize_elim presburger
  then show ?thesis
    by cases (simp_all add: digit_def digit_value_def)
qed

lemma show_nat_digit: "n < 10 \<Longrightarrow> show_nat n = [digit n]"
  by (simp add: show_nat.simps)

lemma show_nat_step: "10 \<le> n \<Longrightarrow> show_nat n = show_nat (n div 10) @ [digit (n mod 10)]"
  by (subst show_nat.simps) simp

lemma show_nat_nonempty [simp]: "show_nat n \<noteq> []"
  by (subst show_nat.simps) simp

lemma read_nat_short [simp]:
  "read_nat [] = 0" "read_nat [c] = digit_value c"
  "read_nat [c, c'] = 10 * digit_value c + digit_value c'"
  by (simp_all add: read_nat_def)

lemma read_nat_snoc [simp]: "read_nat (s @ [c]) = 10 * read_nat s + digit_value c"
  by (simp add: read_nat_def)

text \<open>\<open>int(str(n)) = n\<close>.\<close>

lemma read_show_nat [simp]: "read_nat (show_nat n) = n"
proof (induction n rule: show_nat.induct)
  case (1 n)
  show ?case
  proof (cases "n < 10")
    case True
    then show ?thesis
      by (simp add: show_nat_digit)
  next
    case False
    with 1 show ?thesis
      by (simp add: show_nat_step)
  qed
qed

lemma show_nat_inj: "show_nat m = show_nat n \<Longrightarrow> m = n"
  by (metis read_show_nat)

section \<open>Rounding\<close>

lemma round_half_even_minus: "round_half_even (- x) = - round_half_even x"
proof (cases "x = of_int \<lfloor>x\<rfloor>")
  case True
  then obtain i where "x = of_int i" ..
  then have "- x = of_int (- i)" by simp
  then show ?thesis
    unfolding \<open>x = of_int i\<close> by (simp only: round_half_even_of_int)
next
  case False
  then have fl: "\<lfloor>- x\<rfloor> = - \<lfloor>x\<rfloor> - 1"
    using ceiling_altdef [of x] by (simp add: ceiling_def)
  have "x - of_int \<lfloor>x\<rfloor> < 1" "0 \<le> x - of_int \<lfloor>x\<rfloor>"
    by linarith+
  then show ?thesis
    unfolding round_half_even_def Let_def fl by (auto simp: field_simps)
qed

lemma round_half_even_nonneg: "0 \<le> x \<Longrightarrow> 0 \<le> round_half_even x"
  unfolding round_half_even_def Let_def by (auto simp: field_simps)

section \<open>The format \<open>.2f\<close>\<close>

lemma digit_in_digits: "d < 10 \<Longrightarrow> digit d \<in> set ''0123456789''"
  unfolding digit_def by (rule nth_mem) simp

lemma show_nat_digits: "c \<in> set (show_nat n) \<Longrightarrow> c \<in> set ''0123456789''"
proof (induction n rule: show_nat.induct)
  case (1 n)
  show ?case
  proof (cases "n < 10")
    case True
    with 1(2) show ?thesis
      using digit_in_digits [of n] by (simp add: show_nat_digit)
  next
    case False
    with 1 digit_in_digits [of "n mod 10"] show ?thesis
      by (auto simp: show_nat_step)
  qed
qed

lemma read_2f_digits:
  assumes "d < 10" and "e < 10"
  shows "read_2f (show_nat a @ ''.'' @ [digit d, digit e]) = real a + real (10 * d + e) / 100"
    and "read_2f (''-'' @ show_nat a @ ''.'' @ [digit d, digit e]) =
      - (real a + real (10 * d + e) / 100)"
proof -
  have no_point: "\<forall>c\<in>set (show_nat a). c \<noteq> CHR ''.''"
    using show_nat_digits [of _ a] by auto
  have "hd (show_nat a) \<in> set ''0123456789''"
    by (rule show_nat_digits [of _ a]) (simp add: hd_in_set)
  then have no_sign: "hd (show_nat a) \<noteq> CHR ''-''"
    by auto
  from no_point have whole: "takeWhile (\<lambda>c. c \<noteq> CHR ''.'') (show_nat a @ ''.'' @ [digit d, digit e]) =
      show_nat a"
    by (simp add: takeWhile_tail)
  from no_sign have "take 1 (show_nat a @ ''.'' @ [digit d, digit e]) \<noteq> ''-''"
    by (cases "show_nat a") simp_all
  with whole assms show "read_2f (show_nat a @ ''.'' @ [digit d, digit e]) =
      real a + real (10 * d + e) / 100"
    by (simp add: read_2f_def Let_def)
  from whole assms show "read_2f (''-'' @ show_nat a @ ''.'' @ [digit d, digit e]) =
      - (real a + real (10 * d + e) / 100)"
    by (simp add: read_2f_def Let_def)
qed

text \<open>
  The text in the format \<open>.2f\<close> denotes the number rounded to hundredths, which
  is within half a hundredth of the number.
\<close>

lemma cents_digits: "10 * (q mod 100 div 10) + q mod 10 = q mod (100::nat)"
proof -
  have "q mod 100 mod 10 = q mod 10"
    by (simp add: mod_mod_cancel)
  then show ?thesis
    using mult_div_mod_eq [of 10 "q mod 100"] by simp
qed

lemma hundredths:
  fixes q :: nat
  shows "real (q div 100) + real (q mod 100) / 100 = real q / 100"
proof -
  have "real q = real (q div 100 * 100 + q mod 100)"
    by simp
  also have "\<dots> = real (q div 100) * 100 + real (q mod 100)"
    by (simp only: of_nat_add of_nat_mult of_nat_numeral)
  finally show ?thesis
    by (simp add: field_simps)
qed

lemma round_half_even_abs: "round_half_even \<bar>x\<bar> = \<bar>round_half_even x\<bar>"
proof (cases "x < 0")
  case True
  then have "0 \<le> round_half_even (- x)"
    by (intro round_half_even_nonneg) simp
  with True show ?thesis
    by (simp add: round_half_even_minus)
next
  case False
  then have "0 \<le> round_half_even x"
    by (intro round_half_even_nonneg) simp
  with False show ?thesis
    by simp
qed

lemma read_format_2f: "read_2f (format_2f x) = round2 x"
proof -
  define q where "q = nat (round_half_even (\<bar>x\<bar> * 100))"
  have digits: "q mod 100 div 10 < 10" "q mod 10 < 10"
    by simp_all
  have "real q = \<bar>of_int (round_half_even (x * 100))\<bar>"
    using round_half_even_abs [of "x * 100"] by (simp add: q_def abs_mult)
  then have amount: "real (q div 100) + real (10 * (q mod 100 div 10) + q mod 10) / 100 =
      \<bar>round2 x\<bar>"
    unfolding cents_digits hundredths by (simp add: round2_def)
  have shown: "format_2f x = (if x < 0 then ''-'' else []) @ show_nat (q div 100) @ ''.'' @
      [digit (q mod 100 div 10), digit (q mod 10)]"
    by (simp add: format_2f_def Let_def q_def)
  show ?thesis
  proof (cases "x < 0")
    case True
    then have "round_half_even (x * 100) \<le> 0"
      using round_half_even_nonneg [of "- (x * 100)"] round_half_even_minus [of "x * 100"]
      by simp
    then have "round2 x \<le> 0"
      by (simp add: round2_def divide_nonpos_pos)
    with True amount read_2f_digits(2) [OF digits, of "q div 100"] show ?thesis
      by (simp add: shown)
  next
    case False
    then have "0 \<le> round_half_even (x * 100)"
      by (intro round_half_even_nonneg) simp
    then have "0 \<le> round2 x"
      by (simp add: round2_def)
    with False amount read_2f_digits(1) [OF digits, of "q div 100"] show ?thesis
      by (simp add: shown)
  qed
qed

section \<open>Samples\<close>

lemma sample_formats: "show_nat 17850 = ''17850''" "show_int (- 12) = ''-12''"
  "format_2f (31 / 2) = ''15.50''" "format_2f (1 / 8) = ''0.12''" "format_2f (- 1 / 1000) = ''-0.00''"
  by (simp_all add: show_nat.simps format_defs round_half_even_def Let_def)

section \<open>Properties of the formats\<close>

text \<open>
  Property C31 (round trip). The text that the format \<open>.2f\<close> makes of a number
  reads back as the number rounded to hundredths, half to even, so that the
  amount on the screen is within half a hundredth of the amount computed;
  this holds for negative numbers too, whose sign is printed even when the
  digits are all zero.
\<close>

theorem format_2f_roundtrip:
  "read_2f (format_2f x) = round2 x \<and> \<bar>read_2f (format_2f x) - x\<bar> \<le> 1 / 200"
  by (simp only: read_format_2f round2_error simp_thms)

end
