(* ===== verification/Render.thy ===== *)
theory Render
  imports Page Format
begin

text \<open>
  What one run of \<open>src/customer_rfm.py\<close> puts on the screen, call by call.

  Streamlit shows an element as soon as the script calls it, so a run that
  ends in an exception leaves on the screen what was called before. A run is
  therefore the list of the elements in the order of the calls, each with the
  container it was called in (the page or one of the four tabs), and the way
  the run ended. An element is the call with its arguments: the texts of the
  source (a text is the list of the bytes of its UTF-8 encoding), the options
  of the selector, the table given to \<open>st.dataframe\<close>, the data and the
  parameters of a plot. The theory defines the elements of each tab, composes
  them as the script does, and relates the run to the outcome \<open>Page.page\<close>.
\<close>

section \<open>Elements\<close>

datatype container = Main | Tab_overview | Tab_customer | Tab_summary | Tab_viz

datatype table =
    Transactions "(timestamp option, unit) priced_txn frame"
  | Cluster_summary "summary_row frame"

text \<open>
  \<open>sns.pairplot(rfm, hue=_, palette=_, markers=_)\<close> under \<open>sns.set(style=_)\<close>
  (lines 120-121), and the line plot of lines 130-134 with its marker, the
  labels of the axes and the title.
\<close>

datatype figure =
    Pairplot string "segmented_row frame" string string "string list"
  | Line_plot "nat list" "real list" string string string string

datatype element =
    St_set_page_config string string
  | St_title string
  | St_file_uploader string "string list"
  | St_error string
  | St_info string
  | St_tabs "string list"
  | St_header string
  | St_subheader string
  | St_markdown string
  | St_selectbox string "int list"
  | St_dataframe table
  | St_pyplot figure

type_synonym screen = "(container \<times> element) list"

text \<open>
  A part of the script gives its elements and, when it raised, the exception;
  the parts run one after the other until one raises.
\<close>

type_synonym part = "screen \<times> error option"

definition then_part :: "part \<Rightarrow> part \<Rightarrow> part" where
  "then_part p q = (case snd p of Some e \<Rightarrow> p | None \<Rightarrow> (fst p @ fst q, snd q))"

text \<open>
  How a run ends: the script reaches its end, \<open>st.stop()\<close> ends it (line 33), or
  an exception does.
\<close>

datatype outcome = Completed | Halted | Uncaught error

section \<open>The texts of the source\<close>

definition title_text :: string where
  "title_text =
     [CHR 0xF0, CHR 0x9F, CHR 0x9B, CHR 0x8D, CHR 0xEF, CHR 0xB8, CHR 0x8F, CHR 0xF0, CHR 0x9F,
      CHR 0x9B, CHR 0x92] @ '' Customer Segmentation Using RFM Analysis''"

definition tab_labels :: "string list" where
  "tab_labels =
     [[CHR 0xF0, CHR 0x9F, CHR 0x93, CHR 0x84] @ '' Overview'',
      [CHR 0xF0, CHR 0x9F, CHR 0x91, CHR 0xA4] @ '' Customer Details'',
      [CHR 0xF0, CHR 0x9F, CHR 0x93, CHR 0x8B] @ '' Cluster Summary'',
      [CHR 0xF0, CHR 0x9F, CHR 0x93, CHR 0x8A] @ '' Data Visualization'']"

definition overview_text :: string where
  "overview_text =
     [CHR 0x0A] @
     ''        This app segments customers based on Recency, Frequency, and Monetary (RFM) metrics, using KMeans clustering.'' @
     [CHR 0x0A] @ ''        '' @ [CHR 0x0A] @
     ''        - **Recency:** Days since last purchase'' @ [CHR 0x0A] @
     ''        - **Frequency:** Number of purchases'' @ [CHR 0x0A] @
     ''        - **Monetary:** Total spending'' @ [CHR 0x0A] @ ''        '' @ [CHR 0x0A] @
     ''        Use the tabs to explore individual customers, see summary statistics, or explore data visualizations.'' @
     [CHR 0x0A] @ ''        ''"

definition insights_text :: string where
  "insights_text =
     [CHR 0x0A] @
     ''        - **VIP Customers:** Low recency, high frequency, and very high monetary value.'' @
     [CHR 0x0A] @
     ''        - **Loyal Customers:** Moderate recency and frequency with good spending.'' @
     [CHR 0x0A] @ ''        - **Sleeping Customers:** High recency (haven'' @ [CHR 0x27] @
     ''t purchased recently), low frequency, and low monetary value.'' @ [CHR 0x0A] @ ''        ''"

section \<open>The parts of the script\<close>

text \<open>Lines 11-15: the configuration, the title and the uploader.\<close>

definition preamble :: screen where
  "preamble =
     [(Main, St_set_page_config ''Customer Segmentation RFM'' ''wide''),
      (Main, St_title title_text),
      (Main, St_file_uploader ''Upload ZIP file with your data (CSV inside)'' [''zip''])]"

text \<open>Lines 63-77: the tab bar and the overview.\<close>

definition overview_tab :: part where
  "overview_tab =
     ([(Main, St_tabs tab_labels),
       (Tab_overview, St_header ''Customer Segmentation Overview''),
       (Tab_overview, St_markdown overview_text)], None)"

text \<open>
  Lines 87-88, the cells of the selected row in an f-string. A name that is
  missing prints as \<open>nan\<close>. The recency column holds integers when no cell of
  it is missing and floats otherwise.
\<close>

definition cluster_text :: "string option \<Rightarrow> string" where
  "cluster_text name = (case name of Some s \<Rightarrow> s | None \<Rightarrow> ''nan'')"

definition recency_text :: "segmented_row frame \<Rightarrow> int option \<Rightarrow> string" where
  "recency_text tbl d =
     (case d of
        Some n \<Rightarrow> if list_all (\<lambda>r. Recency r \<noteq> None) tbl then show_int n else show_float_days d
      | None \<Rightarrow> show_float_days d)"

text \<open>Lines 86-94: what is shown of the selected customer.\<close>

definition customer_elements :: "segmented_row frame \<Rightarrow> int \<Rightarrow> customer_view \<Rightarrow> screen" where
  "customer_elements tbl selected_id v =
     [(Tab_customer, St_markdown (''### Customer ID: '' @ show_int selected_id)),
      (Tab_customer, St_markdown (''**Cluster:** '' @
         cluster_text (segmented_row.ClusterName (customer_rfm v)))),
      (Tab_customer, St_markdown (''- Recency (days since last purchase): '' @
         recency_text tbl (Recency (customer_rfm v)))),
      (Tab_customer, St_markdown (''- Frequency (purchase count): '' @
         show_nat (Frequency (customer_rfm v)))),
      (Tab_customer, St_markdown (''- Monetary (total spend): $'' @
         format_2f (Monetary (customer_rfm v)))),
      (Tab_customer, St_subheader ''Transactions''),
      (Tab_customer, St_dataframe (Transactions (cust_transactions v)))]"

text \<open>Lines 79-94: the customer tab.\<close>

definition customer_tab ::
  "segmented_row frame \<Rightarrow> ('z clean_row \<times> segmented_row option) frame \<Rightarrow> nat \<Rightarrow> part" where
  "customer_tab tbl joined choice =
     (let customer_ids = sort (map CustomerID tbl);
          selected_id = selectbox customer_ids choice;
          head = [(Tab_customer, St_header ''Customer Transaction & RFM Details''),
                  (Tab_customer, St_selectbox ''Select CustomerID'' customer_ids)]
      in case selected_id of
           None \<Rightarrow> (head, None)
         | Some i \<Rightarrow>
             (case customer_details tbl joined selected_id of
                Inl e \<Rightarrow> (head, Some e)
              | Inr None \<Rightarrow> (head, None)
              | Inr (Some v) \<Rightarrow> (head @ customer_elements tbl i v, None)))"

text \<open>Lines 96-114: the summary tab.\<close>

definition summary_tab :: "segmented_row frame \<Rightarrow> part" where
  "summary_tab tbl =
     ([(Tab_summary, St_header ''Cluster Summary & Insights''),
       (Tab_summary, St_dataframe (Cluster_summary (cluster_summary tbl))),
       (Tab_summary, St_markdown ''### Insights:''),
       (Tab_summary, St_markdown insights_text)], None)"

text \<open>
  Lines 116-135: the pair plot and the elbow plot. The loop of the elbow plot
  runs, and may raise, after the pair plot is shown.
\<close>

definition viz_tab :: "inertia \<Rightarrow> segmented_row frame \<Rightarrow> real option list list \<Rightarrow> part" where
  "viz_tab inertia tbl X =
     (let head = [(Tab_viz, St_header ''Data Visualizations''),
                  (Tab_viz, St_subheader ''RFM Metrics Distribution by Cluster''),
                  (Tab_viz, St_pyplot
                     (Pairplot ''whitegrid'' tbl ''ClusterName'' ''Set2'' [''o'', ''s'', ''D''])),
                  (Tab_viz, St_subheader ''Elbow Method to Find Optimal Clusters'')]
      in case elbow inertia X of
           Inl e \<Rightarrow> (head, Some e)
         | Inr ys \<Rightarrow>
             (head @ [(Tab_viz, St_pyplot (Line_plot [1..<11] ys ''o'' ''Number of Clusters''
                         ''WCSS'' ''Elbow Method''))], None))"

text \<open>Lines 62-135: the tabs, in the order of the script.\<close>

definition render_tabs :: "inertia \<Rightarrow> nat \<Rightarrow> 'z workspace \<Rightarrow> part" where
  "render_tabs inertia choice w =
     then_part overview_tab
       (then_part (customer_tab (rfm w) (df_with_clusters w) choice)
          (then_part (summary_tab (rfm w)) (viz_tab inertia (rfm w) (rfm_scaled w))))"

text \<open>Lines 11-138: one run, with what it leaves on the screen.\<close>

definition script ::
  "('d \<Rightarrow> timestamp option) \<Rightarrow> clusterer \<Rightarrow> inertia \<Rightarrow> ('d, 'z) zip_file option \<Rightarrow> nat \<Rightarrow>
     screen \<times> outcome" where
  "script to_datetime km inertia uploaded_zip choice =
     (case uploaded_zip of
        None \<Rightarrow>
          (preamble @ [(Main, St_info
             ''Please upload a ZIP file containing the customer transactions CSV to proceed.'')],
           Completed)
      | Some zip_file \<Rightarrow>
          (case csv_files (namelist zip_file) of
             [] \<Rightarrow> (preamble @ [(Main, St_error ''No CSV found inside the ZIP.'')], Halted)
           | f # _ \<Rightarrow>
               (case analyse to_datetime km (read_csv zip_file f) of
                  Inl e \<Rightarrow> (preamble, Uncaught e)
                | Inr w \<Rightarrow>
                    (case render_tabs inertia choice w of
                       (shown, None) \<Rightarrow> (preamble @ shown, Completed)
                     | (shown, Some e) \<Rightarrow> (preamble @ shown, Uncaught e)))))"

section \<open>The outcome of a page\<close>

text \<open>The way the run ended, read off the outcome of theory \<open>Page\<close>.\<close>

definition outcome_of :: "page \<Rightarrow> outcome" where
  "outcome_of p =
     (case p of Info \<Rightarrow> Completed | Stopped \<Rightarrow> Halted | Raised e \<Rightarrow> Uncaught e
      | Shown v \<Rightarrow> Completed)"

lemmas render_defs = then_part_def preamble_def overview_tab_def cluster_text_def recency_text_def
  customer_elements_def customer_tab_def summary_tab_def viz_tab_def render_tabs_def script_def
  outcome_of_def

section \<open>Sequencing\<close>

lemma then_part_simps [simp]:
  "then_part (s, Some e) q = (s, Some e)"
  "then_part (s, None) (t, r) = (s @ t, r)"
  by (simp_all add: then_part_def)

lemma then_part_assoc: "then_part (then_part p q) r = then_part p (then_part q r)"
  by (cases p; cases q; cases r) (auto simp: then_part_def split: option.splits)

lemma snd_then_part: "snd (then_part p q) = (case snd p of Some e \<Rightarrow> Some e | None \<Rightarrow> snd q)"
  by (simp add: then_part_def split: option.splits)

lemma fst_then_part_prefix: "prefix (fst p) (fst (then_part p q))"
  by (simp add: then_part_def split: option.splits)

section \<open>The tabs\<close>

lemma snd_customer_tab:
  "snd (customer_tab tbl joined choice) =
     (case customer_details tbl joined (selectbox (sort (map CustomerID tbl)) choice) of
        Inl e \<Rightarrow> Some e | Inr c \<Rightarrow> None)"
  by (simp add: customer_tab_def customer_details_def Let_def split: sum.splits option.splits)

lemma customer_tab_completes: "snd (customer_tab tbl joined choice) = None"
  using customer_details_selectbox [of tbl joined choice] by (auto simp: snd_customer_tab)

lemma snd_viz_tab:
  "snd (viz_tab inertia tbl X) = (case elbow inertia X of Inl e \<Rightarrow> Some e | Inr ys \<Rightarrow> None)"
  by (simp add: viz_tab_def Let_def split: sum.splits)

text \<open>The tabs end as the model of theory \<open>Page\<close> says.\<close>

lemma snd_render_tabs:
  "snd (render_tabs inertia choice w) =
     (case tabs inertia choice w of Inl e \<Rightarrow> Some e | Inr v \<Rightarrow> None)"
proof -
  obtain c where "customer_details (rfm w) (df_with_clusters w)
      (selectbox (sort (map CustomerID (rfm w))) choice) = Inr c"
    using customer_details_selectbox by blast
  then show ?thesis
    by (simp add: render_tabs_def snd_then_part overview_tab_def summary_tab_def
        customer_tab_completes snd_viz_tab tabs_def Let_def split: sum.splits)
qed

text \<open>Whatever the elbow loop does, the summary is on the screen.\<close>

lemma render_tabs_shows_summary:
  "(Tab_summary, St_dataframe (Cluster_summary (cluster_summary (rfm w)))) \<in>
     set (fst (render_tabs inertia choice w))"
proof -
  obtain s where s: "customer_tab (rfm w) (df_with_clusters w) choice = (s, None)"
    using customer_tab_completes [of "rfm w" "df_with_clusters w" choice]
    by (cases "customer_tab (rfm w) (df_with_clusters w) choice") simp
  obtain t r where "viz_tab inertia (rfm w) (rfm_scaled w) = (t, r)"
    by (cases "viz_tab inertia (rfm w) (rfm_scaled w)")
  with s show ?thesis
    by (simp add: render_tabs_def overview_tab_def summary_tab_def)
qed

section \<open>The run\<close>

lemma render_tabs_outcome:
  "(case render_tabs inertia choice w of
      (shown, None) \<Rightarrow> (preamble @ shown, Completed)
    | (shown, Some e) \<Rightarrow> (preamble @ shown, Uncaught e)) =
   (preamble @ fst (render_tabs inertia choice w),
    case tabs inertia choice w of Inl e \<Rightarrow> Uncaught e | Inr v \<Rightarrow> Completed)"
  using snd_render_tabs [of inertia choice w]
  by (cases "render_tabs inertia choice w") (auto split: sum.splits option.splits)

lemma script_analysed:
  assumes "csv_files (namelist z) = f # fs" and "analyse to_datetime km (read_csv z f) = Inr w"
  shows "script to_datetime km inertia (Some z) choice =
     (preamble @ fst (render_tabs inertia choice w),
      case tabs inertia choice w of Inl e \<Rightarrow> Uncaught e | Inr v \<Rightarrow> Completed)"
  using assms by (simp add: script_def render_tabs_outcome)

lemma tabs_outcome:
  "(case tabs inertia choice w of Inl e \<Rightarrow> Uncaught e | Inr v \<Rightarrow> Completed) =
   (case elbow inertia (rfm_scaled w) of Inl e \<Rightarrow> Uncaught e | Inr ys \<Rightarrow> Completed)"
proof -
  obtain c where "customer_details (rfm w) (df_with_clusters w)
      (selectbox (sort (map CustomerID (rfm w))) choice) = Inr c"
    using customer_details_selectbox by blast
  then show ?thesis
    by (simp add: tabs_def Let_def split: sum.splits)
qed

lemma sample_elbow: "elbow sample_inertia (rfm_scaled sample_workspace) = Inl ValueError"
  by (simp add: elbow_eq sample_workspace_def sample_scaled_def)

lemma sample_run:
  "read_csv sample_zip ''data.csv'' = sample_upload" "rfm sample_workspace = sample_segmented"
  by (simp_all add: sample_zip_def sample_workspace_def)

text \<open>The customer tab of the sample upload with the last option selected.\<close>

lemma sample_customer_markdown:
  "map snd (take 5 (drop 2 (fst (customer_tab (rfm sample_workspace)
      (df_with_clusters sample_workspace) 3)))) =
     [St_markdown ''### Customer ID: 17850'',
      St_markdown ''**Cluster:** Loyal Customers'',
      St_markdown ''- Recency (days since last purchase): 3'',
      St_markdown ''- Frequency (purchase count): 2'',
      St_markdown ''- Monetary (total spend): $12.00'']"
  by (simp add: customer_tab_def customer_details_def selectbox_def customer_elements_def
      cluster_text_def recency_text_def sample_workspace_def sample_segmented_def Let_def
      show_nat.simps format_defs round_half_even_def eval_defs)

section \<open>Properties of the screen\<close>


text \<open>
  Property C10 (the screen before the elbow loop). Whenever the analysis of the
  upload succeeds, the screen begins with the title and the uploader and holds
  the cluster summary and the pair plot, and the run ends as the elbow loop
  does: an upload of three to nine customers shows its segments and then an
  exception.
\<close>

theorem script_shows_summary:
  assumes "csv_files (namelist z) = f # fs" and "analyse to_datetime km (read_csv z f) = Inr w"
  shows "prefix preamble (fst (script to_datetime km inertia (Some z) choice)) \<and>
     (Tab_summary, St_dataframe (Cluster_summary (cluster_summary (rfm w)))) \<in>
       set (fst (script to_datetime km inertia (Some z) choice)) \<and>
     snd (script to_datetime km inertia (Some z) choice) =
       (case elbow inertia (rfm_scaled w) of Inl e \<Rightarrow> Uncaught e | Inr ys \<Rightarrow> Completed)"
  by (simp add: script_analysed [OF assms] render_tabs_shows_summary tabs_outcome)

theorem script_shows_summary_witness:
  "analyse sample_to_datetime round_robin sample_upload = Inr sample_workspace \<and>
   (Tab_summary, St_dataframe (Cluster_summary sample_summary)) \<in>
     set (fst (script sample_to_datetime round_robin sample_inertia (Some sample_zip) 0)) \<and>
   snd (script sample_to_datetime round_robin sample_inertia (Some sample_zip) 0) =
     Uncaught ValueError"
  using script_shows_summary [OF sample_csv_files, of sample_to_datetime round_robin
      sample_workspace sample_inertia 0]
  by (simp add: sample_analyse sample_run sample_elbow sample_cluster_summary)

end
