(* ===== verification/Run.thy ===== *)
theory Run
  imports Render
begin

text \<open>
  One run of \<open>src/customer_rfm.py\<close> as a machine: the script is at a place of
  its text, holds the variables that are live there, and has put a list of
  elements on the screen; a step runs the block of lines that begins at that
  place. The places are the beginning of the conditional of line 28, the
  \<open>with\<close> block of line 29, the analysis of line 37 and the four \<open>with\<close> blocks
  of the tabs; a run that has ended stays where it is.

  The theory proves that every run ends, after at most seven steps, in the
  result of \<open>Render.script\<close>; that in every configuration a run can reach the
  screen begins with the title and the uploader and is filled container by
  container in the order of the tabs, with the variables the run holds being
  those of the upload; and that an upload of ten or more dated customers
  arrives at the elbow plot.
\<close>

section \<open>Configurations\<close>

text \<open>
  The place with its live variables: nothing before line 28, the archive
  inside the \<open>with\<close> of line 29, the table at line 37, the workspace from line
  63 on.
\<close>

datatype ('d, 'z) stage =
    Start
  | Opened "('d, 'z) zip_file"
  | Loaded "('d, 'z) raw_row frame"
  | At_overview "'z workspace"
  | At_customer "'z workspace"
  | At_summary "'z workspace"
  | At_viz "'z workspace"
  | Ended outcome

type_synonym ('d, 'z) config = "('d, 'z) stage \<times> screen"

text \<open>Lines 11-15 have run when the conditional of line 28 is reached.\<close>

definition initial :: "('d, 'z) config" where
  "initial = (Start, preamble)"

text \<open>
  A part of the script puts its elements on the screen, and the run goes on
  at the following place or ends with the exception of the part.
\<close>

definition run_part :: "part \<Rightarrow> ('d, 'z) stage \<Rightarrow> screen \<Rightarrow> ('d, 'z) config" where
  "run_part p following shown =
     (case snd p of
        None \<Rightarrow> (following, shown @ fst p)
      | Some e \<Rightarrow> (Ended (Uncaught e), shown @ fst p))"

section \<open>Steps\<close>

text \<open>
  One step for each block: lines 28 and 137-138; lines 29-35; lines 37-60;
  lines 63-77; lines 79-94; lines 96-114; lines 116-135.
\<close>

fun next_config ::
  "('d \<Rightarrow> timestamp option) \<Rightarrow> clusterer \<Rightarrow> inertia \<Rightarrow> ('d, 'z) zip_file option \<Rightarrow> nat \<Rightarrow>
     ('d, 'z) config \<Rightarrow> ('d, 'z) config" where
  "next_config to_datetime km inertia uploaded_zip choice (Start, shown) =
     (case uploaded_zip of
        None \<Rightarrow>
          (Ended Completed, shown @ [(Main, St_info
             ''Please upload a ZIP file containing the customer transactions CSV to proceed.'')])
      | Some zip_file \<Rightarrow> (Opened zip_file, shown))"
| "next_config to_datetime km inertia uploaded_zip choice (Opened zip_file, shown) =
     (case csv_files (namelist zip_file) of
        [] \<Rightarrow> (Ended Halted, shown @ [(Main, St_error ''No CSV found inside the ZIP.'')])
      | f # _ \<Rightarrow> (Loaded (read_csv zip_file f), shown))"
| "next_config to_datetime km inertia uploaded_zip choice (Loaded df, shown) =
     (case analyse to_datetime km df of
        Inl e \<Rightarrow> (Ended (Uncaught e), shown)
      | Inr w \<Rightarrow> (At_overview w, shown))"
| "next_config to_datetime km inertia uploaded_zip choice (At_overview w, shown) =
     run_part overview_tab (At_customer w) shown"
| "next_config to_datetime km inertia uploaded_zip choice (At_customer w, shown) =
     run_part (customer_tab (rfm w) (df_with_clusters w) choice) (At_summary w) shown"
| "next_config to_datetime km inertia uploaded_zip choice (At_summary w, shown) =
     run_part (summary_tab (rfm w)) (At_viz w) shown"
| "next_config to_datetime km inertia uploaded_zip choice (At_viz w, shown) =
     run_part (viz_tab inertia (rfm w) (rfm_scaled w)) (Ended Completed) shown"
| "next_config to_datetime km inertia uploaded_zip choice (Ended out, shown) = (Ended out, shown)"

text \<open>The configuration after a number of steps.\<close>

definition run_steps ::
  "('d \<Rightarrow> timestamp option) \<Rightarrow> clusterer \<Rightarrow> inertia \<Rightarrow> ('d, 'z) zip_file option \<Rightarrow> nat \<Rightarrow>
     nat \<Rightarrow> ('d, 'z) config" where
  "run_steps to_datetime km inertia uploaded_zip choice n =
     (next_config to_datetime km inertia uploaded_zip choice ^^ n) initial"

text \<open>The configurations of a run.\<close>

inductive reachable ::
  "('d \<Rightarrow> timestamp option) \<Rightarrow> clusterer \<Rightarrow> inertia \<Rightarrow> ('d, 'z) zip_file option \<Rightarrow> nat \<Rightarrow>
     ('d, 'z) config \<Rightarrow> bool"
  for to_datetime km inertia uploaded_zip choice where
  start: "reachable to_datetime km inertia uploaded_zip choice initial"
| step: "reachable to_datetime km inertia uploaded_zip choice c \<Longrightarrow>
     reachable to_datetime km inertia uploaded_zip choice
       (next_config to_datetime km inertia uploaded_zip choice c)"

section \<open>Measures and invariants\<close>

text \<open>The number of steps a run can still take from a place.\<close>

fun remaining :: "('d, 'z) stage \<Rightarrow> nat" where
  "remaining Start = 7"
| "remaining (Opened z) = 6"
| "remaining (Loaded df) = 5"
| "remaining (At_overview w) = 4"
| "remaining (At_customer w) = 3"
| "remaining (At_summary w) = 2"
| "remaining (At_viz w) = 1"
| "remaining (Ended out) = 0"

fun ended :: "('d, 'z) stage \<Rightarrow> bool" where
  "ended (Ended out) \<longleftrightarrow> True"
| "ended _ \<longleftrightarrow> False"

text \<open>
  The position of a container on the page: the page itself, then the tabs in
  the order of \<open>st.tabs\<close> (lines 63-65). Containers are ordered by position.
\<close>

fun container_rank :: "container \<Rightarrow> nat" where
  "container_rank Main = 0"
| "container_rank Tab_overview = 1"
| "container_rank Tab_customer = 2"
| "container_rank Tab_summary = 3"
| "container_rank Tab_viz = 4"

instantiation container :: linorder
begin

definition less_eq_container :: "container \<Rightarrow> container \<Rightarrow> bool" where
  "less_eq_container k l \<longleftrightarrow> container_rank k \<le> container_rank l"

definition less_container :: "container \<Rightarrow> container \<Rightarrow> bool" where
  "less_container k l \<longleftrightarrow> container_rank k < container_rank l"

instance
proof
  fix k l m :: container
  show "k < l \<longleftrightarrow> k \<le> l \<and> \<not> l \<le> k"
    by (auto simp: less_eq_container_def less_container_def)
  show "k \<le> k"
    by (simp add: less_eq_container_def)
  show "k \<le> l \<Longrightarrow> l \<le> m \<Longrightarrow> k \<le> m"
    by (simp add: less_eq_container_def)
  show "k \<le> l \<Longrightarrow> l \<le> k \<Longrightarrow> k = l"
    by (cases k; cases l; simp add: less_eq_container_def)
  show "k \<le> l \<or> l \<le> k"
    by (auto simp: less_eq_container_def)
qed

end

text \<open>The last container that a run has filled when it is at a place.\<close>

fun filled :: "('d, 'z) stage \<Rightarrow> nat" where
  "filled (At_customer w) = 1"
| "filled (At_summary w) = 2"
| "filled (At_viz w) = 3"
| "filled (Ended out) = 4"
| "filled _ = 0"

text \<open>
  The screen of a configuration: it begins with the elements of lines 11-15,
  its elements stand container by container in the order of the tabs, and no
  container after the last one filled has an element.
\<close>

definition screen_inv :: "('d, 'z) config \<Rightarrow> bool" where
  "screen_inv c \<longleftrightarrow>
     prefix preamble (snd c) \<and> sorted (map (\<lambda>x. container_rank (fst x)) (snd c)) \<and>
     list_all (\<lambda>x. container_rank (fst x) \<le> filled (fst c)) (snd c)"

text \<open>
  The variables of a configuration: the archive is the uploaded one, the table
  is read from its first CSV member, the workspace is the analysis of that
  table.
\<close>

definition uploaded_df :: "('d, 'z) zip_file option \<Rightarrow> ('d, 'z) raw_row frame option" where
  "uploaded_df uploaded_zip =
     (case uploaded_zip of
        None \<Rightarrow> None
      | Some zip_file \<Rightarrow>
          (case csv_files (namelist zip_file) of [] \<Rightarrow> None | f # _ \<Rightarrow> Some (read_csv zip_file f)))"

definition upload_workspace ::
  "('d \<Rightarrow> timestamp option) \<Rightarrow> clusterer \<Rightarrow> ('d, 'z) zip_file option \<Rightarrow> 'z workspace option" where
  "upload_workspace to_datetime km uploaded_zip =
     (case uploaded_df uploaded_zip of
        None \<Rightarrow> None
      | Some df \<Rightarrow> (case analyse to_datetime km df of Inl e \<Rightarrow> None | Inr w \<Rightarrow> Some w))"

fun stage_inv ::
  "('d \<Rightarrow> timestamp option) \<Rightarrow> clusterer \<Rightarrow> ('d, 'z) zip_file option \<Rightarrow> ('d, 'z) stage \<Rightarrow> bool" where
  "stage_inv to_datetime km uploaded_zip (Opened z) \<longleftrightarrow> uploaded_zip = Some z"
| "stage_inv to_datetime km uploaded_zip (Loaded df) \<longleftrightarrow> uploaded_df uploaded_zip = Some df"
| "stage_inv to_datetime km uploaded_zip (At_overview w) \<longleftrightarrow> upload_workspace to_datetime km uploaded_zip = Some w"
| "stage_inv to_datetime km uploaded_zip (At_customer w) \<longleftrightarrow> upload_workspace to_datetime km uploaded_zip = Some w"
| "stage_inv to_datetime km uploaded_zip (At_summary w) \<longleftrightarrow> upload_workspace to_datetime km uploaded_zip = Some w"
| "stage_inv to_datetime km uploaded_zip (At_viz w) \<longleftrightarrow> upload_workspace to_datetime km uploaded_zip = Some w"
| "stage_inv to_datetime km uploaded_zip _ \<longleftrightarrow> True"

text \<open>Nothing stands in a tab unless the analysis of the upload has returned.\<close>

definition tabs_inv ::
  "('d \<Rightarrow> timestamp option) \<Rightarrow> clusterer \<Rightarrow> ('d, 'z) zip_file option \<Rightarrow> ('d, 'z) config \<Rightarrow> bool" where
  "tabs_inv to_datetime km uploaded_zip c \<longleftrightarrow>
     (if list_ex (\<lambda>x. fst x \<noteq> Main) (snd c)
      then upload_workspace to_datetime km uploaded_zip \<noteq> None else True)"

definition run_inv ::
  "('d \<Rightarrow> timestamp option) \<Rightarrow> clusterer \<Rightarrow> ('d, 'z) zip_file option \<Rightarrow> ('d, 'z) config \<Rightarrow> bool" where
  "run_inv to_datetime km uploaded_zip c \<longleftrightarrow>
     screen_inv c \<and> stage_inv to_datetime km uploaded_zip (fst c) \<and>
     tabs_inv to_datetime km uploaded_zip c"

text \<open>The element of lines 130-135 for a list of inertias.\<close>

definition elbow_plot :: "real list \<Rightarrow> container \<times> element" where
  "elbow_plot ys =
     (Tab_viz, St_pyplot (Line_plot [1..<11] ys ''o'' ''Number of Clusters'' ''WCSS''
        ''Elbow Method''))"

lemmas run_defs = initial_def run_part_def run_steps_def screen_inv_def uploaded_df_def
  upload_workspace_def tabs_inv_def run_inv_def elbow_plot_def

section \<open>Steps of a part\<close>

lemma run_part_simps [simp]:
  "run_part (s, None) following shown = (following, shown @ s)"
  "run_part (s, Some e) following shown = (Ended (Uncaught e), shown @ s)"
  by (simp_all add: run_part_def)

lemma snd_run_part [simp]: "snd (run_part p following shown) = shown @ fst p"
  by (simp add: run_part_def split: option.splits)

lemma fst_run_part:
  "fst (run_part p following shown) =
     (case snd p of None \<Rightarrow> following | Some e \<Rightarrow> Ended (Uncaught e))"
  by (simp add: run_part_def split: option.splits)

lemma next_config_Ended [simp]:
  "(next_config to_datetime km inertia uploaded_zip choice ^^ n) (Ended out, shown) =
     (Ended out, shown)"
  by (induction n) simp_all

section \<open>Every run ends\<close>

text \<open>A step that does not end the run brings it nearer to its end.\<close>

lemma remaining_next_config:
  "remaining (fst (next_config to_datetime km inertia uploaded_zip choice c)) \<le>
     remaining (fst c) - 1"
  by (cases "(to_datetime, km, inertia, uploaded_zip, choice, c)" rule: next_config.cases)
    (auto simp: fst_run_part split: option.splits list.splits sum.splits)

lemma ended_iff_remaining: "ended s \<longleftrightarrow> remaining s = 0"
  by (cases s) simp_all

lemma remaining_funpow:
  "remaining (fst ((next_config to_datetime km inertia uploaded_zip choice ^^ n) c)) \<le>
     remaining (fst c) - n"
proof (induction n)
  case 0
  show ?case by simp
next
  case (Suc n)
  from remaining_next_config [of to_datetime km inertia uploaded_zip choice
      "(next_config to_datetime km inertia uploaded_zip choice ^^ n) c"] Suc
  show ?case by simp
qed

lemma screen_grows:
  "prefix (snd c) (snd (next_config to_datetime km inertia uploaded_zip choice c))"
  by (cases "(to_datetime, km, inertia, uploaded_zip, choice, c)" rule: next_config.cases)
    (auto split: option.splits list.splits sum.splits)

section \<open>The run and the script\<close>

lemma run_tabs:
  "(next_config to_datetime km inertia uploaded_zip choice ^^ 4) (At_overview w, shown) =
     (Ended (case snd (render_tabs inertia choice w) of
               None \<Rightarrow> Completed | Some e \<Rightarrow> Uncaught e),
      shown @ fst (render_tabs inertia choice w))"
proof -
  obtain s where s: "customer_tab (rfm w) (df_with_clusters w) choice = (s, None)"
    using customer_tab_completes [of "rfm w" "df_with_clusters w" choice]
    by (cases "customer_tab (rfm w) (df_with_clusters w) choice") simp
  obtain t r where t: "viz_tab inertia (rfm w) (rfm_scaled w) = (t, r)"
    by (cases "viz_tab inertia (rfm w) (rfm_scaled w)")
  show ?thesis
    by (cases r) (simp_all add: numeral_eq_Suc render_tabs_def overview_tab_def summary_tab_def s t)
qed

lemma run_loaded:
  "(next_config to_datetime km inertia uploaded_zip choice ^^ 5) (Loaded df, shown) =
     (case analyse to_datetime km df of
        Inl e \<Rightarrow> (Ended (Uncaught e), shown)
      | Inr w \<Rightarrow>
          (Ended (case snd (render_tabs inertia choice w) of
                    None \<Rightarrow> Completed | Some e \<Rightarrow> Uncaught e),
           shown @ fst (render_tabs inertia choice w)))"
proof -
  have "(f ^^ 5) x = (f ^^ 4) (f x)" for f :: "('a, 'b) config \<Rightarrow> ('a, 'b) config" and x
    by (simp add: numeral_eq_Suc funpow_swap1)
  then show ?thesis
    by (simp add: run_tabs split: sum.splits)
qed

lemma run_script:
  "run_steps to_datetime km inertia uploaded_zip choice 7 =
     (Ended (snd (script to_datetime km inertia uploaded_zip choice)),
      fst (script to_datetime km inertia uploaded_zip choice))"
proof -
  have "(f ^^ 7) x = (f ^^ 5) (f (f x))" for f :: "('a, 'b) config \<Rightarrow> ('a, 'b) config" and x
    by (simp add: numeral_eq_Suc funpow_swap1)
  then show ?thesis
    by (simp add: run_steps_def initial_def run_loaded script_def
        split: option.splits list.splits sum.splits prod.splits)
qed

section \<open>Invariants of a run\<close>

lemma part_containers:
  "\<forall>x\<in>set (fst overview_tab). container_rank (fst x) \<le> 1"
  "sorted (map (\<lambda>x. container_rank (fst x)) (fst overview_tab))"
  "\<forall>x\<in>set (fst (customer_tab tbl joined choice)). fst x = Tab_customer"
  "\<forall>x\<in>set (fst (summary_tab tbl)). fst x = Tab_summary"
  "\<forall>x\<in>set (fst (viz_tab inertia tbl X)). fst x = Tab_viz"
  by (auto simp: overview_tab_def customer_tab_def customer_elements_def summary_tab_def
      viz_tab_def Let_def split: option.splits sum.splits)

lemma sorted_constant: "\<forall>x\<in>set xs. f x = k \<Longrightarrow> sorted (map f xs)"
  by (induction xs) auto

lemma screen_inv_run_part:
  assumes "screen_inv (s, shown)"
    and "\<forall>x\<in>set (fst p). filled s \<le> container_rank (fst x) \<and> container_rank (fst x) \<le> k"
    and "sorted (map (\<lambda>x. container_rank (fst x)) (fst p))"
    and "filled s \<le> k" and "k \<le> filled following" and "k \<le> 4"
  shows "screen_inv (run_part p following shown)"
proof -
  have "k \<le> filled (fst (run_part p following shown))"
    using assms(5,6) by (auto simp: fst_run_part split: option.splits)
  with assms(1-4) show ?thesis
    by (fastforce simp: screen_inv_def sorted_append list_all_iff)
qed

lemma screen_inv_next_config:
  assumes "screen_inv c"
  shows "screen_inv (next_config to_datetime km inertia uploaded_zip choice c)"
proof (cases "(to_datetime, km, inertia, uploaded_zip, choice, c)" rule: next_config.cases)
  case (1 td k i up ch shown)
  with assms show ?thesis
    by (auto simp: screen_inv_def sorted_append list_all_iff split: option.splits)
next
  case (2 td k i up ch z shown)
  with assms show ?thesis
    by (auto simp: screen_inv_def sorted_append list_all_iff split: list.splits)
next
  case (3 td k i up ch df shown)
  with assms show ?thesis
    by (auto simp: screen_inv_def list_all_iff split: sum.splits)
next
  case (4 td k i up ch w shown)
  with assms part_containers(1,2) show ?thesis
    by (auto intro!: screen_inv_run_part [where k = 1])
next
  case (5 td k i up ch w shown)
  with assms part_containers(3) [of "rfm w" "df_with_clusters w" choice] show ?thesis
    by (auto intro!: screen_inv_run_part [where k = 2] sorted_constant [where k = 2])
next
  case (6 td k i up ch w shown)
  with assms part_containers(4) [of "rfm w"] show ?thesis
    by (auto intro!: screen_inv_run_part [where k = 3] sorted_constant [where k = 3])
next
  case (7 td k i up ch w shown)
  with assms part_containers(5) [of inertia "rfm w" "rfm_scaled w"] show ?thesis
    by (auto intro!: screen_inv_run_part [where k = 4] sorted_constant [where k = 4])
next
  case (8 td k i up ch out shown)
  with assms show ?thesis by simp
qed

lemma stage_inv_next_config:
  assumes "stage_inv to_datetime km uploaded_zip (fst c)"
  shows "stage_inv to_datetime km uploaded_zip
     (fst (next_config to_datetime km inertia uploaded_zip choice c))"
  using assms
  by (cases "(to_datetime, km, inertia, uploaded_zip, choice, c)" rule: next_config.cases)
    (auto simp: fst_run_part uploaded_df_def upload_workspace_def
      split: option.splits list.splits sum.splits)

lemma tabs_inv_next_config:
  assumes "tabs_inv to_datetime km uploaded_zip c"
    and "stage_inv to_datetime km uploaded_zip (fst c)"
  shows "tabs_inv to_datetime km uploaded_zip
     (next_config to_datetime km inertia uploaded_zip choice c)"
  using assms
  by (cases "(to_datetime, km, inertia, uploaded_zip, choice, c)" rule: next_config.cases)
    (auto simp: tabs_inv_def list_ex_iff split: option.splits list.splits sum.splits if_splits)

lemma run_inv_initial: "run_inv to_datetime km uploaded_zip initial"
  by (simp add: run_inv_def initial_def screen_inv_def tabs_inv_def preamble_def)

lemma run_inv_next_config:
  "run_inv to_datetime km uploaded_zip c \<Longrightarrow>
     run_inv to_datetime km uploaded_zip (next_config to_datetime km inertia uploaded_zip choice c)"
  by (simp add: run_inv_def screen_inv_next_config stage_inv_next_config tabs_inv_next_config)

lemma sorted_containers:
  "sorted (map fst shown) \<longleftrightarrow> sorted (map (\<lambda>x. container_rank (fst x)) shown)"
  by (simp add: sorted_map less_eq_container_def)

text \<open>
  A run completes only with the request for an upload or after the elbow loop
  has returned.
\<close>

lemma completes_from:
  assumes "next_config to_datetime km inertia uploaded_zip choice (s, shown) =
      (Ended Completed, shown')"
    and "\<not> ended s"
  shows "s = Start \<and> uploaded_zip = None \<or>
     (\<exists>w ys. s = At_viz w \<and> elbow inertia (rfm_scaled w) = Inr ys)"
  using assms
  by (cases s)
    (auto simp: run_part_def overview_tab_def summary_tab_def customer_tab_completes snd_viz_tab
      split: option.splits list.splits sum.splits)

lemma reachable_inv:
  assumes "reachable to_datetime km inertia uploaded_zip choice c"
  shows "run_inv to_datetime km uploaded_zip c"
  using assms
proof (induction rule: reachable.induct)
  case start
  show ?case by (rule run_inv_initial)
next
  case (step c)
  from step.IH show ?case by (rule run_inv_next_config)
qed

lemma reachable_run_steps:
  "reachable to_datetime km inertia uploaded_zip choice
     (run_steps to_datetime km inertia uploaded_zip choice n)"
  by (induction n) (simp_all add: run_steps_def reachable.intros)

lemma reachable_iff:
  "reachable to_datetime km inertia uploaded_zip choice c \<longleftrightarrow>
     (\<exists>n. c = run_steps to_datetime km inertia uploaded_zip choice n)"
proof
  assume "reachable to_datetime km inertia uploaded_zip choice c"
  then show "\<exists>n. c = run_steps to_datetime km inertia uploaded_zip choice n"
  proof (induction rule: reachable.induct)
    case start
    have "initial = run_steps to_datetime km inertia uploaded_zip choice 0"
      by (simp add: run_steps_def)
    then show ?case ..
  next
    case (step c)
    from step.IH obtain n where "c = run_steps to_datetime km inertia uploaded_zip choice n" ..
    then have "next_config to_datetime km inertia uploaded_zip choice c =
        run_steps to_datetime km inertia uploaded_zip choice (Suc n)"
      by (simp add: run_steps_def)
    then show ?case ..
  qed
next
  assume "\<exists>n. c = run_steps to_datetime km inertia uploaded_zip choice n"
  then show "reachable to_datetime km inertia uploaded_zip choice c"
    by (auto simp: reachable_run_steps)
qed

section \<open>The elbow plot\<close>

lemma render_tabs_shows_plot:
  assumes "elbow inertia (rfm_scaled w) = Inr ys"
  shows "elbow_plot ys \<in> set (fst (render_tabs inertia choice w))"
proof -
  obtain s where s: "customer_tab (rfm w) (df_with_clusters w) choice = (s, None)"
    using customer_tab_completes [of "rfm w" "df_with_clusters w" choice]
    by (cases "customer_tab (rfm w) (df_with_clusters w) choice") simp
  with assms show ?thesis
    by (simp add: render_tabs_def overview_tab_def summary_tab_def viz_tab_def elbow_plot_def)
qed

lemma ten_customers_plot:
  assumes "valid_clusterer km" and "csv_files (namelist z) = f # fs"
    and "10 \<le> card (customers to_datetime (read_csv z f))"
    and "\<forall>c\<in>customers to_datetime (read_csv z f). dated to_datetime (read_csv z f) c"
  shows "\<exists>ys. length ys = 10 \<and>
     elbow_plot ys \<in> set (fst (script to_datetime km inertia (Some z) choice)) \<and>
     snd (script to_datetime km inertia (Some z) choice) = Completed"
proof -
  from assms(3,4) analyse_Inl_iff [OF assms(1), of to_datetime "read_csv z f"]
  have "analyse to_datetime km (read_csv z f) \<noteq> Inl ValueError"
    by auto
  with analyse_cases [of to_datetime km "read_csv z f"]
  obtain w where w: "analyse to_datetime km (read_csv z f) = Inr w"
    by auto
  let ?ys = "map (\<lambda>k. inertia k (map present (rfm_scaled w))) [1..<11]"
  from analyse_rfm_scaled [OF assms(1) w] assms(3)
  have elbow: "elbow inertia (rfm_scaled w) = Inr ?ys"
    by (simp add: elbow_eq)
  then have "elbow_plot ?ys \<in> set (fst (render_tabs inertia choice w))"
    by (rule render_tabs_shows_plot)
  with elbow show ?thesis
    by (intro exI [of _ ?ys]) (simp add: script_analysed [OF assms(2) w] tabs_outcome)
qed

lemma ten_csv_files: "csv_files (namelist ten_zip) = [''data.csv'']"
  by (simp add: ten_zip_def csv_files_def suffix_to_prefix)

lemma ten_read_csv: "read_csv ten_zip f = ten_upload"
  by (simp add: ten_zip_def)

lemma sample_upload_workspace:
  "upload_workspace sample_to_datetime round_robin (Some sample_zip) = Some sample_workspace"
  by (simp add: upload_workspace_def uploaded_df_def sample_csv_files sample_run sample_analyse)

section \<open>Properties of a run\<close>


text \<open>
  Property C12 (safety). In every configuration that a run reaches, the screen
  begins with the configuration of the page, the title and the uploader, its
  elements stand container by container in the order of the tabs, and a tab
  holds an element only if an archive was uploaded whose first CSV member was
  analysed without an exception.
\<close>

theorem run_safe:
  assumes "reachable to_datetime km inertia uploaded_zip choice c"
  shows "prefix preamble (snd c) \<and> sorted (map fst (snd c)) \<and>
     (list_ex (\<lambda>x. fst x \<noteq> Main) (snd c) \<longrightarrow>
        upload_workspace to_datetime km uploaded_zip \<noteq> None)"
  using reachable_inv [OF assms]
  by (simp add: run_inv_def screen_inv_def tabs_inv_def sorted_containers)

theorem run_safe_witness:
  "reachable sample_to_datetime round_robin sample_inertia (Some sample_zip) 0
     (run_steps sample_to_datetime round_robin sample_inertia (Some sample_zip) 0 7) \<and>
   list_ex (\<lambda>x. fst x \<noteq> Main)
     (snd (run_steps sample_to_datetime round_robin sample_inertia (Some sample_zip) 0 7)) \<and>
   upload_workspace sample_to_datetime round_robin (Some sample_zip) = Some sample_workspace"
proof -
  have "(Tab_summary, St_dataframe (Cluster_summary (cluster_summary (rfm sample_workspace)))) \<in>
      set (snd (run_steps sample_to_datetime round_robin sample_inertia (Some sample_zip) 0 7))"
    using sample_analyse render_tabs_shows_summary [of sample_workspace sample_inertia 0]
    by (simp add: run_script script_analysed [OF sample_csv_files] sample_run)
  then have "list_ex (\<lambda>x. fst x \<noteq> Main)
      (snd (run_steps sample_to_datetime round_robin sample_inertia (Some sample_zip) 0 7))"
    unfolding list_ex_iff by (rule rev_bexI) simp
  with run_safe [OF reachable_run_steps, of sample_to_datetime round_robin sample_inertia
      "Some sample_zip" 0 7]
  show ?thesis
    by (simp add: reachable_run_steps sample_upload_workspace)
qed

text \<open>
  Property C24 (liveness). When the clusterer meets its contract and the first
  CSV member of the archive has at least ten customers, each with a dated row,
  the run arrives at the elbow plot: after some steps the plot with its ten
  points is on the screen, and the run completes.
\<close>

theorem elbow_plot_eventually:
  assumes "valid_clusterer km" and "csv_files (namelist z) = f # fs"
    and "10 \<le> card (customers to_datetime (read_csv z f))"
    and "\<forall>c\<in>customers to_datetime (read_csv z f). dated to_datetime (read_csv z f) c"
  shows "\<exists>n ys. length ys = 10 \<and>
     elbow_plot ys \<in> set (snd (run_steps to_datetime km inertia (Some z) choice n)) \<and>
     fst (run_steps to_datetime km inertia (Some z) choice n) = Ended Completed"
  using ten_customers_plot [OF assms, of inertia choice]
  by (auto simp: run_script intro!: exI [of _ 7])

theorem elbow_plot_eventually_witness:
  "valid_clusterer round_robin \<and> csv_files (namelist ten_zip) = [''data.csv''] \<and>
   card (customers sample_to_datetime (read_csv ten_zip ''data.csv'')) = 10 \<and>
   (\<exists>n ys. length ys = 10 \<and>
      elbow_plot ys \<in> set (snd (run_steps sample_to_datetime round_robin sample_inertia
        (Some ten_zip) 0 n)) \<and>
      fst (run_steps sample_to_datetime round_robin sample_inertia (Some ten_zip) 0 n) =
        Ended Completed)"
  using elbow_plot_eventually [OF valid_round_robin ten_csv_files, of sample_to_datetime
      sample_inertia 0]
  by (simp add: valid_round_robin ten_csv_files ten_read_csv ten_customers ten_dated)

end
