(* ===== verification/Spec2Isabelle.thy ===== *)
theory Spec2Isabelle
  imports Naming Wrangle_Refine Run
begin

text \<open>
  \<^bold>\<open>Customer segmentation by RFM analysis: a verification development.\<close>

  The program is one Python script, \<open>src/customer_rfm.py\<close>, a Streamlit page
  that reads a table of retail transactions from an uploaded archive, cleans
  it, reduces it to one row per customer with the recency, frequency and
  monetary value of the customer (RFM), standardizes the three columns,
  clusters the customers with k-means into three clusters, names the clusters,
  joins the names back onto the transactions and shows tables and plots.

  \<^bold>\<open>Parts of the program and where they are modelled.\<close>

  \<^item> \<^emph>\<open>Record normalizer\<close>, \<open>wrangle_data\<close> (lines 17-26): theory \<open>Wrangle\<close>. A
    transaction is the record \<open>txn\<close>, polymorphic in the two columns whose type
    the function changes; each statement of the function is one definition
    (\<open>parse_dates\<close>, \<open>dropna_subset\<close>, \<open>positive_rows\<close>, \<open>drop_duplicates\<close>,
    \<open>add_total_price\<close>, \<open>customer_id_astype_int\<close>) and \<open>wrangle_data\<close> composes
    them in the order of the source. The contract is the one-pass specification
    \<open>wrangle_rows\<close> over \<open>clean_row\<close>.
  \<^item> \<^emph>\<open>The same function on the frame of \<open>pd.read_csv\<close>\<close>: theories
    \<open>Dataframe\<close>, \<open>Wrangle_Df\<close>, \<open>Schema\<close> and \<open>Wrangle_Refine\<close>. A
    \<open>dataframe\<close> is the list of its column labels and its rows of untyped
    cells (\<open>cell\<close>: missing, number, string, time stamp). \<open>Dataframe\<close> has the
    operations of pandas that the function applies (\<open>getitem\<close>, \<open>setitem\<close>,
    \<open>dropna_df\<close>, \<open>gt_zero\<close>, \<open>loc_mask\<close>, \<open>drop_duplicates_df\<close>,
    \<open>mul_series\<close>, \<open>astype_int_series\<close>), each with the exception it raises;
    \<open>Wrangle_Df\<close> has one definition per statement (\<open>parse_dates_df\<close>,
    \<open>positive_rows_df\<close>, \<open>add_total_price_df\<close>, \<open>customer_id_astype_int_df\<close>),
    their composition \<open>wrangle_df\<close>, and the rows each statement keeps
    (\<open>with_customer\<close>, \<open>kept_rows\<close>, \<open>priced_df\<close>). \<open>Schema\<close> names the dtypes
    and the schemas \<open>retail_schema\<close> and \<open>clean_schema\<close>; \<open>Wrangle_Refine\<close>
    decodes a frame into the typed table of \<open>Wrangle\<close> (\<open>decode_df\<close>,
    \<open>decode_clean_df\<close>).
  \<^item> \<^emph>\<open>RFM aggregator\<close> (lines 39-46): theory \<open>Rfm\<close>. \<open>reference_date\<close>,
    \<open>recency\<close>, \<open>rfm_agg\<close> and \<open>rfm_table\<close> over the record \<open>rfm_row\<close>.
  \<^item> \<^emph>\<open>Feature scaler\<close> (lines 48-50): theory \<open>Scaler\<close>. \<open>fit_transform\<close> of
    \<open>StandardScaler\<close> on a matrix of optional reals: \<open>col_mean\<close>, \<open>col_scale\<close>
    (population standard deviation, 1 for a constant column) and \<open>standardize\<close>
    per cell.
  \<^item> \<^emph>\<open>Segmenter\<close> (lines 52-57): theory \<open>Segment\<close>. \<open>fit_predict\<close> with the
    input checks of the library around a labelling \<open>km\<close> that is a parameter,
    the column assignments \<open>assign_Cluster\<close> and \<open>assign_ClusterName\<close>, the
    dictionary \<open>cluster_names\<close>, and \<open>segment\<close> for lines 48-57 in sequence.
    The contract of the labelling is \<open>valid_clusterer\<close>.
  \<^item> \<^emph>\<open>The naming policy of the specification\<close> (\<open>spec.md\<close>, 4.4): theory
    \<open>Naming\<close>. \<open>score\<close>, \<open>cluster_rank\<close> and \<open>name_clusters\<close> are written from the
    specification, since the script has no ranking step; \<open>index_rank\<close> reads
    the dictionary of line 56 as a ranking of the indices.
  \<^item> \<^emph>\<open>Join and summary\<close> (lines 60, 99-105): theory \<open>Summary\<close>. \<open>merge_left\<close>,
    and \<open>cluster_summary\<close> built from \<open>named_rows\<close>, \<open>groupby\<close>, \<open>summary_agg\<close>,
    \<open>round2\<close> and \<open>sort_values_desc\<close>.
  \<^item> \<^emph>\<open>The script body\<close> (lines 37-60): theory \<open>Pipeline\<close>. \<open>clean_and_aggregate\<close>
    is lines 37-46, \<open>analyse\<close> lines 37-60; the result is the record
    \<open>workspace\<close> of the variables \<open>df_clean\<close>, \<open>rfm\<close>, \<open>rfm_scaled\<close> and
    \<open>df_with_clusters\<close>.
  \<^item> \<^emph>\<open>The page\<close> (lines 28-35, 79-129, 137-138): theory \<open>Page\<close>. \<open>csv_files\<close>
    chooses the member of the archive, \<open>customer_details\<close> is the customer tab,
    \<open>elbow_loop\<close> and \<open>elbow\<close> the loop of the elbow plot, \<open>tabs\<close> the tabs in
    the order of the script and \<open>page\<close> one run, whose outcome is the datatype
    \<open>page\<close>.
  \<^item> \<^emph>\<open>The screen\<close> (lines 11-15, 28-33, 63-138): theories \<open>Render\<close> and
    \<open>Format\<close>. A run is the list of the Streamlit calls in the order of the
    script, each an \<open>element\<close> with its arguments in its \<open>container\<close>, and an
    \<open>outcome\<close>. \<open>preamble\<close>, \<open>overview_tab\<close>, \<open>customer_tab\<close>, \<open>summary_tab\<close>
    and \<open>viz_tab\<close> are the parts of the script, \<open>then_part\<close> runs one after
    the other until one raises, \<open>render_tabs\<close> is lines 63-135 and \<open>script\<close>
    the whole run. \<open>Format\<close> has the texts that the f-strings of lines 86-90
    make of numbers (\<open>show_int\<close>, \<open>show_nat\<close>, \<open>format_2f\<close>).
  \<^item> \<^emph>\<open>The run as a machine\<close> (lines 28-138): theory \<open>Run\<close>. A configuration
    is a place of the script with the variables that are live there (\<open>stage\<close>)
    and the screen so far; \<open>next_config\<close> runs the block of lines that begins
    at the place, \<open>run_steps\<close> iterates it from \<open>initial\<close>, and \<open>reachable\<close> is
    the inductive set of the configurations of a run. The containers of the
    page are a linear order (\<open>container_rank\<close>: the page, then the tabs in
    the order of line 63), so that a screen filled in the order of the tabs
    is a sorted list.
  \<^item> \<^emph>\<open>The table operations\<close> of pandas that these lines call: theory \<open>Frame\<close>.
    A table is the list of its rows in index order; a missing cell (\<open>NaN\<close>,
    \<open>NaT\<close>) is \<open>None\<close>.
  \<^item> \<open>Prelude\<close> holds the shared types (\<open>timestamp\<close>, \<open>error\<close>, \<open>result\<close>), the
    fact collections and the list lemmas of the other theories.

  The theories import each other in the order of the data flow: \<open>Prelude\<close>,
  \<open>Frame\<close>, \<open>Wrangle\<close>, \<open>Rfm\<close>, \<open>Scaler\<close>, \<open>Segment\<close>, \<open>Summary\<close>, \<open>Pipeline\<close>,
  \<open>Page\<close>, \<open>Render\<close>, \<open>Run\<close> and this theory. Beside them stand \<open>Naming\<close> on
  \<open>Segment\<close>, \<open>Format\<close> on \<open>Summary\<close>, and the chain \<open>Dataframe\<close>,
  \<open>Wrangle_Df\<close>, \<open>Schema\<close>, \<open>Wrangle_Refine\<close> on \<open>Frame\<close> and \<open>Wrangle\<close>.

  \<^bold>\<open>What the lemmas show.\<close>

  \<^item> \<open>Frame\<close>: for each table operation what it does to the set, the order and
    the number of rows; \<open>drop_duplicates\<close> keeps first occurrences, commutes
    with filters and with injective column maps; \<open>series_max\<close> is the greatest
    present cell; \<open>groupby\<close> partitions the table.
  \<^item> \<open>Wrangle\<close>: \<open>wrangle_data\<close> never raises and implements \<open>wrangle_rows\<close>;
    its rows are canonical; the three dropping steps commute; a second run
    removes exactly the duplicates, and none when the identifiers are whole
    numbers; rows whose date does not parse are kept; the cast after the
    duplicate removal can leave equal rows.
  \<^item> \<open>Dataframe\<close>: the laws of column assignment (a column read after it is
    assigned, assigned after it is read, assigned twice), that every
    operation keeps a frame well formed, and when each operation raises.
  \<^item> \<open>Wrangle_Df\<close>: each statement as an equation, and \<open>wrangle_df\<close> as one
    conditional expression: which exception is raised on which frame, in the
    order of the statements, and the frame returned otherwise.
  \<^item> \<open>Schema\<close>: type safety. On a frame of the retail schema no statement
    raises and the frame returned has the clean schema.
  \<^item> \<open>Wrangle_Refine\<close>: decoding commutes with every statement, and is
    injective on the rows that reach \<open>drop_duplicates\<close>, so that the frame
    returned decodes to the table that \<open>wrangle_data\<close> returns.
  \<^item> \<open>Rfm\<close>: recency is at least one day and is missing exactly for customers
    without any date; frequency is at least 1 and the monetary value positive
    on canonical rows; one row per customer, ascending; the monetary values
    add up to the line totals; the customer of the latest invoice has
    recency 1.
  \<^item> \<open>Scaler\<close>: scaled columns have mean 0 and variance 1; a constant column
    becomes zeros; scaling raises only on a matrix without rows, keeps the
    shape, the missing cells and the order within a column, and does not
    depend on the unit of a column.
  \<^item> \<open>Segment\<close>: segmentation raises exactly for fewer than three customers or
    a missing recency; every customer gets a label below 3 and a name; the name
    follows the index of the cluster, so that two admissible labellings name
    the same customers differently.
  \<^item> \<open>Naming\<close>: the policy of the specification gives the same names however
    the clusters are numbered; the script gives the names of the policy
    exactly when the index of each cluster stands for its rank, which on the
    example of the specification holds for one numbering and fails for
    another.
  \<^item> \<open>Summary\<close>: the left join is total and keeps the order of the
    transactions when the keys are unique and cover them; the summary has one
    row per name, sorted by descending count, its counts add up to the named
    customers, and rounding moves a mean by at most 0.005.
  \<^item> \<open>Pipeline\<close>: the analysis in terms of the upload (\<open>customers\<close>, \<open>dated\<close>):
    when it raises, and what the workspace holds when it returns.
  \<^item> \<open>Page\<close>: the elbow loop returns exactly for ten or more rows, hence the
    page is shown exactly for uploads of ten or more dated customers; what the
    page then shows; the customer tab shows the rows of the selected customer
    and nothing for customer 0; the run stops exactly when the archive has no
    CSV member.
  \<^item> \<open>Format\<close>: the decimal text of a number reads back as the number, and
    the text in the format \<open>.2f\<close> as the number rounded to hundredths.
  \<^item> \<open>Render\<close>: a run ends as \<open>page\<close> says; the screen begins with the title
    and the uploader; whenever the analysis succeeds the cluster summary is on
    the screen, also when the elbow loop raises afterwards.
  \<^item> \<open>Run\<close>: every run ends within seven steps in the result of \<open>script\<close>
    (the measure \<open>remaining\<close> decreases with every step); the invariant
    \<open>run_inv\<close> of the reachable configurations, by rule induction: the screen
    begins with the preamble, is filled container by container, and a tab
    has an element only when the upload was analysed; a run completes only
    with the request for an upload or after the elbow loop (\<open>completes_from\<close>);
    an upload of ten dated customers arrives at the elbow plot.
  \<^item> This theory: the properties that span the stages, from the upload, as
    a typed table or as a frame, to the RFM table and to the workspace.

  \<^bold>\<open>Choices of the model.\<close>

  \<^item> Numbers. Python integers are \<open>int\<close>. The floats of pandas and numpy
    (\<open>UnitPrice\<close>, \<open>TotalPrice\<close>, \<open>Monetary\<close>, the raw \<open>CustomerID\<close>, the scaled
    matrix, the means) are \<open>real\<close>: arithmetic is exact, rounding and overflow
    of IEEE doubles and of \<open>int64\<close> are not modelled. \<open>round(2)\<close> rounds the
    exact value half to even.
  \<^item> Time. A time stamp is its number of nanoseconds since the epoch;
    \<open>one_day\<close> is \<open>pd.Timedelta(days=1)\<close>. Time zones do not occur.
  \<^item> Library code as parameters. \<open>pd.to_datetime\<close> is the parameter
    \<open>to_datetime\<close>, the labelling of k-means the parameter \<open>km\<close>, its inertia
    the parameter \<open>inertia\<close>, the reader of the archive the field \<open>read_csv\<close>.
    The theorems hold for every parser, reader and inertia, and for every
    labelling that meets \<open>valid_clusterer\<close>. The witnesses use
    \<open>sample_to_datetime\<close>, \<open>round_robin\<close> and \<open>sample_inertia\<close>. On frames
    the parser takes a cell, and Python's \<open>int\<close> on a string is the parameter
    \<open>to_int\<close>.
  \<^item> Columns. The typed table has the column types that \<open>read_csv\<close> gives the
    retail data set: \<open>Quantity\<close> is integral, \<open>UnitPrice\<close> has no missing
    cell, \<open>Description\<close> and \<open>CustomerID\<close> have. The record type excludes tables
    that lack a column or hold a string where a number is expected; these are
    frames of theory \<open>Dataframe\<close>, on which \<open>wrangle_df\<close> raises. The analysis
    after \<open>wrangle_data\<close> is modelled on the typed table only, which theory
    \<open>Wrangle_Refine\<close> justifies for the frames of the retail schema.
  \<^item> Errors. A call that can raise returns \<open>error + 'a\<close>, and \<open>bind_result\<close>
    sequences the statements, so that the first exception ends the run. The
    outcome \<open>page\<close> does not say what was rendered before an exception; the
    run \<open>script\<close> of theory \<open>Render\<close> does.
  \<^item> Texts. A text of the source is the list of the bytes of its UTF-8
    encoding, so that the emoji of the title and of the tab labels are
    characters above 127. \<open>str\<close> of a float is modelled for whole numbers of
    days only, and the format \<open>.2f\<close> rounds the exact real.
  \<^item> Loops. The only loop of the script is the elbow loop, a recursion on the
    list \<open>[1..<11]\<close> of its iterations; \<open>show_nat\<close> recurses on the number
    divided by ten. Every function of the development is total and there is
    no fuel. The machine of theory \<open>Run\<close> needs seven steps at most, one per
    block of the script, which is why its theorems speak of seven steps.
  \<^item> Reruns. Streamlit runs the script again after every interaction; each
    run is independent of the one before (the script keeps no session state),
    so the model is of one run, with the uploaded archive and the choice in
    the selector as its inputs.
  \<^item> Sorting. \<open>sort_values\<close> is modelled as a stable sort; pandas uses the
    unstable quicksort of numpy, which is an insertion sort on the at most
    three rows of the summary.

  \<^bold>\<open>Not modelled.\<close>

  \<^item> Drawing: what Streamlit, matplotlib and seaborn make of the arguments
    they are given, and the checks these libraries make of their arguments
    (seaborn compares the number of markers with the number of segment names
    that occur). The model ends at the call and its arguments.
  \<^item> The ZIP and CSV readers and the numerical core of k-means, which are
    library code the script only calls; k-means enters through its contract.
  \<^item> The analysis after \<open>wrangle_data\<close> on frames outside the retail schema
    (a frame without the column \<open>InvoiceNo\<close> passes \<open>wrangle_data\<close> and makes
    line 43 raise \<open>KeyError\<close>; one without \<open>StockCode\<close> raises at line 94).
  \<^item> The imports and the comment of lines 1-10.
\<close>

section \<open>Cleaning followed by aggregation\<close>

text \<open>
  Property C27 (the RFM table of any upload). Whatever table is uploaded and
  however its dates parse, cleaning and aggregating it returns normally, and
  every row of the RFM table belongs to a customer of the cleaned table, has a
  positive monetary value, a frequency of at least 1 and a recency that is
  missing or at least 1.
\<close>

theorem clean_and_aggregate_sound:
  "\<exists>df_clean rfm. clean_and_aggregate to_datetime df = Inr (df_clean, rfm) \<and>
     (\<forall>row\<in>set rfm.
        (\<exists>r\<in>set df_clean. txn.CustomerID r = CustomerID row) \<and>
        0 < Monetary row \<and> 1 \<le> Frequency row \<and>
        (case Recency row of None \<Rightarrow> True | Some d \<Rightarrow> 1 \<le> d))"
proof -
  let ?clean = "wrangle_rows to_datetime df"
  have "\<forall>row\<in>set (rfm_table ?clean).
        (\<exists>r\<in>set ?clean. txn.CustomerID r = CustomerID row) \<and>
        0 < Monetary row \<and> 1 \<le> Frequency row \<and>
        (case Recency row of None \<Rightarrow> True | Some d \<Rightarrow> 1 \<le> d)"
  proof
    fix row assume row: "row \<in> set (rfm_table ?clean)"
    then have "CustomerID row \<in> txn.CustomerID ` set ?clean"
      by (auto simp: rfm_table_member_iff)
    moreover from row have "0 < Monetary row"
      by (rule rfm_monetary_pos) (rule wrangle_rows_canonical)
    moreover from row have "1 \<le> Frequency row" by (rule rfm_frequency_bounds)
    moreover have "case Recency row of None \<Rightarrow> True | Some d \<Rightarrow> 1 \<le> d"
      using row by (auto split: option.split elim: rfm_row_recency_bounds)
    ultimately show "(\<exists>r\<in>set ?clean. txn.CustomerID r = CustomerID row) \<and>
        0 < Monetary row \<and> 1 \<le> Frequency row \<and>
        (case Recency row of None \<Rightarrow> True | Some d \<Rightarrow> 1 \<le> d)"
      by auto
  qed
  then show ?thesis by (simp add: clean_and_aggregate_Inr_iff)
qed

theorem clean_and_aggregate_sound_witness:
  "clean_and_aggregate sample_to_datetime sample_raw = Inr (sample_clean, sample_rfm) \<and>
   list_all (\<lambda>row.
      (\<exists>r\<in>set sample_clean. txn.CustomerID r = CustomerID row) \<and>
      0 < Monetary row \<and> 1 \<le> Frequency row \<and>
      (case Recency row of None \<Rightarrow> True | Some d \<Rightarrow> 1 \<le> d)) sample_rfm"
  using clean_and_aggregate_sound [of sample_to_datetime sample_raw]
  by (simp add: sample_clean_and_aggregate list_all_iff)

text \<open>
  Property C40 (the empty table). The RFM table is empty exactly when no row of
  the upload has a customer and a positive quantity and price; cleaning and
  aggregating raise nothing in that case.
\<close>

theorem clean_and_aggregate_empty_iff:
  "clean_and_aggregate to_datetime df = Inr ([], []) \<longleftrightarrow>
     (\<forall>x\<in>set df. txn.CustomerID x = None \<or> \<not> 0 < Quantity x \<or> \<not> 0 < UnitPrice x)"
proof -
  have "clean_and_aggregate to_datetime df = Inr ([], []) \<longleftrightarrow> wrangle_rows to_datetime df = []"
    unfolding clean_and_aggregate_Inr_iff by (metis rfm_table_Nil_iff)
  also have "\<dots> \<longleftrightarrow>
      (\<forall>x\<in>set df. txn.CustomerID x = None \<or> \<not> 0 < Quantity x \<or> \<not> 0 < UnitPrice x)"
    unfolding wrangle_rows_Nil_iff by (simp add: keep_row_def)
  finally show ?thesis .
qed

theorem clean_and_aggregate_empty_iff_witness:
  "clean_and_aggregate sample_to_datetime
     [sample_row ''C536379'' (- 1) ''2010-12-01'' 27 (Some 14527)] = Inr ([], [])"
  using clean_and_aggregate_empty_iff
    [of sample_to_datetime "[sample_row ''C536379'' (- 1) ''2010-12-01'' 27 (Some 14527)]"]
  by (simp add: sample_row_def)

section \<open>The whole analysis\<close>

text \<open>
  Property C17 (when the analysis raises). With a clusterer that meets its
  contract, lines 37-60 raise \<open>ValueError\<close> exactly when the upload has fewer
  than three customers or a customer none of whose dates parses; no other
  exception occurs.
\<close>

theorem analyse_raises_iff:
  assumes "valid_clusterer km"
  shows "(analyse to_datetime km df = Inl ValueError \<longleftrightarrow>
       card (customers to_datetime df) < 3 \<or>
       (\<exists>c\<in>customers to_datetime df. \<not> dated to_datetime df c)) \<and>
     analyse to_datetime km df \<noteq> Inl IndexError"
  using analyse_Inl_iff [OF assms, of to_datetime df] analyse_cases [of to_datetime km df]
  by auto

theorem analyse_raises_iff_witness:
  "analyse sample_to_datetime round_robin sample_raw = Inl ValueError \<and>
   analyse sample_to_datetime round_robin sample_upload \<noteq> Inl ValueError"
  using analyse_raises_iff [OF valid_round_robin, of sample_to_datetime sample_raw]
    analyse_raises_iff [OF valid_round_robin, of sample_to_datetime sample_upload]
  by (simp add: sample_customers) (simp add: dated_def sample_wrangle_rows sample_upload_wrangle
      sample_clean_def sample_upload_clean_def sample_clean_row_def)

text \<open>
  Property C8 (every transaction gets a segment). When the analysis returns,
  the joined table has the rows of the cleaned table in their order, and each
  of them carries the segment row of its customer, with a cluster below 3 and
  the name the dictionary has for it.
\<close>

theorem analyse_join_total:
  assumes "valid_clusterer km" and "analyse to_datetime km df = Inr w"
  shows "map fst (df_with_clusters w) = df_clean w \<and>
     list_all (\<lambda>(r, m). \<exists>s\<in>set (rfm w). m = Some s \<and> CustomerID s = txn.CustomerID r \<and>
         Cluster s < 3 \<and> segmented_row.ClusterName s = cluster_names (Cluster s) \<and>
         segmented_row.ClusterName s \<noteq> None)
       (df_with_clusters w)"
proof -
  have "\<exists>s\<in>set (rfm w). m = Some s \<and> CustomerID s = txn.CustomerID r \<and>
      Cluster s < 3 \<and> segmented_row.ClusterName s = cluster_names (Cluster s) \<and>
      segmented_row.ClusterName s \<noteq> None"
    if "(r, m) \<in> set (df_with_clusters w)" for r m
    using analyse_join(2) [OF assms that] analyse_named [OF assms] by blast
  with analyse_join(1) [OF assms] show ?thesis
    by (auto simp: list_all_iff)
qed

theorem analyse_join_total_witness:
  "map fst (df_with_clusters sample_workspace) = df_clean sample_workspace \<and>
   list_all (\<lambda>(r, m). \<exists>s\<in>set (rfm sample_workspace). m = Some s \<and>
       CustomerID s = txn.CustomerID r \<and> Cluster s < 3 \<and>
       segmented_row.ClusterName s = cluster_names (Cluster s) \<and>
       segmented_row.ClusterName s \<noteq> None)
     (df_with_clusters sample_workspace)"
  using analyse_join_total [OF valid_round_robin sample_analyse] .

text \<open>
  Property C13 (the summary counts the customers). When the analysis returns,
  the cluster summary has at most three rows and their customer counts add up
  to the number of customers of the upload, which is at least three.
\<close>

theorem analyse_summary_counts:
  assumes "valid_clusterer km" and "analyse to_datetime km df = Inr w"
  shows "sum_list (map Customer_Count (cluster_summary (rfm w))) = card (customers to_datetime df) \<and>
     length (cluster_summary (rfm w)) \<le> 3 \<and> 3 \<le> card (customers to_datetime df)"
proof -
  from assms(2) have "analyse to_datetime km df \<noteq> Inl ValueError" by simp
  then have "3 \<le> card (customers to_datetime df)"
    by (simp add: analyse_Inl_iff [OF assms(1)])
  with analyse_summary [OF assms] show ?thesis by simp
qed

theorem analyse_summary_counts_witness:
  "sum_list (map Customer_Count (cluster_summary (rfm sample_workspace))) = 4 \<and>
   length (cluster_summary (rfm sample_workspace)) \<le> 3"
  using analyse_summary_counts [OF valid_round_robin sample_analyse]
  by (simp add: sample_customers)

section \<open>From the file to the customer table\<close>



end
